theory Spec2Isabelle
  imports Complex_Main
begin

section \<open>Numbers, sides and time\<close>

text \<open>
  The program computes with JavaScript numbers, which are IEEE 754 binary64 values. A
  finite double is modelled as the real number it denotes, and \<open>jsnum\<close> adds the two
  infinities and NaN. The two zeros are one value, \<open>Num 0\<close>: a division by zero is
  taken as a division by \<open>+0\<close>.

  The arithmetic of the lock detector, of the regime statistics, of the trendiness score
  and of the worker is double arithmetic: every operation rounds its exact result to the
  nearest double, ties to even (\<open>rnd\<close>, \<open>fl\<close> and the operations on \<open>jsnum\<close> below),
  and a decimal literal of the source is the double nearest to it. The rolling averages,
  the leader tracker, the OBI calculator and the guardrails are modelled on exact reals,
  with the finite quotients of \<open>js_div\<close>.
  Clock readings (\<open>Date.now()\<close>) are integers in milliseconds, passed as a parameter.
\<close>

datatype jsnum = Num real | PosInfinity | NegInfinity | NaN

datatype side = YES | NO

type_synonym millis = int

text \<open>\<open>a / b\<close> as JavaScript evaluates it for finite operands.\<close>

definition js_div :: "real \<Rightarrow> real \<Rightarrow> jsnum" where
  "js_div a b =
     (if b \<noteq> 0 then Num (a / b)
      else if a > 0 then PosInfinity
      else if a < 0 then NegInfinity
      else NaN)"

text \<open>\<open>x >= t\<close> for a possibly non-finite \<open>x\<close> and a finite \<open>t\<close>; NaN compares false.\<close>

fun js_ge :: "jsnum \<Rightarrow> real \<Rightarrow> bool" where
  "js_ge (Num x) t = (x \<ge> t)"
| "js_ge PosInfinity t = True"
| "js_ge NegInfinity t = False"
| "js_ge NaN t = False"

text \<open>\<open>x || 0\<close> on a number: a falsy number is replaced by 0.\<close>

definition orZero :: "real \<Rightarrow> real" where
  "orZero x = (if x = 0 then 0 else x)"

section \<open>Double arithmetic\<close>

text \<open>
  The binary exponent of a positive real: \<open>expoUp x\<close> counts the halvings that bring
  \<open>x \<ge> 1\<close> below 2, \<open>expoDown x\<close> the doublings that bring \<open>0 < x < 1\<close> up to 1, so
  that \<open>2 powi expo x \<le> \<bar>x\<bar> < 2 powi (expo x + 1)\<close> for \<open>x \<noteq> 0\<close>.
\<close>

function expoUp :: "real \<Rightarrow> int" where
  "expoUp x = (if x < 2 then 0 else 1 + expoUp (x / 2))"
  by pat_completeness auto
termination
proof (relation "measure (\<lambda>x. nat \<lfloor>x\<rfloor>)")
  show "wf (measure (\<lambda>x. nat \<lfloor>x\<rfloor>))" by simp
next
  fix x :: real assume "\<not> x < 2"
  then have "\<lfloor>x / 2\<rfloor> < \<lfloor>x\<rfloor>" and "0 < \<lfloor>x\<rfloor>" by linarith+
  then show "(x / 2, x) \<in> measure (\<lambda>x. nat \<lfloor>x\<rfloor>)" by simp
qed

function expoDown :: "real \<Rightarrow> int" where
  "expoDown x = (if 1 \<le> x \<or> x \<le> 0 then 0 else expoDown (2 * x) - 1)"
  by pat_completeness auto
termination
proof (relation "measure (\<lambda>x. nat \<lceil>1 / x\<rceil>)")
  show "wf (measure (\<lambda>x. nat \<lceil>1 / x\<rceil>))" by simp
next
  fix x :: real assume "\<not> (1 \<le> x \<or> x \<le> 0)"
  then have x: "0 < x" "x < 1" by simp_all
  then have y: "1 < 1 / x" by simp
  define yy where "yy = 1 / x"
  define c where "c = \<lceil>yy\<rceil>"
  have y1: "1 < yy" using y unfolding yy_def .
  have c2: "2 \<le> c" using y1 unfolding c_def by linarith
  have yc: "yy \<le> of_int c" unfolding c_def by (rule le_of_int_ceiling)
  have c2r: "(2::real) \<le> of_int c" using c2 by linarith
  have "yy / 2 \<le> of_int c - 1" using yc c2r by linarith
  then have "yy / 2 \<le> of_int (c - 1)" by simp
  then have "\<lceil>yy / 2\<rceil> \<le> c - 1" by (rule ceiling_le)
  then have "\<lceil>yy / 2\<rceil> < c" by linarith
  moreover have h: "1 / (2 * x) = yy / 2" unfolding yy_def by simp
  ultimately have "\<lceil>1 / (2 * x)\<rceil> < c" by (simp only: h)
  then have "\<lceil>1 / (2 * x)\<rceil> < \<lceil>1 / x\<rceil>" unfolding c_def yy_def .
  moreover have "0 < \<lceil>1 / x\<rceil>" using y by linarith
  ultimately show "(2 * x, x) \<in> measure (\<lambda>x. nat \<lceil>1 / x\<rceil>)" by simp
qed

declare expoUp.simps [simp del] expoDown.simps [simp del]

definition expo :: "real \<Rightarrow> int" where
  "expo x = (if \<bar>x\<bar> \<ge> 1 then expoUp \<bar>x\<bar> else expoDown \<bar>x\<bar>)"

text \<open>The integer nearest to \<open>y\<close>, the even one of the two when \<open>y\<close> is half-way.\<close>

definition roundEven :: "real \<Rightarrow> int" where
  "roundEven y =
     (let f = \<lfloor>y\<rfloor>; d = y - of_int f
      in if d < 1 / 2 then f else if d > 1 / 2 then f + 1 else if even f then f else f + 1)"

text \<open>
  Rounding to 53 significant bits, the exponent not below \<open>-1022\<close> (below it the
  doubles are the subnormal multiples of \<open>2 powi (-1074)\<close>) and not bounded above:
  \<open>rnd x\<close> is the double nearest to \<open>x\<close> as long as that is finite. \<open>fl\<close> adds the
  overflow: a rounded value of magnitude \<open>2 ^ 1024\<close> or more is an infinity.
\<close>

definition rnd :: "real \<Rightarrow> real" where
  "rnd x =
     (if x = 0 then 0
      else (let e = max (expo x) (- 1022); u = 2 powi (e - 52)
            in of_int (roundEven (x / u)) * u))"

definition fl :: "real \<Rightarrow> jsnum" where
  "fl x =
     (let r = rnd x
      in if r \<ge> 2 ^ 1024 then PosInfinity
         else if r \<le> - (2 ^ 1024) then NegInfinity
         else Num r)"

text \<open>The smallest positive double.\<close>

definition minSubnormal :: real where
  "minSubnormal = 2 powi (- 1074)"

text \<open>The operators \<open>-x\<close>, \<open>a + b\<close>, \<open>a - b\<close>, \<open>a * b\<close>, \<open>a / b\<close>.\<close>

fun jneg :: "jsnum \<Rightarrow> jsnum" where
  "jneg (Num a) = Num (- a)"
| "jneg PosInfinity = NegInfinity"
| "jneg NegInfinity = PosInfinity"
| "jneg NaN = NaN"

fun jadd :: "jsnum \<Rightarrow> jsnum \<Rightarrow> jsnum" where
  "jadd (Num a) (Num b) = fl (a + b)"
| "jadd NaN y = NaN"
| "jadd x NaN = NaN"
| "jadd PosInfinity NegInfinity = NaN"
| "jadd NegInfinity PosInfinity = NaN"
| "jadd PosInfinity y = PosInfinity"
| "jadd NegInfinity y = NegInfinity"
| "jadd x PosInfinity = PosInfinity"
| "jadd x NegInfinity = NegInfinity"

definition jsub :: "jsnum \<Rightarrow> jsnum \<Rightarrow> jsnum" where
  "jsub x y = jadd x (jneg y)"

text \<open>The sign of an infinite product or quotient: that of the finite factor \<open>a\<close>
  applied to the infinity \<open>i\<close>; zero times infinity is NaN.\<close>

definition signed :: "real \<Rightarrow> jsnum \<Rightarrow> jsnum" where
  "signed a i = (if a > 0 then i else if a < 0 then jneg i else NaN)"

fun jmul :: "jsnum \<Rightarrow> jsnum \<Rightarrow> jsnum" where
  "jmul (Num a) (Num b) = fl (a * b)"
| "jmul NaN y = NaN"
| "jmul x NaN = NaN"
| "jmul (Num a) y = signed a y"
| "jmul x (Num b) = signed b x"
| "jmul PosInfinity y = y"
| "jmul NegInfinity y = jneg y"

fun jdiv :: "jsnum \<Rightarrow> jsnum \<Rightarrow> jsnum" where
  "jdiv (Num a) (Num b) = (if b = 0 then signed a PosInfinity else fl (a / b))"
| "jdiv NaN y = NaN"
| "jdiv x NaN = NaN"
| "jdiv (Num a) y = Num 0"
| "jdiv x (Num b) = (if b \<ge> 0 then x else jneg x)"
| "jdiv x y = NaN"

text \<open>The comparisons; every comparison with NaN is false.\<close>

fun jlt :: "jsnum \<Rightarrow> jsnum \<Rightarrow> bool" where
  "jlt (Num a) (Num b) = (a < b)"
| "jlt NaN y = False"
| "jlt x NaN = False"
| "jlt x NegInfinity = False"
| "jlt PosInfinity y = False"
| "jlt x y = True"

definition jgt :: "jsnum \<Rightarrow> jsnum \<Rightarrow> bool" where
  "jgt x y = jlt y x"

definition jle :: "jsnum \<Rightarrow> jsnum \<Rightarrow> bool" where
  "jle x y = (x \<noteq> NaN \<and> y \<noteq> NaN \<and> \<not> jlt y x)"

definition jge :: "jsnum \<Rightarrow> jsnum \<Rightarrow> bool" where
  "jge x y = jle y x"

text \<open>\<open>Math.abs\<close>, \<open>Math.min\<close>, \<open>Math.ceil\<close> and \<open>Math.sqrt\<close>. The ceiling of
  a double is a double; the square root is the correctly rounded one.\<close>

fun jabs :: "jsnum \<Rightarrow> jsnum" where
  "jabs (Num a) = Num \<bar>a\<bar>"
| "jabs PosInfinity = PosInfinity"
| "jabs NegInfinity = PosInfinity"
| "jabs NaN = NaN"

definition jmin :: "jsnum \<Rightarrow> jsnum \<Rightarrow> jsnum" where
  "jmin x y = (if x = NaN \<or> y = NaN then NaN else if jlt y x then y else x)"

fun jceil :: "jsnum \<Rightarrow> jsnum" where
  "jceil (Num a) = Num (of_int \<lceil>a\<rceil>)"
| "jceil x = x"

fun jsqrt :: "jsnum \<Rightarrow> jsnum" where
  "jsqrt (Num a) = (if a < 0 then NaN else fl (sqrt a))"
| "jsqrt PosInfinity = PosInfinity"
| "jsqrt NegInfinity = NaN"
| "jsqrt NaN = NaN"

section \<open>LockDetector (lock\_detector.js, src/unnamed/part\_012)\<close>

text \<open>The four fields of a position are finite numbers. What \<open>analyzePosition\<close>
  computes from them are doubles, possibly infinite.\<close>

record position =
  yesShares :: real
  yesCost :: real
  noShares :: real
  noCost :: real

record analysis = position +
  totalCost :: jsnum
  totalShares :: jsnum
  avgYesPrice :: jsnum
  avgNoPrice :: jsnum
  pairCost :: "jsnum option"
  pnlIfYesWins :: jsnum
  pnlIfNoWins :: jsnum
  isDualLock :: bool
  isBreakeven :: bool
  yesDeficit :: jsnum
  noDeficit :: jsnum
  needsRecovery :: bool
  recoverySide :: side

record lockDetails =
  detailsPnlIfYesWins :: jsnum
  detailsPnlIfNoWins :: jsnum
  detailsPosition :: position

record lockDetector =
  locked :: bool
  lockTimestamp :: "millis option"
  lockDetails :: "lockDetails option"

text \<open>The value \<open>checkLock\<close> returns: the analysis spread with the two lock fields.\<close>

record lockResult = analysis +
  resultLocked :: bool
  resultLockTimestamp :: "millis option"

text \<open>The constructor.\<close>

definition newLockDetector :: lockDetector where
  "newLockDetector = \<lparr> locked = False, lockTimestamp = None, lockDetails = None \<rparr>"

definition calculatePayoff :: "position \<Rightarrow> side \<Rightarrow> jsnum" where
  "calculatePayoff p winner =
     (let totalCost = jadd (Num (yesCost p)) (Num (noCost p)) in
      if winner = YES then
        (let proceeds = jmul (Num (yesShares p)) (Num 1.00) in jsub proceeds totalCost)
      else
        (let proceeds = jmul (Num (noShares p)) (Num 1.00) in jsub proceeds totalCost))"

definition analyzePosition :: "position \<Rightarrow> analysis" where
  "analyzePosition p =
     (let tc = jadd (Num (yesCost p)) (Num (noCost p));
          ts = jadd (Num (yesShares p)) (Num (noShares p));
          avgYes = (if yesShares p > 0 then jdiv (Num (yesCost p)) (Num (yesShares p)) else Num 0);
          avgNo = (if noShares p > 0 then jdiv (Num (noCost p)) (Num (noShares p)) else Num 0);
          pnlYes = calculatePayoff p YES;
          pnlNo = calculatePayoff p NO;
          pairedShares = min (yesShares p) (noShares p);
          pc = (if pairedShares > 0 then Some (jdiv tc (Num pairedShares)) else None)
      in \<lparr> yesShares = yesShares p, yesCost = yesCost p,
           noShares = noShares p, noCost = noCost p,
           totalCost = tc, totalShares = ts,
           avgYesPrice = avgYes, avgNoPrice = avgNo, pairCost = pc,
           pnlIfYesWins = pnlYes, pnlIfNoWins = pnlNo,
           isDualLock = (jgt pnlYes (Num 0) \<and> jgt pnlNo (Num 0)),
           isBreakeven = (jge pnlYes (Num 0) \<and> jge pnlNo (Num 0)),
           yesDeficit = (if jlt pnlYes (Num 0) then jabs pnlYes else Num 0),
           noDeficit = (if jlt pnlNo (Num 0) then jabs pnlNo else Num 0),
           needsRecovery = (jlt pnlYes (Num 0) \<or> jlt pnlNo (Num 0)),
           recoverySide = (if jlt pnlYes pnlNo then YES else NO) \<rparr>)"

text \<open>
  \<open>checkLock\<close> reads the clock once, when the lock is achieved; \<open>now\<close> is that
  reading. It returns the result object together with the updated detector.
\<close>

definition checkLock :: "millis \<Rightarrow> position \<Rightarrow> lockDetector \<Rightarrow> lockResult \<times> lockDetector" where
  "checkLock now p d =
     (let a = analyzePosition p;
          d' = (if isDualLock a \<and> \<not> locked d
                then \<lparr> locked = True, lockTimestamp = Some now,
                       lockDetails = Some \<lparr> detailsPnlIfYesWins = pnlIfYesWins a,
                                             detailsPnlIfNoWins = pnlIfNoWins a,
                                             detailsPosition = p \<rparr> \<rparr>
                else d)
      in (analysis.extend a \<lparr> resultLocked = locked d', resultLockTimestamp = lockTimestamp d' \<rparr>,
          d'))"

text \<open>\<open>buffer = 2\<close> is a default parameter: \<open>None\<close> is the omitted argument.\<close>

definition calculateRecoveryShares :: "jsnum \<Rightarrow> jsnum \<Rightarrow> jsnum option \<Rightarrow> jsnum" where
  "calculateRecoveryShares deficit currentPrice buffer =
     (if jle deficit (Num 0) then Num 0
      else if jge currentPrice (Num 1) then PosInfinity
      else (let shares = jadd (jdiv deficit (jsub (Num 1) currentPrice))
                              (case buffer of None \<Rightarrow> Num 2 | Some b \<Rightarrow> b)
            in jceil shares))"

definition reset :: "lockDetector \<Rightarrow> lockDetector" where
  "reset d = \<lparr> locked = False, lockTimestamp = None, lockDetails = None \<rparr>"

definition getState :: "lockDetector \<Rightarrow> lockDetector" where
  "getState d = d"

section \<open>RollingAverage and RollingCounter (src/src/data/rolling\_average.js)\<close>

text \<open>
  Both classes read the clock inside \<open>cleanup\<close>. The reading is the parameter
  \<open>now\<close>; the readings taken during one call of a method are taken to be the same
  instant. Methods that clean up before answering return the cleaned object as well.
\<close>

record sample =
  timestamp :: millis
  sampleValue :: real

record rollingAverage =
  windowMs :: millis
  samples :: "sample list"

definition newRollingAverage :: "millis \<Rightarrow> rollingAverage" where
  "newRollingAverage w = \<lparr> windowMs = w, samples = [] \<rparr>"

definition cleanup :: "millis \<Rightarrow> rollingAverage \<Rightarrow> rollingAverage" where
  "cleanup now ra =
     (let cutoff = now - windowMs ra
      in ra\<lparr> samples := filter (\<lambda>s. timestamp s \<ge> cutoff) (samples ra) \<rparr>)"

text \<open>\<open>add(value, timestamp)\<close>: \<open>ts\<close> is the timestamp stored with the sample.\<close>

definition add :: "real \<Rightarrow> millis \<Rightarrow> millis \<Rightarrow> rollingAverage \<Rightarrow> rollingAverage" where
  "add v ts now ra =
     cleanup now (ra\<lparr> samples := samples ra @ [\<lparr> timestamp = ts, sampleValue = v \<rparr>] \<rparr>)"

definition getAverage :: "millis \<Rightarrow> rollingAverage \<Rightarrow> real option \<times> rollingAverage" where
  "getAverage now ra =
     (let ra' = cleanup now ra in
      if length (samples ra') = 0 then (None, ra')
      else (let sum = foldl (\<lambda>acc s. acc + sampleValue s) 0 (samples ra')
            in (Some (sum / real (length (samples ra'))), ra')))"

definition getLatest :: "millis \<Rightarrow> rollingAverage \<Rightarrow> real option \<times> rollingAverage" where
  "getLatest now ra =
     (let ra' = cleanup now ra in
      if length (samples ra') = 0 then (None, ra')
      else (Some (sampleValue (last (samples ra'))), ra'))"

definition getCount :: "millis \<Rightarrow> rollingAverage \<Rightarrow> nat \<times> rollingAverage" where
  "getCount now ra = (let ra' = cleanup now ra in (length (samples ra'), ra'))"

text \<open>\<open>x || 0\<close> on the result of \<open>getAverage\<close> or \<open>getLatest\<close>: null and 0 give 0.\<close>

definition orZeroOpt :: "real option \<Rightarrow> real" where
  "orZeroOpt x = (case x of None \<Rightarrow> 0 | Some v \<Rightarrow> orZero v)"

record rollingCounter =
  counterWindowMs :: millis
  events :: "millis list"

definition newRollingCounter :: "millis \<Rightarrow> rollingCounter" where
  "newRollingCounter w = \<lparr> counterWindowMs = w, events = [] \<rparr>"

definition counterCleanup :: "millis \<Rightarrow> rollingCounter \<Rightarrow> rollingCounter" where
  "counterCleanup now rc =
     (let cutoff = now - counterWindowMs rc
      in rc\<lparr> events := filter (\<lambda>t. t \<ge> cutoff) (events rc) \<rparr>)"

definition counterRecord :: "millis \<Rightarrow> millis \<Rightarrow> rollingCounter \<Rightarrow> rollingCounter" where
  "counterRecord ts now rc = counterCleanup now (rc\<lparr> events := events rc @ [ts] \<rparr>)"

definition counterGetCount :: "millis \<Rightarrow> rollingCounter \<Rightarrow> nat \<times> rollingCounter" where
  "counterGetCount now rc = (let rc' = counterCleanup now rc in (length (events rc'), rc'))"

definition counterReset :: "rollingCounter \<Rightarrow> rollingCounter" where
  "counterReset rc = rc\<lparr> events := [] \<rparr>"

section \<open>LeaderTracker (leader\_tracker.js, src/unnamed/part\_004)\<close>

record leaderTracker =
  trackerWindowMs :: millis
  flipCounter :: rollingCounter
  leaderHistory :: rollingAverage
  currentLeader :: "side option"
  pendingFlip :: "side option"
  pendingFlipCount :: nat
  totalFlips :: nat

text \<open>The object \<open>update\<close> returns.\<close>

record leaderInfo =
  leader :: "side option"
  flipped :: bool
  flipCount :: nat
  infoTotalFlips :: nat
  priceYes :: real
  priceNo :: real
  spread :: real

definition newLeaderTracker :: "millis \<Rightarrow> leaderTracker" where
  "newLeaderTracker w =
     \<lparr> trackerWindowMs = w, flipCounter = newRollingCounter w,
       leaderHistory = newRollingAverage w, currentLeader = None,
       pendingFlip = None, pendingFlipCount = 0, totalFlips = 0 \<rparr>"

text \<open>The leader of one observation: YES on a strictly higher YES price, else NO.\<close>

definition newLeaderOf :: "real \<Rightarrow> real \<Rightarrow> side" where
  "newLeaderOf pYes pNo = (if pYes > pNo then YES else NO)"

text \<open>The \<open>if\<close>/\<open>else if\<close>/\<open>else\<close> of \<open>update\<close>: the flag \<open>flipped\<close> and the tracker.\<close>

definition updateLeader :: "millis \<Rightarrow> side \<Rightarrow> leaderTracker \<Rightarrow> bool \<times> leaderTracker" where
  "updateLeader now newLeader t =
     (if currentLeader t = None then
        (False, t\<lparr> currentLeader := Some newLeader \<rparr>)
      else if Some newLeader \<noteq> currentLeader t then
        (if pendingFlip t = Some newLeader then
           (let t' = t\<lparr> pendingFlipCount := pendingFlipCount t + 1 \<rparr> in
            if pendingFlipCount t' \<ge> 2 then
              (True, t'\<lparr> currentLeader := Some newLeader,
                         flipCounter := counterRecord now now (flipCounter t'),
                         totalFlips := totalFlips t' + 1,
                         pendingFlip := None,
                         pendingFlipCount := 0 \<rparr>)
            else (False, t'))
         else (False, t\<lparr> pendingFlip := Some newLeader, pendingFlipCount := 1 \<rparr>))
      else (False, t\<lparr> pendingFlip := None, pendingFlipCount := 0 \<rparr>))"

definition update :: "millis \<Rightarrow> real \<Rightarrow> real \<Rightarrow> leaderTracker \<Rightarrow> leaderInfo \<times> leaderTracker" where
  "update now pYes pNo t =
     (let newLeader = newLeaderOf pYes pNo;
          t1 = t\<lparr> leaderHistory :=
                     add (if newLeader = YES then 1 else -1) now now (leaderHistory t) \<rparr>;
          (fl, t2) = updateLeader now newLeader t1;
          (cnt, fc) = counterGetCount now (flipCounter t2);
          t3 = t2\<lparr> flipCounter := fc \<rparr>
      in (\<lparr> leader = currentLeader t3, flipped = fl, flipCount = cnt,
             infoTotalFlips = totalFlips t3, priceYes = pYes, priceNo = pNo,
             spread = \<bar>pYes - pNo\<bar> \<rparr>, t3))"

definition getFlipCount :: "millis \<Rightarrow> leaderTracker \<Rightarrow> nat \<times> leaderTracker" where
  "getFlipCount now t =
     (let (cnt, fc) = counterGetCount now (flipCounter t) in (cnt, t\<lparr> flipCounter := fc \<rparr>))"

definition getLeader :: "leaderTracker \<Rightarrow> side option" where
  "getLeader t = currentLeader t"

definition resetForNewWindow :: "leaderTracker \<Rightarrow> leaderTracker" where
  "resetForNewWindow t =
     t\<lparr> flipCounter := counterReset (flipCounter t),
        totalFlips := 0, pendingFlip := None, pendingFlipCount := 0 \<rparr>"

section \<open>OBICalculator (src/src/data/obi\_calculator.js)\<close>

record obiCalculator =
  obiWindowMs :: millis
  topN :: nat
  obiYes :: rollingAverage
  obiNo :: rollingAverage
  obiCombined :: rollingAverage

text \<open>An order book as the calculator reads it: the sizes of the levels, already parsed
  (\<open>None\<close> where \<open>parseFloat\<close> gives NaN).\<close>

record orderbook =
  bids :: "real option list"
  asks :: "real option list"

definition newOBICalculator :: "millis \<Rightarrow> nat \<Rightarrow> obiCalculator" where
  "newOBICalculator w n =
     \<lparr> obiWindowMs = w, topN = n, obiYes = newRollingAverage w,
       obiNo = newRollingAverage w, obiCombined = newRollingAverage w \<rparr>"

definition calculateOBI :: "real \<Rightarrow> real \<Rightarrow> real" where
  "calculateOBI bidVolume askVolume =
     (let total = bidVolume + askVolume in
      if total = 0 then 0 else (bidVolume - askVolume) / total)"

definition sumTop :: "nat \<Rightarrow> real option list \<Rightarrow> real" where
  "sumTop n levels = foldl (\<lambda>sum level. sum + orZeroOpt level) 0 (take n levels)"

text \<open>\<open>updateFromOrderbook\<close> returns null (\<open>None\<close>) on a missing book, else the raw OBI.\<close>

definition updateFromOrderbook ::
  "millis \<Rightarrow> orderbook option \<Rightarrow> side \<Rightarrow> obiCalculator \<Rightarrow> real option \<times> obiCalculator" where
  "updateFromOrderbook now book sd c =
     (case book of
        None \<Rightarrow> (None, c)
      | Some ob \<Rightarrow>
          (let bidVol = sumTop (topN c) (bids ob);
               askVol = sumTop (topN c) (asks ob);
               obi = calculateOBI bidVol askVol;
               c1 = (if sd = YES then c\<lparr> obiYes := add obi now now (obiYes c) \<rparr>
                     else c\<lparr> obiNo := add obi now now (obiNo c) \<rparr>);
               (ly, ry) = getLatest now (obiYes c1);
               (ln, rn) = getLatest now (obiNo c1);
               c2 = c1\<lparr> obiYes := ry, obiNo := rn \<rparr>
           in (Some obi,
               c2\<lparr> obiCombined := add ((orZeroOpt ly + orZeroOpt ln) / 2) now now (obiCombined c2) \<rparr>)))"

definition updateFromPrices :: "millis \<Rightarrow> real \<Rightarrow> real \<Rightarrow> obiCalculator \<Rightarrow> obiCalculator" where
  "updateFromPrices now pYes pNo c =
     (let yesImbalance = (pYes - 0.50) * 2;
          noImbalance = (pNo - 0.50) * 2
      in c\<lparr> obiYes := add yesImbalance now now (obiYes c),
            obiNo := add noImbalance now now (obiNo c),
            obiCombined := add ((yesImbalance - noImbalance) / 2) now now (obiCombined c) \<rparr>)"

text \<open>
  \<open>getRollingOBI(side = 'YES')\<close>: the argument is any string, \<open>None\<close> when omitted.
  The average is cleaned up in place, so the calculator is returned with the value.
\<close>

definition getRollingOBI :: "millis \<Rightarrow> string option \<Rightarrow> obiCalculator \<Rightarrow> real \<times> obiCalculator" where
  "getRollingOBI now sideArg c =
     (let sd = (case sideArg of None \<Rightarrow> ''YES'' | Some x \<Rightarrow> x) in
      if sd = ''YES'' then
        (let (a, r) = getAverage now (obiYes c) in (orZeroOpt a, c\<lparr> obiYes := r \<rparr>))
      else if sd = ''NO'' then
        (let (a, r) = getAverage now (obiNo c) in (orZeroOpt a, c\<lparr> obiNo := r \<rparr>))
      else
        (let (a, r) = getAverage now (obiCombined c) in (orZeroOpt a, c\<lparr> obiCombined := r \<rparr>)))"

text \<open>\<open>isBlocking(side = 'YES', threshold = -0.30)\<close>.\<close>

definition isBlocking ::
  "millis \<Rightarrow> string option \<Rightarrow> real option \<Rightarrow> obiCalculator \<Rightarrow> bool \<times> obiCalculator" where
  "isBlocking now sideArg thresholdArg c =
     (let threshold = (case thresholdArg of None \<Rightarrow> -0.30 | Some t \<Rightarrow> t);
          (obi, c') = getRollingOBI now (Some (case sideArg of None \<Rightarrow> ''YES'' | Some x \<Rightarrow> x)) c
      in (obi \<le> threshold, c'))"

definition obiReset :: "obiCalculator \<Rightarrow> obiCalculator" where
  "obiReset c =
     c\<lparr> obiYes := newRollingAverage (obiWindowMs c),
        obiNo := newRollingAverage (obiWindowMs c),
        obiCombined := newRollingAverage (obiWindowMs c) \<rparr>"

text \<open>
  \<open>updateOBIFromMarket\<close> fetches both books, then falls back to prices. What the
  network returned is the record \<open>obiFeed\<close>: \<open>booksFetch = None\<close> when a book fetch
  threw or a token is missing, \<open>pricesFetch = None\<close> when a price fetch threw; a missing
  price inside is \<open>None\<close> and is replaced by 0.50, as is a price of 0.
\<close>

record obiFeed =
  booksFetch :: "(orderbook option \<times> orderbook option) option"
  pricesFetch :: "(real option \<times> real option) option"

definition orHalf :: "real option \<Rightarrow> real" where
  "orHalf x = (case x of None \<Rightarrow> 0.50 | Some v \<Rightarrow> if v = 0 then 0.50 else v)"

definition updateOBIFromMarket :: "millis \<Rightarrow> obiFeed \<Rightarrow> obiCalculator \<Rightarrow> obiCalculator" where
  "updateOBIFromMarket now feed c =
     (let (done, c1) =
            (case booksFetch feed of
               None \<Rightarrow> (False, c)
             | Some (yesBook, noBook) \<Rightarrow>
                 (let (yesObi, ca) = updateFromOrderbook now yesBook YES c;
                      (noObi, cb) = updateFromOrderbook now noBook NO ca
                  in (yesObi \<noteq> None \<and> noObi \<noteq> None, cb)))
      in if done then c1
         else (case pricesFetch feed of
                 None \<Rightarrow> c1
               | Some (yesPrice, noPrice) \<Rightarrow> updateFromPrices now (orHalf yesPrice) (orHalf noPrice) c1))"

section \<open>Guardrails (guardrails.js, the second part of src/src/utils/logger.js)\<close>

record config =
  RHR_THRESHOLD :: real
  OBI_BLOCK_THRESHOLD :: real
  FLIP_SKIP_COUNT :: nat
  FLIP_RECOVERY_COUNT :: nat
  MIN_STABILITY :: real
  MIN_SPREAD :: real
  MAX_SPREAD :: real
  MAX_PAIR_COST :: real

definition CONFIG :: config where
  "CONFIG = \<lparr> RHR_THRESHOLD = 0.10, OBI_BLOCK_THRESHOLD = -0.30, FLIP_SKIP_COUNT = 2,
              FLIP_RECOVERY_COUNT = 3, MIN_STABILITY = 0.6, MIN_SPREAD = 0.00,
              MAX_SPREAD = 0.50, MAX_PAIR_COST = 0.99 \<rparr>"

text \<open>
  A reason is a template string filled with numbers. The model keeps the template and
  the numbers that are interpolated, not the rendered text (\<open>toFixed\<close> is not modelled).
\<close>

datatype reason =
    ForemanSays string
  | OnlyPartOfWindow jsnum real
  | ObiBlocked real real string
  | FlipsSkip nat
  | FlipsRecovery nat real
  | StabilityLow real real
  | SpreadTooNarrow real
  | SpreadTooWide real
  | PairCostHigh real real

text \<open>What every check result has; the records below add the fields a check echoes.\<close>

record checkResult =
  check :: string
  passed :: bool
  reason :: "reason option"

record foremanResult = checkResult +
  foremanValue :: string

record rhrResult = checkResult +
  progress :: jsnum
  rhrThreshold :: real

record obiResult = checkResult +
  obiValue :: real
  obiThreshold :: real
  obiResultSide :: string

record flipsResult = checkResult +
  mode :: string
  flipsFlipCount :: nat
  flipsShares :: real

record stabilityResult = checkResult +
  stabilityValue :: real
  stabilityThreshold :: real

record spreadResult = checkResult +
  spreadValue :: real
  minThreshold :: real
  maxThreshold :: real

record pairCostResult = checkResult +
  pairCostValue :: "real option"
  pairCostThreshold :: real

definition checkRHR :: "config \<Rightarrow> real \<Rightarrow> real \<Rightarrow> rhrResult" where
  "checkRHR cfg elapsedSec windowSec =
     (let pr = js_div elapsedSec windowSec;
          ok = js_ge pr (RHR_THRESHOLD cfg)
      in \<lparr> check = ''RHR'', passed = ok,
           reason = (if ok then None else Some (OnlyPartOfWindow pr (RHR_THRESHOLD cfg * 100))),
           progress = pr, rhrThreshold = RHR_THRESHOLD cfg \<rparr>)"

definition checkOBI :: "config \<Rightarrow> real \<Rightarrow> string \<Rightarrow> obiResult" where
  "checkOBI cfg obi sd =
     (let blocking = (obi \<le> OBI_BLOCK_THRESHOLD cfg)
      in \<lparr> check = ''OBI'', passed = (\<not> blocking),
           reason = (if blocking then Some (ObiBlocked obi (OBI_BLOCK_THRESHOLD cfg) sd) else None),
           obiValue = obi, obiThreshold = OBI_BLOCK_THRESHOLD cfg, obiResultSide = sd \<rparr>)"

definition checkFlips :: "config \<Rightarrow> nat \<Rightarrow> real \<Rightarrow> flipsResult" where
  "checkFlips cfg fc sh =
     (if fc \<ge> FLIP_SKIP_COUNT cfg \<and> sh = 0 then
        \<lparr> check = ''FLIPS'', passed = False, reason = Some (FlipsSkip fc),
          mode = ''SKIP'', flipsFlipCount = fc, flipsShares = sh \<rparr>
      else if fc \<ge> FLIP_RECOVERY_COUNT cfg \<and> sh > 0 then
        \<lparr> check = ''FLIPS'', passed = True, reason = Some (FlipsRecovery fc sh),
          mode = ''RECOVERY'', flipsFlipCount = fc, flipsShares = sh \<rparr>
      else
        \<lparr> check = ''FLIPS'', passed = True, reason = None,
          mode = ''NORMAL'', flipsFlipCount = fc, flipsShares = sh \<rparr>)"

definition checkStability :: "config \<Rightarrow> real \<Rightarrow> stabilityResult" where
  "checkStability cfg st =
     (let ok = (st \<ge> MIN_STABILITY cfg)
      in \<lparr> check = ''STABILITY'', passed = ok,
           reason = (if ok then None else Some (StabilityLow st (MIN_STABILITY cfg))),
           stabilityValue = st, stabilityThreshold = MIN_STABILITY cfg \<rparr>)"

definition checkSpread :: "config \<Rightarrow> real \<Rightarrow> real \<Rightarrow> spreadResult" where
  "checkSpread cfg pYes pNo =
     (let sp = \<bar>pYes - pNo\<bar>;
          tooNarrow = (sp < MIN_SPREAD cfg);
          tooWide = (sp > MAX_SPREAD cfg);
          ok = (\<not> tooNarrow \<and> \<not> tooWide)
      in \<lparr> check = ''SPREAD'', passed = ok,
           reason = (if tooNarrow then Some (SpreadTooNarrow sp)
                     else if tooWide then Some (SpreadTooWide sp) else None),
           spreadValue = sp, minThreshold = MIN_SPREAD cfg, maxThreshold = MAX_SPREAD cfg \<rparr>)"

definition checkPairCost :: "config \<Rightarrow> real option \<Rightarrow> pairCostResult" where
  "checkPairCost cfg pc =
     (case pc of
        None \<Rightarrow> \<lparr> check = ''PAIR_COST'', passed = True, reason = None,
                  pairCostValue = None, pairCostThreshold = MAX_PAIR_COST cfg \<rparr>
      | Some c \<Rightarrow>
          (let ok = (c \<le> MAX_PAIR_COST cfg)
           in \<lparr> check = ''PAIR_COST'', passed = ok,
                reason = (if ok then None else Some (PairCostHigh c (MAX_PAIR_COST cfg))),
                pairCostValue = Some c, pairCostThreshold = MAX_PAIR_COST cfg \<rparr>))"

text \<open>
  The argument object of \<open>checkAll\<close>. A field with a default (\<open>windowSec = 900\<close>,
  \<open>obiSide = 'YES'\<close>, \<open>foremanOrder = 'START'\<close>, \<open>pairCost = null\<close>) is an option,
  \<open>None\<close> when the caller leaves it out. The other fields are numbers.
\<close>

record inputs =
  elapsedSec :: real
  windowSec :: "real option"
  obi :: real
  obiSide :: "string option"
  flipCount :: nat
  shares :: real
  stability :: real
  priceYes :: real
  priceNo :: real
  foremanOrder :: "string option"
  pairCost :: "real option"

record results =
  foreman :: foremanResult
  rhr :: rhrResult
  obi :: obiResult
  flips :: flipsResult
  stability :: stabilityResult
  spread :: spreadResult
  pairCost :: pairCostResult

text \<open>A blocker \<open>{ name, reason }\<close> is the pair of the two.\<close>

type_synonym blocker = "string \<times> reason option"

record decision =
  allowed :: bool
  decisionMode :: string
  decisionResults :: results
  blockers :: "blocker list"
  summary :: string

text \<open>\<open>Object.entries(results)\<close>: the keys in insertion order, each with the common
  fields of its result.\<close>

definition entries :: "results \<Rightarrow> (string \<times> checkResult) list" where
  "entries r =
     [(''foreman'', checkResult.truncate (foreman r)),
      (''rhr'', checkResult.truncate (rhr r)),
      (''obi'', checkResult.truncate (results.obi r)),
      (''flips'', checkResult.truncate (flips r)),
      (''stability'', checkResult.truncate (results.stability r)),
      (''spread'', checkResult.truncate (results.spread r)),
      (''pairCost'', checkResult.truncate (results.pairCost r))]"

fun join :: "string \<Rightarrow> string list \<Rightarrow> string" where
  "join sep [] = []"
| "join sep [x] = x"
| "join sep (x # y # ys) = x @ sep @ join sep (y # ys)"

definition checkAll :: "config \<Rightarrow> inputs \<Rightarrow> decision" where
  "checkAll cfg i =
     (let ws = (case inputs.windowSec i of None \<Rightarrow> 900 | Some w \<Rightarrow> w);
          os = (case inputs.obiSide i of None \<Rightarrow> ''YES'' | Some x \<Rightarrow> x);
          fo = (case inputs.foremanOrder i of None \<Rightarrow> ''START'' | Some x \<Rightarrow> x);
          res = \<lparr> foreman = \<lparr> check = ''FOREMAN'', passed = (fo = ''START''),
                              reason = (if fo \<noteq> ''START'' then Some (ForemanSays fo) else None),
                              foremanValue = fo \<rparr>,
                  rhr = checkRHR cfg (inputs.elapsedSec i) ws,
                  obi = checkOBI cfg (inputs.obi i) os,
                  flips = checkFlips cfg (inputs.flipCount i) (inputs.shares i),
                  stability = checkStability cfg (inputs.stability i),
                  spread = checkSpread cfg (inputs.priceYes i) (inputs.priceNo i),
                  pairCost = checkPairCost cfg (inputs.pairCost i) \<rparr>;
          allPassed = list_all (\<lambda>r. passed r) (map snd (entries res));
          bl = map (\<lambda>(name, r). (name, reason r))
                 (filter (\<lambda>(u, r). \<not> passed r) (entries res));
          md = (if allPassed
                then (if mode (flips res) = ''RECOVERY'' then ''RECOVERY'' else ''ENTRY_ALLOWED'')
                else ''BLOCKED'')
      in \<lparr> allowed = allPassed, decisionMode = md, decisionResults = res, blockers = bl,
           summary = (if allPassed then ''Entry allowed ('' @ md @ '')''
                      else ''Entry blocked by: '' @ join '', '' (map fst bl)) \<rparr>)"

section \<open>RegimeTracker (regime\_tracker.js, src/unnamed/part\_001)\<close>

datatype regime = STEADY | WAKING | FADING | CHOPPY

definition HISTORY_SIZE :: nat where "HISTORY_SIZE = 24"

text \<open>The literal \<open>0.15\<close>.\<close>

definition STEADY_THRESHOLD :: real where "STEADY_THRESHOLD = rnd 0.15"

record histEntry =
  score :: real
  entryTimestamp :: millis

record stats =
  avg :: jsnum
  std :: jsnum
  trend :: jsnum

record regimeEntry =
  entryRegime :: regime
  entryStats :: stats
  updatedAt :: millis

record regimeTracker =
  history :: "string \<rightharpoonup> histEntry list"
  regimes :: "string \<rightharpoonup> regimeEntry"

definition newRegimeTracker :: regimeTracker where
  "newRegimeTracker = \<lparr> history = Map.empty, regimes = Map.empty \<rparr>"

text \<open>\<open>this.history[asset] || []\<close>.\<close>

definition histOf :: "regimeTracker \<Rightarrow> string \<Rightarrow> histEntry list" where
  "histOf t asset = (case history t asset of None \<Rightarrow> [] | Some h \<Rightarrow> h)"

text \<open>The scores are finite numbers. \<open>Math.pow(x, 2)\<close> is taken as the double product
  \<open>x * x\<close>.\<close>

definition calculateStats :: "regimeTracker \<Rightarrow> string \<Rightarrow> stats" where
  "calculateStats t asset =
     (let hist = histOf t asset in
      if length hist < 3 then \<lparr> avg = Num 0.5, std = Num 0.5, trend = Num 0 \<rparr>
      else
        (let scores = map score hist;
             n = length scores;
             av = jdiv (foldl (\<lambda>a b. jadd a (Num b)) (Num 0) scores) (Num (real n));
             variance = jdiv (foldl (\<lambda>sum s. jadd sum (jmul (jsub (Num s) av) (jsub (Num s) av)))
                                    (Num 0) scores)
                             (Num (real n));
             sd = jsqrt variance;
             mid = n div 2;
             first = take mid scores;
             second = drop mid scores;
             avgFirst = jdiv (foldl (\<lambda>a b. jadd a (Num b)) (Num 0) first)
                             (Num (real (length first)));
             avgSecond = jdiv (foldl (\<lambda>a b. jadd a (Num b)) (Num 0) second)
                              (Num (real (length second)))
         in \<lparr> avg = av, std = sd, trend = jsub avgSecond avgFirst \<rparr>))"

definition updateRegime :: "millis \<Rightarrow> string \<Rightarrow> regimeTracker \<Rightarrow> regime \<times> regimeTracker" where
  "updateRegime now asset t =
     (let st = calculateStats t asset;
          rg = (if jlt (std st) (Num STEADY_THRESHOLD) then
                  (if jgt (trend st) (Num (rnd 0.05)) then WAKING
                   else if jlt (trend st) (Num (- rnd 0.05)) then FADING
                   else STEADY)
                else CHOPPY)
      in (rg, t\<lparr> regimes := (regimes t)(asset \<mapsto>
                  \<lparr> entryRegime = rg, entryStats = st, updatedAt = now \<rparr>) \<rparr>))"

definition addScore :: "millis \<Rightarrow> string \<Rightarrow> real \<Rightarrow> regimeTracker \<Rightarrow> regimeTracker" where
  "addScore now asset sc t =
     (let h = histOf t asset @ [\<lparr> score = sc, entryTimestamp = now \<rparr>];
          h' = (if length h > HISTORY_SIZE then tl h else h)
      in snd (updateRegime now asset (t\<lparr> history := (history t)(asset \<mapsto> h') \<rparr>)))"

definition getRegime :: "regimeTracker \<Rightarrow> string \<Rightarrow> regime" where
  "getRegime t asset = (case regimes t asset of None \<Rightarrow> CHOPPY | Some e \<Rightarrow> entryRegime e)"

section \<open>ScoreCalculator (src/src/foreman/score\_calculator.js)\<close>

text \<open>\<open>returns\<close> may be missing (\<open>!returns\<close>): \<open>None\<close>. The returns are finite
  numbers.\<close>

definition calculateTrendiness :: "real list option \<Rightarrow> jsnum" where
  "calculateTrendiness returns =
     (case returns of
        None \<Rightarrow> Num 0
      | Some rs \<Rightarrow>
          if length rs = 0 then Num 0
          else (let netReturn = foldl (\<lambda>sum r. jadd sum (Num r)) (Num 0) rs;
                    sumAbs = foldl (\<lambda>sum r. jadd sum (jabs (Num r))) (Num 0) rs
                in if sumAbs = Num 0 then Num 0 else jdiv (jabs netReturn) sumAbs))"

section \<open>AdvancedWorker (the third part of src/src/trader/worker.js)\<close>

datatype tradingState =
  IDLE | ARMED | ENTRY | LADDERING | LOCKING | LOCKED | RECOVERY | ENDGAME

text \<open>The constants of \<open>CONFIG\<close>; a decimal literal is the double nearest to it.\<close>

definition ENTRY_PRICE_YES :: real where "ENTRY_PRICE_YES = rnd 0.60"
definition ENTRY_PRICE_NO :: real where "ENTRY_PRICE_NO = rnd 0.40"
definition ENTRY_SIZE :: real where "ENTRY_SIZE = 10"
definition LADDER_LEVELS :: "real list" where "LADDER_LEVELS = map rnd [0.38, 0.36, 0.34, 0.32, 0.30]"
definition LADDER_SIZE :: real where "LADDER_SIZE = 5"
definition MAX_GTC_ORDERS_PER_ASSET :: real where "MAX_GTC_ORDERS_PER_ASSET = 20"
definition WORKER_MAX_PAIR_COST :: real where "WORKER_MAX_PAIR_COST = 1.00"
definition PAIR_COST_BUFFER :: real where "PAIR_COST_BUFFER = rnd 0.02"
definition ENDGAME_SECONDS :: real where "ENDGAME_SECONDS = 10"
definition ENDGAME_PRICE :: real where "ENDGAME_PRICE = rnd 0.92"
definition MAX_SHARES_PER_ASSET :: real where "MAX_SHARES_PER_ASSET = 50"
definition MAX_SPEND_PER_ASSET :: real where "MAX_SPEND_PER_ASSET = 25"

record caps =
  maxShares :: real
  maxNotional :: real
  maxOpenOrders :: real

text \<open>\<open>orders.risk_caps\<close> as read from the orders file; every level may be missing.\<close>

record riskCapsJson =
  max_shares_per_asset :: "real option"
  max_notional_usd_per_asset :: "real option"
  max_open_orders_per_asset :: "real option"

definition getRiskCaps :: "riskCapsJson option \<Rightarrow> caps" where
  "getRiskCaps rc =
     (let c = (case rc of None \<Rightarrow> \<lparr> max_shares_per_asset = None,
                                     max_notional_usd_per_asset = None,
                                     max_open_orders_per_asset = None \<rparr>
               | Some x \<Rightarrow> x)
      in \<lparr> maxShares = (case max_shares_per_asset c of None \<Rightarrow> MAX_SHARES_PER_ASSET | Some v \<Rightarrow> v),
           maxNotional = (case max_notional_usd_per_asset c of None \<Rightarrow> MAX_SPEND_PER_ASSET | Some v \<Rightarrow> v),
           maxOpenOrders = (case max_open_orders_per_asset c of None \<Rightarrow> MAX_GTC_ORDERS_PER_ASSET | Some v \<Rightarrow> v) \<rparr>)"

text \<open>
  \<open>canPlaceOrder\<close> and \<open>canAddPairPosition\<close> read only \<open>state.position\<close>; the
  position is their first argument. \<open>asset\<close> and \<open>label\<close> only go to the log.
\<close>

definition canPlaceOrder :: "position \<Rightarrow> real \<Rightarrow> real \<Rightarrow> caps \<Rightarrow> bool" where
  "canPlaceOrder p price sz cp =
     (let currentShares = jadd (Num (orZero (yesShares p))) (Num (orZero (noShares p)));
          currentCost = jadd (Num (orZero (yesCost p))) (Num (orZero (noCost p)));
          orderCost = jmul (Num (orZero price)) (Num sz)
      in if jgt (jadd currentShares (Num sz)) (Num (maxShares cp)) then False
         else if jgt (jadd currentCost orderCost) (Num (maxNotional cp)) then False
         else True)"

definition canAddPairPosition :: "position \<Rightarrow> side \<Rightarrow> real \<Rightarrow> real \<Rightarrow> string \<Rightarrow> bool" where
  "canAddPairPosition p sd price sz orderType =
     (let ys = orZero (yesShares p); ns = orZero (noShares p);
          yc = orZero (yesCost p); nc = orZero (noCost p);
          feeRate = (if orderType = ''FOK'' \<or> orderType = ''IOC'' then rnd 0.02 else 0.0);
          addedCost = jmul (jmul (Num (orZero price)) (Num sz)) (jadd (Num 1) (Num feeRate));
          nextYesShares = (if sd = YES then jadd (Num ys) (Num sz) else Num ys);
          nextNoShares = (if sd = NO then jadd (Num ns) (Num sz) else Num ns);
          nextYesCost = (if sd = YES then jadd (Num yc) addedCost else Num yc);
          nextNoCost = (if sd = NO then jadd (Num nc) addedCost else Num nc);
          pairedShares = jmin nextYesShares nextNoShares
      in if jle pairedShares (Num 0) then True
         else (let pc = jdiv (jadd nextYesCost nextNoCost) pairedShares;
                   maxAllowed = jadd (Num WORKER_MAX_PAIR_COST) (Num PAIR_COST_BUFFER)
               in if jgt pc maxAllowed then False else True))"

text \<open>
  The per-asset state of the worker, and what one tick receives from outside: the
  window, the asset's order with its token ids, the clock, and the answers of the
  network and of the exchange. A token id is a string; a missing or empty one is falsy.
  A window id is a number, or null. A FILLED order result carries its fill price, as the
  result of the shadow exchange does, and optionally a size. Prices, sizes and caps are
  finite numbers. What a handler adds to a position is rounded to double (\<open>rnd\<close>); a
  sum beyond the range of the doubles, which the code would store as an infinity, is
  outside the model, a position field being a finite number.
\<close>

record tokens =
  up :: "string option"
  down :: "string option"

record assetOrder =
  orderTokens :: "tokens option"

record window =
  windowId :: "int option"
  elapsed_sec :: real
  remaining_sec :: real

datatype orderResult = Filled real "real option" | NotFilled | Threw

record tickEnv =
  tickNow :: millis
  priceFetch :: "(real option \<times> real option) option"
  feed :: obiFeed
  entryResult :: orderResult
  recoveryResult :: orderResult

record assetState =
  state :: tradingState
  leaderTracker :: leaderTracker
  obiCalculator :: obiCalculator
  lockDetector :: lockDetector
  lastWindowId :: "int option"
  lastTokens :: tokens
  entryDone :: bool
  ladderDone :: bool
  position :: position

definition zeroPosition :: position where
  "zeroPosition = \<lparr> yesShares = 0, yesCost = 0, noShares = 0, noCost = 0 \<rparr>"

definition truthy :: "string option \<Rightarrow> bool" where
  "truthy t = (case t of None \<Rightarrow> False | Some x \<Rightarrow> x \<noteq> [])"

text \<open>\<open>assetOrder.tokens?.up\<close> and \<open>assetOrder.tokens?.down\<close>.\<close>

definition tokenUp :: "assetOrder \<Rightarrow> string option" where
  "tokenUp ao = (case orderTokens ao of None \<Rightarrow> None | Some t \<Rightarrow> up t)"

definition tokenDown :: "assetOrder \<Rightarrow> string option" where
  "tokenDown ao = (case orderTokens ao of None \<Rightarrow> None | Some t \<Rightarrow> down t)"

definition initAssetState :: "(string \<rightharpoonup> assetState) \<Rightarrow> string \<Rightarrow> assetState" where
  "initAssetState m asset =
     (case m asset of
        None \<Rightarrow> \<lparr> state = IDLE,
                  leaderTracker = newLeaderTracker 90000,
                  obiCalculator = newOBICalculator 90000 10,
                  lockDetector = newLockDetector,
                  lastWindowId = None,
                  lastTokens = \<lparr> up = None, down = None \<rparr>,
                  entryDone = False,
                  ladderDone = False,
                  position = zeroPosition \<rparr>
      | Some s \<Rightarrow> s)"

text \<open>
  The block \<open>if (windowId !== state.lastWindowId) { ... }\<close> at the head of
  \<open>processAsset\<close>. Registering the old position with the resolution tracker touches
  only that tracker and is left out.
\<close>

definition detectNewWindow :: "window \<Rightarrow> assetOrder \<Rightarrow> assetState \<Rightarrow> assetState" where
  "detectNewWindow w ao s =
     (if windowId w \<noteq> lastWindowId s then
        s\<lparr> state := ARMED,
           entryDone := False,
           ladderDone := False,
           leaderTracker := resetForNewWindow (leaderTracker s),
           lockDetector := reset (lockDetector s),
           lastWindowId := windowId w,
           lastTokens := \<lparr> up = (if truthy (tokenUp ao) then tokenUp ao else None),
                            down = (if truthy (tokenDown ao) then tokenDown ao else None) \<rparr>,
           position := zeroPosition \<rparr>
      else s)"

text \<open>The prices of the tick: 0.50 each unless both tokens are there and the fetch answers.\<close>

definition currentPrices :: "tickEnv \<Rightarrow> assetOrder \<Rightarrow> real \<times> real" where
  "currentPrices env ao =
     (if truthy (tokenUp ao) \<and> truthy (tokenDown ao) then
        (case priceFetch env of
           None \<Rightarrow> (0.50, 0.50)
         | Some (yesData, noData) \<Rightarrow> (orHalf yesData, orHalf noData))
      else (0.50, 0.50))"

text \<open>\<open>Update trackers\<close>: the leader tracker, then the OBI calculator.\<close>

definition updateTrackers ::
  "tickEnv \<Rightarrow> real \<Rightarrow> real \<Rightarrow> assetState \<Rightarrow> leaderInfo \<times> assetState" where
  "updateTrackers env pYes pNo s =
     (let (info, lt) = update (tickNow env) pYes pNo (leaderTracker s)
      in (info, s\<lparr> leaderTracker := lt,
                   obiCalculator := updateOBIFromMarket (tickNow env) (feed env) (obiCalculator s) \<rparr>))"

definition handleArmed :: "tickEnv \<Rightarrow> window \<Rightarrow> leaderInfo \<Rightarrow> assetState \<Rightarrow> assetState" where
  "handleArmed env w info s =
     (let (rolling, oc) = getRollingOBI (tickNow env) (Some ''YES'') (obiCalculator s);
          s1 = s\<lparr> obiCalculator := oc \<rparr>;
          chk = checkAll CONFIG
                  \<lparr> elapsedSec = elapsed_sec w,
                    windowSec = Some 900,
                    inputs.obi = rolling,
                    obiSide = Some ''YES'',
                    flipCount = leaderInfo.flipCount info,
                    shares = rnd (yesShares (position s1) + noShares (position s1)),
                    inputs.stability = 0.7,
                    priceYes = leaderInfo.priceYes info,
                    priceNo = leaderInfo.priceNo info,
                    foremanOrder = Some ''START'',
                    inputs.pairCost = None \<rparr>
      in if allowed chk then
           (if decisionMode chk = ''RECOVERY'' then s1\<lparr> state := RECOVERY \<rparr>
            else s1\<lparr> state := ENTRY \<rparr>)
         else s1)"

text \<open>
  The handlers below give the effect of each handler on the asset's state. The orders
  they send go to the exchange, which is outside; the answers that matter to the state
  (\<open>entryResult\<close>, \<open>recoveryResult\<close>) are read from the tick's environment, and
  \<open>Threw\<close> is the exception the handler's \<open>try\<close> catches.
\<close>

definition handleEntry :: "tickEnv \<Rightarrow> assetOrder \<Rightarrow> caps \<Rightarrow> assetState \<Rightarrow> assetState" where
  "handleEntry env ao cp s =
     (if entryDone s then s\<lparr> state := LADDERING \<rparr>
      else
        (let ld = getLeader (leaderTracker s);
             tokenId = (if ld = Some YES then tokenUp ao else tokenDown ao);
             entryPrice = (if ld = Some YES then ENTRY_PRICE_YES else ENTRY_PRICE_NO);
             entrySide = (if ld = Some YES then YES else NO);
             finished = s\<lparr> entryDone := True, state := LADDERING \<rparr>
         in if \<not> truthy tokenId then finished
            else if \<not> canPlaceOrder (position s) entryPrice ENTRY_SIZE cp then finished
            else if \<not> canAddPairPosition (position s) entrySide entryPrice ENTRY_SIZE ''FOK''
              then finished
            else
              (case entryResult env of
                 Filled fillPrice fillSize \<Rightarrow>
                   (let p = position s;
                        p' = (if ld = Some YES
                              then p\<lparr> yesShares := rnd (yesShares p + ENTRY_SIZE),
                                      yesCost := rnd (yesCost p + rnd (fillPrice * ENTRY_SIZE)) \<rparr>
                              else p\<lparr> noShares := rnd (noShares p + ENTRY_SIZE),
                                      noCost := rnd (noCost p + rnd (fillPrice * ENTRY_SIZE)) \<rparr>)
                    in s\<lparr> position := p', entryDone := True, state := LADDERING \<rparr>)
               | NotFilled \<Rightarrow> finished
               | Threw \<Rightarrow> finished)))"

text \<open>The ladder orders rest on the exchange; the asset's state only records that the
  ladder was attempted.\<close>

definition handleLaddering :: "assetOrder \<Rightarrow> assetState \<Rightarrow> assetState" where
  "handleLaddering ao s =
     (if ladderDone s then s\<lparr> state := LOCKING \<rparr>
      else s\<lparr> ladderDone := True, state := LOCKING \<rparr>)"

definition handleLocking :: "tickEnv \<Rightarrow> assetState \<Rightarrow> assetState" where
  "handleLocking env s =
     (let (a, d) = checkLock (tickNow env) (position s) (lockDetector s);
          s1 = s\<lparr> lockDetector := d \<rparr>
      in if resultLocked a then s1\<lparr> state := LOCKED \<rparr>
         else if needsRecovery a then
           (let deficit = (if recoverySide a = YES then yesDeficit a else noDeficit a)
            in if jgt deficit (Num 5) then s1\<lparr> state := RECOVERY \<rparr> else s1)
         else s1)"

definition handleRecovery ::
  "tickEnv \<Rightarrow> assetOrder \<Rightarrow> real \<Rightarrow> real \<Rightarrow> caps \<Rightarrow> assetState \<Rightarrow> assetState" where
  "handleRecovery env ao pYes pNo cp s =
     (let a = analyzePosition (position s);
          rs = recoverySide a;
          deficit = (if rs = YES then yesDeficit a else noDeficit a);
          price = (if rs = YES then pYes else pNo);
          sharesNeeded = calculateRecoveryShares deficit (Num price) (Some (Num 2));
          currentShares = jadd (Num (yesShares (position s))) (Num (noShares (position s)));
          back = s\<lparr> state := LOCKING \<rparr>
      in if jgt (jadd currentShares sharesNeeded) (Num (maxShares cp)) then back
         else
           (let additionalCost = jmul sharesNeeded (Num price);
                currentCost = jadd (Num (yesCost (position s))) (Num (noCost (position s)));
                tokenId = (if rs = YES then tokenUp ao else tokenDown ao)
            in if jgt (jadd currentCost additionalCost) (Num (maxNotional cp)) then back
               else if truthy tokenId \<and> jgt sharesNeeded (Num 0) \<and> jlt sharesNeeded (Num 50) then
                 (case sharesNeeded of
                    Num n \<Rightarrow>
                      (let sz = min n 10;
                           orderPrice = rnd (price + rnd 0.02)
                       in if \<not> canPlaceOrder (position s) orderPrice sz cp then back
                          else if \<not> canAddPairPosition (position s) rs orderPrice sz ''IOC''
                            then back
                          else
                            (case recoveryResult env of
                               Filled fillPrice fillSize \<Rightarrow>
                                 (let got = (case fillSize of
                                               None \<Rightarrow> min n 10
                                             | Some z \<Rightarrow> if z = 0 then min n 10 else z);
                                      paid = (if fillPrice = 0 then price else fillPrice);
                                      p = position s;
                                      p' = (if rs = YES
                                            then p\<lparr> yesShares := rnd (yesShares p + got),
                                                    yesCost := rnd (yesCost p + rnd (paid * got)) \<rparr>
                                            else p\<lparr> noShares := rnd (noShares p + got),
                                                    noCost := rnd (noCost p + rnd (paid * got)) \<rparr>)
                                  in s\<lparr> position := p', state := LOCKING \<rparr>)
                             | NotFilled \<Rightarrow> back
                             | Threw \<Rightarrow> back))
                  | PosInfinity \<Rightarrow> back
                  | NegInfinity \<Rightarrow> back
                  | NaN \<Rightarrow> back)
               else back))"

text \<open>The endgame handler only sends an order; it assigns nothing in the asset's state.\<close>

definition handleEndgame :: "assetState \<Rightarrow> assetState" where
  "handleEndgame s = s"

text \<open>The \<open>switch (state.state)\<close> of \<open>processAsset\<close>; IDLE has no case.\<close>

definition dispatch ::
  "tickEnv \<Rightarrow> assetOrder \<Rightarrow> window \<Rightarrow> caps \<Rightarrow> real \<Rightarrow> real \<Rightarrow> leaderInfo \<Rightarrow> assetState \<Rightarrow> assetState" where
  "dispatch env ao w cp pYes pNo info s =
     (case state s of
        ARMED \<Rightarrow> handleArmed env w info s
      | ENTRY \<Rightarrow> handleEntry env ao cp s
      | LADDERING \<Rightarrow> handleLaddering ao s
      | LOCKING \<Rightarrow> handleLocking env s
      | LOCKED \<Rightarrow> (if remaining_sec w \<le> ENDGAME_SECONDS then s\<lparr> state := ENDGAME \<rparr> else s)
      | RECOVERY \<Rightarrow> handleRecovery env ao pYes pNo cp s
      | ENDGAME \<Rightarrow> handleEndgame s
      | IDLE \<Rightarrow> s)"

text \<open>The state the \<open>switch\<close> is entered with: new-window check, prices, trackers.\<close>

definition beforeSwitch ::
  "tickEnv \<Rightarrow> assetOrder \<Rightarrow> window \<Rightarrow> assetState \<Rightarrow> leaderInfo \<times> assetState" where
  "beforeSwitch env ao w s =
     (let s1 = detectNewWindow w ao s;
          (pYes, pNo) = currentPrices env ao
      in updateTrackers env pYes pNo s1)"

text \<open>The object \<open>processAsset\<close> returns reads \<open>getRollingOBI('YES')\<close>, which
  cleans the YES average up in place; nothing else changes after the \<open>switch\<close>.\<close>

definition afterSwitch :: "tickEnv \<Rightarrow> assetState \<Rightarrow> assetState" where
  "afterSwitch env s =
     s\<lparr> obiCalculator := snd (getRollingOBI (tickNow env) (Some ''YES'') (obiCalculator s)) \<rparr>"

definition processAssetState ::
  "tickEnv \<Rightarrow> assetOrder \<Rightarrow> window \<Rightarrow> riskCapsJson option \<Rightarrow> assetState \<Rightarrow> assetState" where
  "processAssetState env ao w rc s =
     (let (pYes, pNo) = currentPrices env ao;
          (info, s2) = beforeSwitch env ao w s
      in afterSwitch env (dispatch env ao w (getRiskCaps rc) pYes pNo info s2))"

text \<open>\<open>processAsset\<close> on the worker's table of asset states.\<close>

definition processAsset ::
  "tickEnv \<Rightarrow> string \<Rightarrow> assetOrder \<Rightarrow> window \<Rightarrow> riskCapsJson option \<Rightarrow>
   (string \<rightharpoonup> assetState) \<Rightarrow> (string \<rightharpoonup> assetState)" where
  "processAsset env asset ao w rc m =
     m(asset \<mapsto> processAssetState env ao w rc (initAssetState m asset))"

section \<open>Call sequences and the vocabulary of the specification\<close>

text \<open>A sequence of calls on one lock detector, and the \<open>locked\<close> flag each
  \<open>checkLock\<close> returns (\<open>None\<close> for a \<open>reset\<close>, which returns nothing).\<close>

datatype detectorCall = CheckLock millis position | Reset

fun runDetector :: "lockDetector \<Rightarrow> detectorCall list \<Rightarrow> bool option list" where
  "runDetector d [] = []"
| "runDetector d (CheckLock now p # cs) =
     (let (r, d') = checkLock now p d in Some (resultLocked r) # runDetector d' cs)"
| "runDetector d (Reset # cs) = None # runDetector (reset d) cs"

text \<open>A sequence of calls on one leader tracker, and the tracker it leaves.\<close>

datatype trackerCall = Update millis real real | ResetForNewWindow

fun trackerAfter :: "leaderTracker \<Rightarrow> trackerCall list \<Rightarrow> leaderTracker" where
  "trackerAfter t [] = t"
| "trackerAfter t (Update now pYes pNo # cs) = trackerAfter (snd (update now pYes pNo t)) cs"
| "trackerAfter t (ResetForNewWindow # cs) = trackerAfter (resetForNewWindow t) cs"

text \<open>The statistics as the specification words them: the mean, the population standard
  deviation, and the trend as the mean of the second half minus the mean of the first
  half, the halves split at the floored midpoint.\<close>

definition spec_mean :: "real list \<Rightarrow> real" where
  "spec_mean xs = sum_list xs / real (length xs)"

definition spec_population_std :: "real list \<Rightarrow> real" where
  "spec_population_std xs =
     sqrt (sum_list (map (\<lambda>x. (x - spec_mean xs) ^ 2) xs) / real (length xs))"

definition spec_trend :: "real list \<Rightarrow> real" where
  "spec_trend xs =
     spec_mean (drop (length xs div 2) xs) - spec_mean (take (length xs div 2) xs)"

text \<open>The same statistics in double arithmetic: the sum is added from the left,
  starting at 0, and every operation rounds.\<close>

definition dsum :: "real list \<Rightarrow> jsnum" where
  "dsum xs = foldl (\<lambda>a b. jadd a (Num b)) (Num 0) xs"

definition dmean :: "real list \<Rightarrow> jsnum" where
  "dmean xs = jdiv (dsum xs) (Num (real (length xs)))"

definition dsquare :: "jsnum \<Rightarrow> jsnum" where
  "dsquare x = jmul x x"

definition dstd :: "real list \<Rightarrow> jsnum" where
  "dstd xs =
     jsqrt (jdiv (foldl (\<lambda>sum s. jadd sum (dsquare (jsub (Num s) (dmean xs)))) (Num 0) xs)
                 (Num (real (length xs))))"

definition dtrend :: "real list \<Rightarrow> jsnum" where
  "dtrend xs = jsub (dmean (drop (length xs div 2) xs)) (dmean (take (length xs div 2) xs))"

text \<open>A real that is a finite double.\<close>

definition isDouble :: "real \<Rightarrow> bool" where
  "isDouble x = (fl x = Num x)"

section \<open>Double arithmetic: exponent, rounding, order\<close>

text \<open>The rules \<open>fl_eval\<close> evaluate a rounding at a concrete rational. The lemmas
  after them: the exponent brackets its argument, rounding is monotone, odd and
  commutes with the absolute value.\<close>

lemma expoUp_lt: "x < 2 \<Longrightarrow> expoUp x = 0" by (simp add: expoUp.simps)
lemma expoUp_ge: "2 \<le> x \<Longrightarrow> expoUp x = 1 + expoUp (x / 2)" by (subst expoUp.simps) simp
lemma expoDown_stop: "1 \<le> x \<or> x \<le> 0 \<Longrightarrow> expoDown x = 0" by (subst expoDown.simps) simp
lemma expoDown_step: "0 < x \<Longrightarrow> x < 1 \<Longrightarrow> expoDown x = expoDown (2 * x) - 1" by (subst expoDown.simps) simp

lemmas fl_eval = fl_def rnd_def expo_def roundEven_def Let_def expoUp_lt expoUp_ge expoDown_stop expoDown_step

lemma pow2_step: "(2::real) powi (1 + k) = 2 * 2 powi k"
  using power_int_add [of "2::real" 1 k] by simp

lemma expoUp_bracket: "1 \<le> x \<Longrightarrow> 2 powi expoUp x \<le> x \<and> x < 2 powi (expoUp x + 1)"
proof (induction x rule: expoUp.induct)
  case (1 x)
  show ?case
  proof (cases "x < 2")
    case True
    then show ?thesis using "1.prems" by (simp add: expoUp_lt)
  next
    case False
    then have ih: "2 powi expoUp (x / 2) \<le> x / 2 \<and> x / 2 < 2 powi (expoUp (x / 2) + 1)"
      using "1.IH" by simp
    have e: "expoUp x = 1 + expoUp (x / 2)" using False by (simp add: expoUp_ge)
    have a: "(2::real) powi (1 + expoUp (x / 2)) = 2 * 2 powi expoUp (x / 2)" by (rule pow2_step)
    have b: "(2::real) powi (1 + expoUp (x / 2) + 1) = 2 * 2 powi (expoUp (x / 2) + 1)"
      using pow2_step [of "expoUp (x / 2) + 1"] by (simp add: add.commute add.left_commute)
    show ?thesis unfolding e a b using ih by simp
  qed
qed

lemma expoDown_bracket:
  "0 < x \<Longrightarrow> x < 1 \<Longrightarrow> 2 powi expoDown x \<le> x \<and> x < 2 powi (expoDown x + 1)"
proof (induction x rule: expoDown.induct)
  case (1 x)
  have e: "expoDown x = expoDown (2 * x) - 1" using "1.prems" by (simp add: expoDown_step)
  show ?case
  proof (cases "1 \<le> 2 * x")
    case True
    then have "expoDown (2 * x) = 0" by (simp add: expoDown_stop)
    then have "expoDown x = - 1" using e by simp
    then show ?thesis using True "1.prems" by (simp add: power_int_minus)
  next
    case False
    then have ih: "2 powi expoDown (2 * x) \<le> 2 * x \<and> 2 * x < 2 powi (expoDown (2 * x) + 1)"
      using "1.IH" "1.prems" by simp
    have a: "(2::real) powi (expoDown (2 * x)) = 2 * 2 powi (expoDown (2 * x) - 1)"
      using pow2_step [of "expoDown (2 * x) - 1"] by simp
    have b: "(2::real) powi (expoDown (2 * x) + 1) = 2 * 2 powi (expoDown (2 * x) - 1 + 1)"
      using pow2_step [of "expoDown (2 * x)"] by (simp add: add.commute)
    show ?thesis unfolding e using ih unfolding a b by simp
  qed
qed

lemma expo_bracket: "x \<noteq> 0 \<Longrightarrow> 2 powi expo x \<le> \<bar>x\<bar> \<and> \<bar>x\<bar> < 2 powi (expo x + 1)"
proof (cases "1 \<le> \<bar>x\<bar>")
  case True
  then show ?thesis using expoUp_bracket [of "\<bar>x\<bar>"] by (simp add: expo_def)
next
  case False
  assume "x \<noteq> 0"
  then show ?thesis using False expoDown_bracket [of "\<bar>x\<bar>"] by (simp add: expo_def)
qed

lemma expo_unique: "2 powi k \<le> \<bar>x\<bar> \<Longrightarrow> \<bar>x\<bar> < 2 powi (k + 1) \<Longrightarrow> expo x = k"
proof -
  assume lo: "2 powi k \<le> \<bar>x\<bar>" and hi: "\<bar>x\<bar> < 2 powi (k + 1)"
  have pos: "0 < (2::real) powi k" by simp
  have nz: "x \<noteq> 0"
  proof
    assume "x = 0"
    then have "(2::real) powi k \<le> 0" using lo by simp
    then show False using pos by linarith
  qed
  note b = expo_bracket [OF nz]
  have "(2::real) powi expo x < 2 powi (k + 1)" using b hi by linarith
  then have 1: "expo x < k + 1"
    using power_int_increasing [of "k + 1" "expo x" "2::real"] by (cases "expo x < k + 1") auto
  have "(2::real) powi k < 2 powi (expo x + 1)" using b lo by linarith
  then have 2: "k < expo x + 1"
    using power_int_increasing [of "expo x + 1" k "2::real"] by (cases "k < expo x + 1") auto
  show ?thesis using 1 2 by simp
qed

lemma expo_minus [simp]: "expo (- x) = expo x"
  by (simp add: expo_def)

lemma expo_mono: "0 < x \<Longrightarrow> x \<le> y \<Longrightarrow> expo x \<le> expo y"
proof -
  assume x: "0 < x" and xy: "x \<le> y"
  have bx: "2 powi expo x \<le> x" using expo_bracket [of x] x by simp
  have by': "y < 2 powi (expo y + 1)" using expo_bracket [of y] x xy by simp
  have "(2::real) powi expo x < 2 powi (expo y + 1)" using bx by' xy by linarith
  then have "expo x < expo y + 1"
    using power_int_increasing [of "expo y + 1" "expo x" "2::real"]
    by (cases "expo x < expo y + 1") auto
  then show ?thesis by simp
qed

section \<open>roundEven\<close>

lemma roundEven_near: "\<bar>y - of_int (roundEven y)\<bar> \<le> 1 / 2"
  unfolding roundEven_def Let_def by (auto; linarith)

lemma roundEven_int [simp]: "roundEven (of_int n) = n"
  by (simp add: roundEven_def)

lemma roundEven_mono: "y \<le> z \<Longrightarrow> roundEven y \<le> roundEven z"
proof (rule ccontr)
  assume yz: "y \<le> z" and "\<not> roundEven y \<le> roundEven z"
  then have gt: "roundEven z + 1 \<le> roundEven y" by simp
  then have g: "of_int (roundEven z) + (1::real) \<le> of_int (roundEven y)"
    by (metis of_int_1 of_int_add of_int_le_iff)
  have ny: "\<bar>y - of_int (roundEven y)\<bar> \<le> 1 / 2" by (rule roundEven_near)
  have nz: "\<bar>z - of_int (roundEven z)\<bar> \<le> 1 / 2" by (rule roundEven_near)
  have "y = z" using ny nz g yz by linarith
  then show False using gt by simp
qed

lemma roundEven_neg: "roundEven (- y) = - roundEven y"
proof (cases "y = of_int \<lfloor>y\<rfloor>")
  case True
  then obtain n where "y = of_int n" by blast
  then have "- y = of_int (- n)" by simp
  then show ?thesis using \<open>y = of_int n\<close> by (simp only: roundEven_int)
next
  case False
  then have fl1: "\<lfloor>- y\<rfloor> = - \<lfloor>y\<rfloor> - 1"
    by (metis ceiling_altdef ceiling_def add_uminus_conv_diff minus_add_distrib minus_minus)
  have d: "0 < y - of_int \<lfloor>y\<rfloor>" "y - of_int \<lfloor>y\<rfloor> < 1" using False by linarith+
  show ?thesis
    unfolding roundEven_def Let_def fl1 using d by (auto; linarith?)
qed

section \<open>rnd\<close>

lemma rnd_neg: "rnd (- x) = - rnd x"
  by (simp add: rnd_def Let_def roundEven_neg)

lemma rnd_0 [simp]: "rnd 0 = 0"
  by (simp add: rnd_def)

lemma rnd_nonneg: "0 \<le> x \<Longrightarrow> 0 \<le> rnd x"
proof (cases "x = 0")
  case True
  then show ?thesis by simp
next
  case False
  assume "0 \<le> x"
  let ?u = "(2::real) powi (max (expo x) (- 1022) - 52)"
  have u: "0 < ?u" by simp
  have "0 \<le> x / ?u" using \<open>0 \<le> x\<close> u by simp
  then have "roundEven 0 \<le> roundEven (x / ?u)" by (rule roundEven_mono)
  then have "0 \<le> roundEven (x / ?u)" using roundEven_int [of 0] by simp
  then show ?thesis using False u by (simp add: rnd_def Let_def)
qed

lemma pow2_split53: "(2::real) powi (e + 1) = 2 ^ 53 * 2 powi (e - 52)"
  using power_int_add [of "2::real" 53 "e - 52"] by (simp add: add.commute)

lemma pow2_split52: "(2::real) powi e = 2 ^ 52 * 2 powi (e - 52)"
  using power_int_add [of "2::real" 52 "e - 52"] by simp

lemma rnd_upper:
  assumes "0 < x" and "e = max (expo x) (- 1022)"
  shows "rnd x \<le> 2 powi (e + 1)"
proof -
  let ?u = "(2::real) powi (e - 52)"
  have u: "0 < ?u" by simp
  have "x < 2 powi (expo x + 1)" using expo_bracket [of x] assms(1) by simp
  also have "\<dots> \<le> 2 powi (e + 1)"
    using assms(2) by (intro power_int_increasing) auto
  finally have "x < 2 ^ 53 * ?u" unfolding pow2_split53 .
  then have "x / ?u \<le> of_int (2 ^ 53)" using u by (simp add: pos_divide_le_eq)
  then have "roundEven (x / ?u) \<le> roundEven (of_int (2 ^ 53))" by (rule roundEven_mono)
  then have "roundEven (x / ?u) \<le> 2 ^ 53" by (simp only: roundEven_int)
  then have "of_int (roundEven (x / ?u)) \<le> (2 ^ 53 :: real)"
    by (metis of_int_le_iff of_int_numeral of_int_power)
  then have "of_int (roundEven (x / ?u)) * ?u \<le> 2 ^ 53 * ?u" using u by simp
  then show ?thesis
    unfolding pow2_split53 using assms by (simp add: rnd_def Let_def)
qed

lemma rnd_lower:
  assumes "0 < y" and "- 1022 \<le> expo y"
  shows "2 powi (expo y) \<le> rnd y"
proof -
  let ?u = "(2::real) powi (expo y - 52)"
  have u: "0 < ?u" by simp
  have "2 powi (expo y) \<le> y" using expo_bracket [of y] assms(1) by simp
  then have "2 ^ 52 * ?u \<le> y" using pow2_split52 [of "expo y"] by simp
  then have "of_int (2 ^ 52) \<le> y / ?u" using u by (simp add: pos_le_divide_eq)
  then have "roundEven (of_int (2 ^ 52)) \<le> roundEven (y / ?u)" by (rule roundEven_mono)
  then have "2 ^ 52 \<le> roundEven (y / ?u)" by (simp only: roundEven_int)
  then have "(2 ^ 52 :: real) \<le> of_int (roundEven (y / ?u))"
    by (metis of_int_le_iff of_int_numeral of_int_power)
  then have "2 ^ 52 * ?u \<le> of_int (roundEven (y / ?u)) * ?u" using u by simp
  moreover have "max (expo y) (- 1022) = expo y" using assms(2) by simp
  ultimately show ?thesis
    using assms(1) pow2_split52 [of "expo y"] by (simp add: rnd_def Let_def)
qed

lemma rnd_mono_pos:
  assumes "0 < x" and "x \<le> y"
  shows "rnd x \<le> rnd y"
proof -
  have y: "0 < y" using assms by simp
  define ex where "ex = max (expo x) (- 1022)"
  define ey where "ey = max (expo y) (- 1022)"
  have le: "ex \<le> ey" using expo_mono [OF assms] unfolding ex_def ey_def by simp
  show ?thesis
  proof (cases "ex = ey")
    case True
    let ?u = "(2::real) powi (ex - 52)"
    have u: "0 < ?u" by simp
    have "x / ?u \<le> y / ?u" using assms(2) u by (simp add: divide_right_mono)
    then have "roundEven (x / ?u) \<le> roundEven (y / ?u)" by (rule roundEven_mono)
    then have "of_int (roundEven (x / ?u)) * ?u \<le> of_int (roundEven (y / ?u)) * ?u"
      using u by simp
    then show ?thesis
      using assms(1) y True unfolding ex_def ey_def by (simp add: rnd_def Let_def)
  next
    case False
    then have lt: "ex < ey" using le by simp
    then have ey': "ey = expo y" "- 1022 \<le> expo y" unfolding ex_def ey_def by auto
    have "rnd x \<le> 2 powi (ex + 1)" using rnd_upper [OF assms(1)] ex_def by simp
    also have "\<dots> \<le> 2 powi ey" using lt by (intro power_int_increasing) auto
    also have "\<dots> \<le> rnd y" using rnd_lower [OF y ey'(2)] ey'(1) by simp
    finally show ?thesis .
  qed
qed

lemma rnd_mono: "x \<le> y \<Longrightarrow> rnd x \<le> rnd y"
proof -
  assume xy: "x \<le> y"
  consider "0 < x" | "x \<le> 0 \<and> 0 \<le> y" | "y < 0" using xy by linarith
  then show ?thesis
  proof cases
    case 1
    then show ?thesis using xy by (rule rnd_mono_pos)
  next
    case 2
    then have "0 \<le> rnd y" and "0 \<le> rnd (- x)" by (simp_all add: rnd_nonneg)
    then show ?thesis by (simp add: rnd_neg)
  next
    case 3
    then have "rnd (- y) \<le> rnd (- x)" using xy by (intro rnd_mono_pos) auto
    then show ?thesis by (simp add: rnd_neg)
  qed
qed

lemma rnd_abs: "rnd \<bar>x\<bar> = \<bar>rnd x\<bar>"
proof (cases "0 \<le> x")
  case True
  then show ?thesis using rnd_nonneg [of x] by simp
next
  case False
  then have "0 \<le> rnd (- x)" by (intro rnd_nonneg) simp
  then show ?thesis using False by (simp add: rnd_neg)
qed

lemma rnd_1 [simp]: "rnd 1 = 1"
  by (simp add: fl_eval)

lemma fl_finite: "\<bar>rnd x\<bar> < 2 ^ 1024 \<Longrightarrow> fl x = Num (rnd x)"
  by (auto simp add: fl_def Let_def)

lemma fl_0 [simp]: "fl 0 = Num 0"
  by (simp add: fl_def)

lemma fl_neg: "fl (- x) = jneg (fl x)"
  by (simp add: fl_def Let_def rnd_neg)

lemma expo_pow2: "expo (2 powi k) = k"
  by (rule expo_unique) (simp_all add: power_int_strict_increasing)

lemma rnd_pow2: "- 1022 \<le> k \<Longrightarrow> rnd (2 powi k) = 2 powi k"
proof -
  assume k: "- 1022 \<le> k"
  have "(2::real) powi k / 2 powi (k - 52) = 2 powi 52"
    by (simp add: power_int_diff)
  also have "\<dots> = of_int (2 ^ 52)" by simp
  finally have q: "(2::real) powi k / 2 powi (k - 52) = of_int (2 ^ 52)" .
  have "rnd (2 powi k) = of_int (roundEven (2 powi k / 2 powi (k - 52))) * 2 powi (k - 52)"
    using k by (simp add: rnd_def expo_pow2 Let_def max_def)
  also have "\<dots> = 2 ^ 52 * 2 powi (k - 52)" by (simp only: q roundEven_int) simp
  also have "\<dots> = 2 powi k" using pow2_split52 [of k] by simp
  finally show ?thesis .
qed

lemma fl_1 [simp]: "fl 1 = Num 1"
  by (simp add: fl_def)

lemma fl_not_NaN [simp]: "fl x \<noteq> NaN"
  by (simp add: fl_def Let_def)

lemma rnd_2_1024: "rnd (2 ^ 1024) = 2 ^ 1024"
  using rnd_pow2 [of 1024] by simp

lemma fl_overflow:
  assumes "2 ^ 1024 \<le> x"
  shows "fl x = PosInfinity"
proof -
  have "rnd (2 ^ 1024) \<le> rnd x" using assms by (rule rnd_mono)
  then have "2 ^ 1024 \<le> rnd x" by (simp only: rnd_2_1024)
  then show ?thesis by (simp only: fl_def Let_def if_True)
qed

lemma fl_pow2: "- 1022 \<le> k \<Longrightarrow> k < 1024 \<Longrightarrow> fl (2 powi k) = Num (2 powi k)"
proof -
  assume k: "- 1022 \<le> k" "k < 1024"
  have "(2::real) powi k < 2 powi 1024" using k(2) by (intro power_int_strict_increasing) simp_all
  then have "\<bar>rnd (2 powi k)\<bar> < 2 ^ 1024" using k(1) by (simp add: rnd_pow2)
  then show ?thesis using k(1) by (simp add: fl_finite rnd_pow2)
qed

text \<open>The rounded square root stays on the same side of a double as the exact one.\<close>

lemma jsqrt_lt:
  assumes "0 \<le> v" and "v \<le> c * c" and "0 \<le> c" and "rnd c = c" and "c < 2 ^ 1024" and "c < t"
  shows "jlt (jsqrt (Num v)) (Num t)"
proof -
  have s: "sqrt v \<le> c"
    using assms(2,3) by (intro real_le_lsqrt) (simp_all add: power2_eq_square)
  have hi: "rnd (sqrt v) \<le> c" using rnd_mono [OF s] assms(4) by simp
  have lo: "0 \<le> rnd (sqrt v)" using assms(1) by (intro rnd_nonneg) simp
  have "\<bar>rnd (sqrt v)\<bar> < 2 ^ 1024" using hi lo assms(5) by simp
  then have "fl (sqrt v) = Num (rnd (sqrt v))" by (rule fl_finite)
  then show ?thesis using assms(1,6) hi by simp
qed

lemma jsqrt_ge:
  assumes "c * c \<le> v" and "0 \<le> c" and "rnd c = c" and "t \<le> c"
  shows "\<not> jlt (jsqrt (Num v)) (Num t)"
proof -
  have v: "0 \<le> v" using assms(1) mult_nonneg_nonneg [OF assms(2) assms(2)] by linarith
  have s: "c \<le> sqrt v"
    using assms(1) by (intro real_le_rsqrt) (simp add: power2_eq_square)
  have lo: "c \<le> rnd (sqrt v)" using rnd_mono [OF s] assms(3) by simp
  show ?thesis using v lo assms(2,4) by (simp add: fl_def Let_def)
qed

text \<open>Every rounded value is a multiple of the smallest subnormal, which is a double.\<close>

lemma minSubnormal_pos: "0 < minSubnormal"
  by (simp add: minSubnormal_def)

lemma roundEven_1: "roundEven 1 = 1"
  using roundEven_int [of 1] by simp

lemma rnd_grid: "\<exists>n::int. rnd x = of_int n * minSubnormal"
proof (cases "x = 0")
  case True
  then show ?thesis by (intro exI [of _ 0]) simp
next
  case False
  define e where "e = max (expo x) (- 1022)"
  have e: "0 \<le> e + 1022" unfolding e_def by simp
  have "(2::real) powi ((e + 1022) + (- 1074)) = 2 powi (e + 1022) * 2 powi (- 1074)"
    by (rule power_int_add) simp
  moreover have "(e + 1022) + (- 1074) = e - 52" by simp
  ultimately have "(2::real) powi (e - 52) = 2 powi (e + 1022) * minSubnormal"
    by (simp only: minSubnormal_def)
  moreover have "(2::real) powi (e + 1022) = of_int (2 ^ nat (e + 1022))"
    using e by (simp add: power_int_def)
  ultimately have u: "(2::real) powi (e - 52) = of_int (2 ^ nat (e + 1022)) * minSubnormal"
    by (simp only:)
  have "rnd x = of_int (roundEven (x / 2 powi (e - 52))) * 2 powi (e - 52)"
    using False by (simp add: rnd_def Let_def e_def)
  also have "\<dots> = of_int (roundEven (x / 2 powi (e - 52)) * 2 ^ nat (e + 1022)) * minSubnormal"
    by (subst (2) u) simp
  finally show ?thesis by blast
qed

lemma rnd_min_subnormal: "rnd minSubnormal = minSubnormal"
proof -
  have p: "minSubnormal \<noteq> 0" using minSubnormal_pos by simp
  have e: "expo minSubnormal = - 1074" unfolding minSubnormal_def by (rule expo_pow2)
  have m: "max (expo minSubnormal) (- 1022) - 52 = - 1074" unfolding e by simp
  have u: "2 powi (max (expo minSubnormal) (- 1022) - 52) = minSubnormal"
    unfolding m by (simp only: minSubnormal_def)
  have "rnd minSubnormal = of_int (roundEven (minSubnormal / minSubnormal)) * minSubnormal"
    using p by (simp only: rnd_def Let_def u if_False)
  then show ?thesis using p by (simp add: roundEven_1)
qed

lemma rnd_pos_on_grid:
  assumes "0 < x" and "x = of_int n * minSubnormal"
  shows "0 < rnd x"
proof -
  note p = minSubnormal_pos
  have "0 < (of_int n :: real)" using assms p by (simp add: zero_less_mult_iff)
  then have "1 \<le> n" by simp
  then have "(1::real) \<le> of_int n" by simp
  then have "1 * minSubnormal \<le> of_int n * minSubnormal"
    using p mult_right_mono [of 1 "of_int n" minSubnormal] by simp
  then have "minSubnormal \<le> x" using assms(2) by simp
  then have "rnd minSubnormal \<le> rnd x" by (rule rnd_mono)
  then have "minSubnormal \<le> rnd x" by (simp only: rnd_min_subnormal)
  then show ?thesis using p by linarith
qed

lemma isDouble_rnd: "isDouble x \<Longrightarrow> rnd x = x"
  unfolding isDouble_def fl_def Let_def by (simp split: if_splits)

lemma isDouble_bound: "isDouble x \<Longrightarrow> \<bar>x\<bar> < 2 ^ 1024"
  unfolding isDouble_def fl_def Let_def by (simp split: if_splits)

lemma isDouble_minus: "isDouble x \<Longrightarrow> isDouble (- x)"
  unfolding isDouble_def by (simp add: fl_neg)

text \<open>The rounded difference of a double and a rounded value is positive exactly when
  the difference is: the subnormals leave no room for an underflow to zero.\<close>

lemma rnd_diff_pos:
  assumes "isDouble a"
  shows "0 < rnd (a - rnd y) \<longleftrightarrow> rnd y < a"
proof
  assume "0 < rnd (a - rnd y)"
  show "rnd y < a"
  proof (rule ccontr)
    assume "\<not> rnd y < a"
    then have "a - rnd y \<le> 0" by simp
    then have "rnd (a - rnd y) \<le> rnd 0" by (rule rnd_mono)
    then show False using \<open>0 < rnd (a - rnd y)\<close> by simp
  qed
next
  assume l: "rnd y < a"
  obtain n where n: "rnd a = of_int n * minSubnormal" using rnd_grid by blast
  obtain m where m: "rnd y = of_int m * minSubnormal" using rnd_grid by blast
  have "a - rnd y = of_int (n - m) * minSubnormal"
    using n m isDouble_rnd [OF assms] by (simp add: algebra_simps)
  moreover have "0 < a - rnd y" using l by simp
  ultimately show "0 < rnd (a - rnd y)" by (intro rnd_pos_on_grid)
qed

lemma fl_pos_iff: "jlt (Num 0) (fl z) \<longleftrightarrow> 0 < rnd z"
  by (auto simp add: fl_def Let_def)

lemma payoff_positive:
  assumes "isDouble a"
  shows "jgt (jsub (Num a) (fl y)) (Num 0) \<longleftrightarrow> rnd y < a"
proof -
  have b: "\<bar>a\<bar> < 2 ^ 1024" using assms by (rule isDouble_bound)
  show ?thesis
  proof (cases "2 ^ 1024 \<le> rnd y")
    case True
    then have "fl y = PosInfinity" by (simp only: fl_def Let_def if_True)
    then show ?thesis using b True by (simp add: jgt_def jsub_def)
  next
    case False
    show ?thesis
    proof (cases "rnd y \<le> - (2 ^ 1024)")
      case True
      then have "fl y = NegInfinity" using False by (simp only: fl_def Let_def if_True if_False)
      then show ?thesis using b True by (simp add: jgt_def jsub_def)
    next
      case nn: False
      have fin: "fl y = Num (rnd y)" using False nn by (simp only: fl_def Let_def if_False)
      have "jgt (jsub (Num a) (fl y)) (Num 0) \<longleftrightarrow> jlt (Num 0) (fl (a - rnd y))"
        using fin by (simp add: jgt_def jsub_def)
      then show ?thesis using rnd_diff_pos [OF assms, of y] by (simp add: fl_pos_iff)
    qed
  qed
qed

section \<open>LockDetector: payoffs, the sticky lock, recovery sizing\<close>

lemma calculatePayoff_YES:
  "calculatePayoff p YES = jsub (fl (yesShares p)) (fl (yesCost p + noCost p))"
  by (simp add: calculatePayoff_def)

lemma calculatePayoff_NO:
  "calculatePayoff p NO = jsub (fl (noShares p)) (fl (yesCost p + noCost p))"
  by (simp add: calculatePayoff_def)

lemma analyzePosition_pnl:
  "pnlIfYesWins (analyzePosition p) = calculatePayoff p YES \<and>
   pnlIfNoWins (analyzePosition p) = calculatePayoff p NO \<and>
   (isDualLock (analyzePosition p) \<longleftrightarrow>
      jgt (calculatePayoff p YES) (Num 0) \<and> jgt (calculatePayoff p NO) (Num 0))"
  by (simp add: analyzePosition_def Let_def)

lemma isDualLock_doubles:
  assumes "isDouble (yesShares p)" and "isDouble (noShares p)"
  shows "isDualLock (analyzePosition p) \<longleftrightarrow>
           rnd (yesCost p + noCost p) < yesShares p \<and> rnd (yesCost p + noCost p) < noShares p"
proof -
  have y: "fl (yesShares p) = Num (yesShares p)" using assms(1) by (simp add: isDouble_def)
  have n: "fl (noShares p) = Num (noShares p)" using assms(2) by (simp add: isDouble_def)
  show ?thesis
    using payoff_positive [OF assms(1), of "yesCost p + noCost p"]
          payoff_positive [OF assms(2), of "yesCost p + noCost p"]
    by (simp add: analyzePosition_pnl calculatePayoff_YES calculatePayoff_NO y n)
qed

lemma payoff_20_9:
  "calculatePayoff \<lparr> yesShares = 20, yesCost = 9, noShares = 20, noCost = 9 \<rparr> YES = Num 2 \<and>
   calculatePayoff \<lparr> yesShares = 20, yesCost = 9, noShares = 20, noCost = 9 \<rparr> NO = Num 2"
  by (simp add: calculatePayoff_def jsub_def fl_eval)

text \<open>
  The claim C1 as stated fails on the code. For the position of 0.3 YES shares bought
  for 0.1 and 0.3 NO shares bought for 0.2 (the doubles nearest to these numbers),
  \<open>yesShares * 1.00 - (yesCost + noCost)\<close> is \<open>- (2 powi (- 55))\<close>, and the code
  returns \<open>- (2 powi (- 54))\<close>: the sum of the costs is rounded before the subtraction.
\<close>

theorem analyzePosition_rounding:
  "pnlIfYesWins (analyzePosition
     \<lparr> yesShares = rnd 0.3, yesCost = rnd 0.1, noShares = rnd 0.3, noCost = rnd 0.2 \<rparr>) =
     Num (- (1 / 18014398509481984)) \<and>
   rnd 0.3 * 1.00 - (rnd 0.1 + rnd 0.2) = - (1 / 36028797018963968)"
  by (simp add: analyzePosition_def calculatePayoff_def jsub_def fl_eval)

text \<open>
  Claim C1, as the code computes it. For every position with finite fields,
  \<open>analyzePosition\<close> returns as \<open>pnlIfYesWins\<close> the double difference of
  \<open>yesShares\<close> and the double sum \<open>yesCost + noCost\<close> (the multiplication by 1.00
  is exact), and as \<open>pnlIfNoWins\<close> the same with \<open>noShares\<close>; \<open>isDualLock\<close> is
  true exactly when both returned values are strictly positive, which for share counts
  that are doubles means that each exceeds the rounded sum of the costs. For the position
  of 20 YES shares bought for 9 and 20 NO shares bought for 9, both payoffs are 2 and
  \<open>isDualLock\<close> is true. The statement needs no sign condition on the fields.
\<close>

theorem analyzePosition_payoffs_double:
  "pnlIfYesWins (analyzePosition p) = jsub (fl (yesShares p)) (fl (yesCost p + noCost p)) \<and>
   pnlIfNoWins (analyzePosition p) = jsub (fl (noShares p)) (fl (yesCost p + noCost p)) \<and>
   (isDualLock (analyzePosition p) \<longleftrightarrow>
      jgt (pnlIfYesWins (analyzePosition p)) (Num 0) \<and>
      jgt (pnlIfNoWins (analyzePosition p)) (Num 0)) \<and>
   (isDouble (yesShares p) \<and> isDouble (noShares p) \<longrightarrow>
      (isDualLock (analyzePosition p) \<longleftrightarrow>
         rnd (yesCost p + noCost p) < yesShares p \<and> rnd (yesCost p + noCost p) < noShares p)) \<and>
   pnlIfYesWins (analyzePosition \<lparr> yesShares = 20, yesCost = 9, noShares = 20, noCost = 9 \<rparr>) = Num 2 \<and>
   pnlIfNoWins (analyzePosition \<lparr> yesShares = 20, yesCost = 9, noShares = 20, noCost = 9 \<rparr>) = Num 2 \<and>
   isDualLock (analyzePosition \<lparr> yesShares = 20, yesCost = 9, noShares = 20, noCost = 9 \<rparr>)"
proof (intro conjI impI)
  show "pnlIfYesWins (analyzePosition p) = jsub (fl (yesShares p)) (fl (yesCost p + noCost p))"
    by (simp add: analyzePosition_pnl calculatePayoff_YES)
  show "pnlIfNoWins (analyzePosition p) = jsub (fl (noShares p)) (fl (yesCost p + noCost p))"
    by (simp add: analyzePosition_pnl calculatePayoff_NO)
  show "isDualLock (analyzePosition p) \<longleftrightarrow>
          jgt (pnlIfYesWins (analyzePosition p)) (Num 0) \<and>
          jgt (pnlIfNoWins (analyzePosition p)) (Num 0)"
    by (simp add: analyzePosition_pnl)
next
  assume "isDouble (yesShares p) \<and> isDouble (noShares p)"
  then show "isDualLock (analyzePosition p) \<longleftrightarrow>
          rnd (yesCost p + noCost p) < yesShares p \<and> rnd (yesCost p + noCost p) < noShares p"
    using isDualLock_doubles [of p] by simp
next
  show "pnlIfYesWins (analyzePosition \<lparr> yesShares = 20, yesCost = 9, noShares = 20, noCost = 9 \<rparr>) = Num 2"
    using payoff_20_9 by (simp add: analyzePosition_pnl)
  show "pnlIfNoWins (analyzePosition \<lparr> yesShares = 20, yesCost = 9, noShares = 20, noCost = 9 \<rparr>) = Num 2"
    using payoff_20_9 by (simp add: analyzePosition_pnl)
  show "isDualLock (analyzePosition \<lparr> yesShares = 20, yesCost = 9, noShares = 20, noCost = 9 \<rparr>)"
    using payoff_20_9 by (simp add: analyzePosition_pnl jgt_def)
qed

theorem analyzePosition_payoffs_double_witness:
  "isDouble (yesShares \<lparr> yesShares = 10, yesCost = 6, noShares = 0, noCost = 0 \<rparr>) \<and>
   isDouble (noShares \<lparr> yesShares = 10, yesCost = 6, noShares = 0, noCost = 0 \<rparr>) \<and>
   pnlIfYesWins (analyzePosition \<lparr> yesShares = 10, yesCost = 6, noShares = 0, noCost = 0 \<rparr>) = Num 4 \<and>
   pnlIfNoWins (analyzePosition \<lparr> yesShares = 10, yesCost = 6, noShares = 0, noCost = 0 \<rparr>) = Num (- 6) \<and>
   \<not> rnd (6 + 0) < (0::real) \<and>
   \<not> isDualLock (analyzePosition \<lparr> yesShares = 10, yesCost = 6, noShares = 0, noCost = 0 \<rparr>)"
proof -
  have d: "isDouble 10" "isDouble 0" by (simp_all add: isDouble_def fl_eval)
  have f: "fl 10 = Num 10" "fl 6 = Num 6" "fl 4 = Num 4" "fl (- 6) = Num (- 6)" "rnd 6 = 6"
    by (simp_all add: fl_eval)
  show ?thesis
    using analyzePosition_payoffs_double [of "\<lparr> yesShares = 10, yesCost = 6, noShares = 0, noCost = 0 \<rparr>"] d f
    by (simp add: jsub_def jgt_def)
qed

lemma checkLock_result_is_state:
  "resultLocked (fst (checkLock now p d)) = locked (snd (checkLock now p d))"
  by (simp add: checkLock_def Let_def analysis.extend_def)

lemma checkLock_keeps_lock:
  "locked d \<Longrightarrow> locked (snd (checkLock now p d))"
  by (simp add: checkLock_def Let_def)

lemma checkLock_unlocked:
  "\<not> locked d \<Longrightarrow> resultLocked (fst (checkLock now p d)) = isDualLock (analyzePosition p)"
  by (simp add: checkLock_def Let_def analysis.extend_def)

text \<open>From a locked detector, every \<open>checkLock\<close> before the next \<open>reset\<close> answers locked.\<close>

lemma runDetector_locked_stays:
  "locked d \<Longrightarrow> j < length cs \<Longrightarrow> \<forall>k\<le>j. cs ! k \<noteq> Reset \<Longrightarrow>
   runDetector d cs ! j = Some True"
proof (induction d cs arbitrary: j rule: runDetector.induct)
  case (1 d)
  then show ?case by simp
next
  case (2 d now p cs)
  obtain r d' where rd: "checkLock now p d = (r, d')" by (cases "checkLock now p d")
  have l': "locked d'" using checkLock_keeps_lock [OF "2.prems"(1), of now p] rd by simp
  have rl: "resultLocked r" using checkLock_result_is_state [of now p d] rd l' by simp
  show ?case
  proof (cases j)
    case 0
    then show ?thesis using rd rl by simp
  next
    case (Suc j')
    have "\<forall>k\<le>j'. cs ! k \<noteq> Reset"
    proof (intro allI impI)
      fix k assume "k \<le> j'"
      then have "Suc k \<le> j" using Suc by simp
      then have "(CheckLock now p # cs) ! Suc k \<noteq> Reset" using "2.prems"(3) by blast
      then show "cs ! k \<noteq> Reset" by simp
    qed
    moreover have "j' < length cs" using "2.prems"(2) Suc by simp
    ultimately have "runDetector d' cs ! j' = Some True"
      using "2.IH" [of "(r, d')" r d' j'] rd l' by simp
    then show ?thesis using Suc rd by simp
  qed
next
  case (3 d cs)
  have "(Reset # cs) ! 0 \<noteq> Reset" using "3.prems"(3) by blast
  then show ?case by simp
qed

lemma runDetector_sticky:
  "i \<le> j \<Longrightarrow> j < length cs \<Longrightarrow> runDetector d cs ! i = Some True \<Longrightarrow>
   \<forall>k. i < k \<and> k \<le> j \<longrightarrow> cs ! k \<noteq> Reset \<Longrightarrow>
   runDetector d cs ! j = Some True"
proof (induction d cs arbitrary: i j rule: runDetector.induct)
  case (1 d)
  then show ?case by simp
next
  case (2 d now p cs)
  obtain r d' where rd: "checkLock now p d = (r, d')" by (cases "checkLock now p d")
  show ?case
  proof (cases i)
    case 0
    show ?thesis
    proof (cases j)
      case 0
      then show ?thesis using "2.prems"(3) \<open>i = 0\<close> by simp
    next
      case (Suc j')
      have "resultLocked r" using "2.prems"(3) \<open>i = 0\<close> rd by simp
      then have l': "locked d'" using checkLock_result_is_state [of now p d] rd by simp
      have "\<forall>k\<le>j'. cs ! k \<noteq> Reset"
      proof (intro allI impI)
        fix k assume "k \<le> j'"
        then have "i < Suc k \<and> Suc k \<le> j" using Suc \<open>i = 0\<close> by simp
        then have "(CheckLock now p # cs) ! Suc k \<noteq> Reset" using "2.prems"(4) by blast
        then show "cs ! k \<noteq> Reset" by simp
      qed
      moreover have "j' < length cs" using "2.prems"(2) Suc by simp
      ultimately have "runDetector d' cs ! j' = Some True"
        using runDetector_locked_stays [OF l'] by blast
      then show ?thesis using Suc rd by simp
    qed
  next
    case (Suc i')
    then obtain j' where j: "j = Suc j'" using "2.prems"(1) by (cases j) auto
    have a: "i' \<le> j'" "j' < length cs" using "2.prems"(1,2) Suc j by auto
    have b: "runDetector d' cs ! i' = Some True" using "2.prems"(3) Suc rd by simp
    have c: "\<forall>k. i' < k \<and> k \<le> j' \<longrightarrow> cs ! k \<noteq> Reset"
    proof (intro allI impI)
      fix k assume "i' < k \<and> k \<le> j'"
      then have "i < Suc k \<and> Suc k \<le> j" using Suc j by simp
      then have "(CheckLock now p # cs) ! Suc k \<noteq> Reset" using "2.prems"(4) by blast
      then show "cs ! k \<noteq> Reset" by simp
    qed
    have "runDetector d' cs ! j' = Some True"
      using "2.IH" [of "(r, d')" r d' i' j'] rd a b c by simp
    then show ?thesis using j rd by simp
  qed
next
  case (3 d cs)
  show ?case
  proof (cases i)
    case 0
    then show ?thesis using "3.prems"(3) by simp
  next
    case (Suc i')
    then obtain j' where j: "j = Suc j'" using "3.prems"(1) by (cases j) auto
    have a: "i' \<le> j'" "j' < length cs" using "3.prems"(1,2) Suc j by auto
    have b: "runDetector (reset d) cs ! i' = Some True" using "3.prems"(3) Suc by simp
    have c: "\<forall>k. i' < k \<and> k \<le> j' \<longrightarrow> cs ! k \<noteq> Reset"
    proof (intro allI impI)
      fix k assume "i' < k \<and> k \<le> j'"
      then have "i < Suc k \<and> Suc k \<le> j" using Suc j by simp
      then have "(Reset # cs) ! Suc k \<noteq> Reset" using "3.prems"(4) by blast
      then show "cs ! k \<noteq> Reset" by simp
    qed
    have "runDetector (reset d) cs ! j' = Some True"
      using "3.IH" [of i' j'] a b c by simp
    then show ?thesis using j by simp
  qed
qed

text \<open>
  Claim C2. In every sequence of calls on one detector, starting from any detector state:
  once the call at index \<open>i\<close> has returned \<open>locked = true\<close>, the call at any later index
  \<open>j\<close> returns \<open>locked = true\<close> as well, whatever position it is given (nothing is
  assumed about \<open>isDualLock\<close> of that position), as long as no \<open>reset\<close> was called
  after \<open>i\<close> up to \<open>j\<close>. A \<open>reset\<close> makes \<open>locked\<close> false, and the \<open>checkLock\<close>
  after it answers \<open>isDualLock\<close> of its position again.
\<close>

theorem checkLock_sticky:
  "(i \<le> j \<and> j < length cs \<and> runDetector d cs ! i = Some True \<and>
    (\<forall>k. i < k \<and> k \<le> j \<longrightarrow> cs ! k \<noteq> Reset)
      \<longrightarrow> runDetector d cs ! j = Some True) \<and>
   \<not> locked (reset d) \<and>
   resultLocked (fst (checkLock now p (reset d))) = isDualLock (analyzePosition p)"
proof (intro conjI impI)
  assume "i \<le> j \<and> j < length cs \<and> runDetector d cs ! i = Some True \<and>
          (\<forall>k. i < k \<and> k \<le> j \<longrightarrow> cs ! k \<noteq> Reset)"
  then show "runDetector d cs ! j = Some True"
    using runDetector_sticky [of i j cs d] by blast
next
  show "\<not> locked (reset d)" by (simp add: reset_def)
next
  have "\<not> locked (reset d)" by (simp add: reset_def)
  then show "resultLocked (fst (checkLock now p (reset d))) = isDualLock (analyzePosition p)"
    by (rule checkLock_unlocked)
qed

theorem checkLock_sticky_witness:
  "(0::nat) \<le> 1 \<and>
   1 < length [CheckLock 1000 \<lparr> yesShares = 20, yesCost = 9, noShares = 20, noCost = 9 \<rparr>,
               CheckLock 2000 \<lparr> yesShares = 20, yesCost = 9, noShares = 0, noCost = 0 \<rparr>] \<and>
   runDetector newLockDetector
     [CheckLock 1000 \<lparr> yesShares = 20, yesCost = 9, noShares = 20, noCost = 9 \<rparr>,
      CheckLock 2000 \<lparr> yesShares = 20, yesCost = 9, noShares = 0, noCost = 0 \<rparr>] ! 0 = Some True \<and>
   [CheckLock 1000 \<lparr> yesShares = 20, yesCost = 9, noShares = 20, noCost = 9 \<rparr>,
    CheckLock 2000 \<lparr> yesShares = 20, yesCost = 9, noShares = 0, noCost = 0 \<rparr>] ! 1 \<noteq> Reset \<and>
   \<not> isDualLock (analyzePosition \<lparr> yesShares = 20, yesCost = 9, noShares = 0, noCost = 0 \<rparr>) \<and>
   runDetector newLockDetector
     [CheckLock 1000 \<lparr> yesShares = 20, yesCost = 9, noShares = 20, noCost = 9 \<rparr>,
      CheckLock 2000 \<lparr> yesShares = 20, yesCost = 9, noShares = 0, noCost = 0 \<rparr>] ! 1 = Some True"
proof -
  let ?cs = "[CheckLock 1000 \<lparr> yesShares = 20, yesCost = 9, noShares = 20, noCost = 9 \<rparr>,
              CheckLock 2000 \<lparr> yesShares = 20, yesCost = 9, noShares = 0, noCost = 0 \<rparr>]"
  have h1: "runDetector newLockDetector ?cs ! 0 = Some True"
    by (simp add: checkLock_def analyzePosition_def calculatePayoff_def newLockDetector_def
          analysis.extend_def jsub_def jgt_def fl_eval)
  have h2: "\<forall>k. 0 < k \<and> k \<le> 1 \<longrightarrow> ?cs ! k \<noteq> Reset"
    by (auto simp add: nth_Cons' le_Suc_eq)
  have h3: "\<not> isDualLock (analyzePosition \<lparr> yesShares = 20, yesCost = 9, noShares = 0, noCost = 0 \<rparr>)"
    by (simp add: analyzePosition_def calculatePayoff_def jsub_def jgt_def fl_eval)
  have "runDetector newLockDetector ?cs ! 1 = Some True"
    using checkLock_sticky [of 0 1 ?cs newLockDetector] h1 h2 by simp
  then show ?thesis using h1 h2 h3 by simp
qed

lemma recovery_not_NaN:
  assumes "0 < d"
  shows "jceil (jadd (jdiv (Num d) (jsub (Num 1) (Num p))) (Num bf)) \<noteq> NaN"
proof -
  have s: "jsub (Num 1) (Num p) = fl (1 - p)" by (simp add: jsub_def)
  have q: "jdiv (Num d) (fl (1 - p)) \<noteq> NaN"
    using assms by (cases "fl (1 - p)") (simp_all add: signed_def)
  have a: "jadd (jdiv (Num d) (fl (1 - p))) (Num bf) \<noteq> NaN"
    using q by (cases "jdiv (Num d) (fl (1 - p))") simp_all
  show ?thesis
    unfolding s using a by (cases "jadd (jdiv (Num d) (fl (1 - p))) (Num bf)") simp_all
qed

text \<open>
  The claim C7 as stated fails on the code. For a deficit of 8.84 at the price 0.32 with
  buffer 2 (the doubles nearest to these numbers), \<open>ceil(deficit / (1 - currentPrice)
  + buffer)\<close> is 15, and the code returns 16: the quotient is rounded up to
  13.000000000000002 before the ceiling. And for the deficit \<open>2 ^ 1023\<close> at the price
  0.5, below 1, the code returns Infinity.
\<close>

theorem calculateRecoveryShares_rounding:
  "calculateRecoveryShares (Num (rnd 8.84)) (Num (rnd 0.32)) (Some (Num 2)) = Num 16 \<and>
   of_int \<lceil>rnd 8.84 / (1 - rnd 0.32) + 2\<rceil> = (15::real) \<and>
   calculateRecoveryShares (Num (2 ^ 1023)) (Num (1 / 2)) None = PosInfinity"
proof -
  have a: "calculateRecoveryShares (Num (rnd 8.84)) (Num (rnd 0.32)) (Some (Num 2)) = Num 16"
    by (simp add: calculateRecoveryShares_def jle_def jge_def jsub_def fl_eval)
  have b: "of_int \<lceil>rnd 8.84 / (1 - rnd 0.32) + 2\<rceil> = (15::real)"
    by (simp add: fl_eval)
  have h: "fl (1 / 2) = Num (1 / 2)" by (simp add: fl_eval)
  have q: "fl (2 ^ 1024) = PosInfinity" by (rule fl_overflow) simp
  have c: "calculateRecoveryShares (Num (2 ^ 1023)) (Num (1 / 2)) None = PosInfinity"
    using h q by (simp add: calculateRecoveryShares_def jle_def jge_def jsub_def)
  show ?thesis using a b c by simp
qed

text \<open>
  Claim C7, as the code computes it. For a deficit above 0 and a current price below 1,
  \<open>calculateRecoveryShares\<close> returns \<open>ceil(deficit / (1 - currentPrice) + buffer)\<close>
  evaluated in double arithmetic (the difference, the quotient and the sum are each
  rounded), with buffer 2 when the argument is omitted; for finite arguments this is
  never NaN. For a deficit above 0 and a current price of 1 or more it returns Infinity,
  which is no finite share count; the division is never reached.
\<close>

theorem calculateRecoveryShares_double:
  "(jgt deficit (Num 0) \<and> jlt currentPrice (Num 1) \<longrightarrow>
      calculateRecoveryShares deficit currentPrice (Some buffer) =
        jceil (jadd (jdiv deficit (jsub (Num 1) currentPrice)) buffer) \<and>
      calculateRecoveryShares deficit currentPrice None =
        jceil (jadd (jdiv deficit (jsub (Num 1) currentPrice)) (Num 2))) \<and>
   (0 < d \<and> p < 1 \<longrightarrow>
      calculateRecoveryShares (Num d) (Num p) (Some (Num bf)) \<noteq> NaN \<and>
      calculateRecoveryShares (Num d) (Num p) None \<noteq> NaN) \<and>
   (jgt deficit (Num 0) \<and> jge currentPrice (Num 1) \<longrightarrow>
      calculateRecoveryShares deficit currentPrice b = PosInfinity \<and>
      (\<forall>n. calculateRecoveryShares deficit currentPrice b \<noteq> Num n))"
proof (intro conjI impI allI)
  assume h: "jgt deficit (Num 0) \<and> jlt currentPrice (Num 1)"
  then have g: "\<not> jle deficit (Num 0)" "\<not> jge currentPrice (Num 1)"
    by (simp_all add: jgt_def jle_def jge_def)
  show "calculateRecoveryShares deficit currentPrice (Some buffer) =
          jceil (jadd (jdiv deficit (jsub (Num 1) currentPrice)) buffer)"
    using g by (simp add: calculateRecoveryShares_def)
  show "calculateRecoveryShares deficit currentPrice None =
          jceil (jadd (jdiv deficit (jsub (Num 1) currentPrice)) (Num 2))"
    using g by (simp add: calculateRecoveryShares_def)
next
  assume h: "0 < d \<and> p < 1"
  then have g: "\<not> jle (Num d) (Num 0)" "\<not> jge (Num p) (Num 1)"
    by (simp_all add: jle_def jge_def)
  show "calculateRecoveryShares (Num d) (Num p) (Some (Num bf)) \<noteq> NaN"
    using g recovery_not_NaN [of d p bf] h by (simp add: calculateRecoveryShares_def)
  show "calculateRecoveryShares (Num d) (Num p) None \<noteq> NaN"
    using g recovery_not_NaN [of d p 2] h by (simp add: calculateRecoveryShares_def)
next
  assume h: "jgt deficit (Num 0) \<and> jge currentPrice (Num 1)"
  then have g: "\<not> jle deficit (Num 0)" by (simp add: jgt_def jle_def)
  show r: "calculateRecoveryShares deficit currentPrice b = PosInfinity"
    using g h by (simp add: calculateRecoveryShares_def)
  fix n show "calculateRecoveryShares deficit currentPrice b \<noteq> Num n"
    using r by simp
qed

theorem calculateRecoveryShares_double_witness:
  "jgt (Num 5) (Num 0) \<and> jlt (Num 0.5) (Num 1) \<and> jge (Num 1.25) (Num 1) \<and>
   (0::real) < 5 \<and> (0.5::real) < 1 \<and>
   calculateRecoveryShares (Num 5) (Num 0.5) (Some (Num 2)) = Num 12 \<and>
   calculateRecoveryShares (Num 5) (Num 0.5) None = Num 12 \<and>
   calculateRecoveryShares (Num 5) (Num 0.5) None \<noteq> NaN \<and>
   calculateRecoveryShares (Num 5) (Num 1) (Some (Num 2)) = PosInfinity \<and>
   calculateRecoveryShares (Num 5) (Num 1.25) None = PosInfinity"
proof -
  have f: "fl (1 - 0.5) = Num 0.5" "fl (5 / 0.5) = Num 10" "fl (10 + 2) = Num 12"
    by (simp_all add: fl_eval)
  show ?thesis
    using calculateRecoveryShares_double [of "Num 5" "Num 0.5" "Num 2" 5 "0.5" 2 "Some (Num 2)"]
          calculateRecoveryShares_double [of "Num 5" "Num 1" "Num 2" 5 "0.5" 2 "Some (Num 2)"]
          calculateRecoveryShares_double [of "Num 5" "Num 1.25" "Num 2" 5 "0.5" 2 None] f
    by (simp add: jgt_def jge_def jle_def jsub_def)
qed

section \<open>The risk check\<close>

text \<open>
  The claim C6 as stated fails on the code. With costs of 5 and 10.8, an order of 10 at
  0.92 against a notional cap of 25 is accepted, although the current cost plus
  \<open>price * size\<close> exceeds 25 on the doubles the code holds: the product is rounded down
  and the sum rounds to 25. With costs of 17.1 and 4.1, an order of 10 at 0.38 is
  rejected, although the decimal total is exactly 25, which does not exceed the cap.
\<close>

theorem canPlaceOrder_rounding:
  "canPlaceOrder \<lparr> yesShares = 10, yesCost = 5, noShares = 10, noCost = rnd 10.8 \<rparr> (rnd 0.92) 10
     \<lparr> maxShares = 50, maxNotional = 25, maxOpenOrders = 20 \<rparr> \<and>
   5 + rnd 10.8 + rnd 0.92 * 10 > (25::real) \<and>
   \<not> canPlaceOrder \<lparr> yesShares = 10, yesCost = rnd 17.1, noShares = 10, noCost = rnd 4.1 \<rparr> (rnd 0.38) 10
       \<lparr> maxShares = 50, maxNotional = 25, maxOpenOrders = 20 \<rparr> \<and>
   \<not> (17.1 + 4.1 + 0.38 * 10 > (25::real))"
  by (simp add: canPlaceOrder_def orZero_def jgt_def fl_eval)

text \<open>
  Claim C6, as the code computes it. \<open>canPlaceOrder\<close> returns false when the current
  shares (YES plus NO) plus the proposed size exceed \<open>caps.maxShares\<close>, or the current
  cost (YES plus NO) plus \<open>price * size\<close> exceeds \<open>caps.maxNotional\<close>, each sum and
  the product evaluated in double arithmetic, and true otherwise. With 45 shares held
  and a cap of 50 shares, an order of size 10 is rejected at any price.
\<close>

theorem canPlaceOrder_double:
  "(canPlaceOrder p price sz cp \<longleftrightarrow>
      \<not> jgt (jadd (jadd (Num (yesShares p)) (Num (noShares p))) (Num sz)) (Num (maxShares cp)) \<and>
      \<not> jgt (jadd (jadd (Num (yesCost p)) (Num (noCost p))) (jmul (Num price) (Num sz)))
            (Num (maxNotional cp))) \<and>
   (yesShares p + noShares p = 45 \<and> maxShares cp = 50 \<longrightarrow> \<not> canPlaceOrder p price 10 cp)"
proof (intro conjI impI)
  show c: "canPlaceOrder p price sz cp \<longleftrightarrow>
      \<not> jgt (jadd (jadd (Num (yesShares p)) (Num (noShares p))) (Num sz)) (Num (maxShares cp)) \<and>
      \<not> jgt (jadd (jadd (Num (yesCost p)) (Num (noCost p))) (jmul (Num price) (Num sz)))
            (Num (maxNotional cp))" for sz
    by (simp add: canPlaceOrder_def orZero_def Let_def)
  assume h: "yesShares p + noShares p = 45 \<and> maxShares cp = 50"
  have f: "fl 45 = Num 45" "fl 55 = Num 55" by (simp_all add: fl_eval)
  show "\<not> canPlaceOrder p price 10 cp"
    using h f by (simp add: c jgt_def)
qed

theorem canPlaceOrder_double_witness:
  "yesShares \<lparr> yesShares = 30, yesCost = 12, noShares = 15, noCost = 5 \<rparr> +
     noShares \<lparr> yesShares = 30, yesCost = 12, noShares = 15, noCost = 5 \<rparr> = 45 \<and>
   maxShares \<lparr> maxShares = 50, maxNotional = 25, maxOpenOrders = 20 \<rparr> = 50 \<and>
   \<not> canPlaceOrder \<lparr> yesShares = 30, yesCost = 12, noShares = 15, noCost = 5 \<rparr> (rnd 0.4) 10
       \<lparr> maxShares = 50, maxNotional = 25, maxOpenOrders = 20 \<rparr> \<and>
   canPlaceOrder \<lparr> yesShares = 30, yesCost = 12, noShares = 15, noCost = 5 \<rparr> (rnd 0.4) 5
       \<lparr> maxShares = 50, maxNotional = 25, maxOpenOrders = 20 \<rparr>"
proof -
  have f: "fl 45 = Num 45" "fl 50 = Num 50" "fl 17 = Num 17" "fl (rnd 0.4 * 5) = Num 2"
          "fl 19 = Num 19"
    by (simp_all add: fl_eval)
  show ?thesis
    using canPlaceOrder_double [of "\<lparr> yesShares = 30, yesCost = 12, noShares = 15, noCost = 5 \<rparr>" "rnd 0.4" 10
       "\<lparr> maxShares = 50, maxNotional = 25, maxOpenOrders = 20 \<rparr>"]
          canPlaceOrder_double [of "\<lparr> yesShares = 30, yesCost = 12, noShares = 15, noCost = 5 \<rparr>" "rnd 0.4" 5
       "\<lparr> maxShares = 50, maxNotional = 25, maxOpenOrders = 20 \<rparr>"] f
    by (simp add: jgt_def)
qed

section \<open>Guardrails: the composite gate\<close>

lemma checkAll_results:
  "decisionResults (checkAll cfg i) =
     \<lparr> foreman = \<lparr> check = ''FOREMAN'',
                    passed = ((case inputs.foremanOrder i of None \<Rightarrow> ''START'' | Some x \<Rightarrow> x) = ''START''),
                    reason = (if (case inputs.foremanOrder i of None \<Rightarrow> ''START'' | Some x \<Rightarrow> x) \<noteq> ''START''
                              then Some (ForemanSays (case inputs.foremanOrder i of None \<Rightarrow> ''START'' | Some x \<Rightarrow> x))
                              else None),
                    foremanValue = (case inputs.foremanOrder i of None \<Rightarrow> ''START'' | Some x \<Rightarrow> x) \<rparr>,
       rhr = checkRHR cfg (inputs.elapsedSec i) (case inputs.windowSec i of None \<Rightarrow> 900 | Some w \<Rightarrow> w),
       obi = checkOBI cfg (inputs.obi i) (case inputs.obiSide i of None \<Rightarrow> ''YES'' | Some x \<Rightarrow> x),
       flips = checkFlips cfg (inputs.flipCount i) (inputs.shares i),
       stability = checkStability cfg (inputs.stability i),
       spread = checkSpread cfg (inputs.priceYes i) (inputs.priceNo i),
       pairCost = checkPairCost cfg (inputs.pairCost i) \<rparr>"
  by (simp add: checkAll_def Let_def)

lemma checkAll_allowed:
  "allowed (checkAll cfg i) \<longleftrightarrow>
     (passed (foreman (decisionResults (checkAll cfg i))) \<and>
      passed (rhr (decisionResults (checkAll cfg i))) \<and>
      passed (results.obi (decisionResults (checkAll cfg i))) \<and>
      passed (flips (decisionResults (checkAll cfg i))) \<and>
      passed (results.stability (decisionResults (checkAll cfg i))) \<and>
      passed (results.spread (decisionResults (checkAll cfg i))) \<and>
      passed (results.pairCost (decisionResults (checkAll cfg i))))"
  by (simp add: checkAll_def Let_def entries_def checkResult.truncate_def)

lemma checkAll_blockers:
  "blockers (checkAll cfg i) =
     map (\<lambda>(name, r). (name, reason r))
       (filter (\<lambda>(name, r). \<not> passed r) (entries (decisionResults (checkAll cfg i))))"
  by (simp add: checkAll_def Let_def)

lemma checkAll_mode:
  "decisionMode (checkAll cfg i) =
     (if allowed (checkAll cfg i)
      then (if mode (flips (decisionResults (checkAll cfg i))) = ''RECOVERY''
            then ''RECOVERY'' else ''ENTRY_ALLOWED'')
      else ''BLOCKED'')"
  by (simp add: checkAll_def Let_def)

lemma blockers_set:
  "(n, x) \<in> set (map (\<lambda>(name, r). (name, reason r)) (filter (\<lambda>(name, r). \<not> passed r) es)) \<longleftrightarrow>
   (\<exists>c. (n, c) \<in> set es \<and> \<not> passed c \<and> x = reason c)"
  by (induction es) auto

lemma entries_member:
  "(n, c) \<in> set (entries r) \<longleftrightarrow>
   (n = ''foreman'' \<and> c = checkResult.truncate (foreman r)) \<or>
   (n = ''rhr'' \<and> c = checkResult.truncate (rhr r)) \<or>
   (n = ''obi'' \<and> c = checkResult.truncate (results.obi r)) \<or>
   (n = ''flips'' \<and> c = checkResult.truncate (flips r)) \<or>
   (n = ''stability'' \<and> c = checkResult.truncate (results.stability r)) \<or>
   (n = ''spread'' \<and> c = checkResult.truncate (results.spread r)) \<or>
   (n = ''pairCost'' \<and> c = checkResult.truncate (results.pairCost r))"
  by (simp add: entries_def)

lemma truncate_fields:
  "passed (checkResult.truncate c) = passed c" "reason (checkResult.truncate c) = reason c"
  by (simp_all add: checkResult.truncate_def)

lemma blockers_member:
  "(n, x) \<in> set (map (\<lambda>(name, r). (name, reason r))
                   (filter (\<lambda>(name, r). \<not> passed r) (entries r))) \<longleftrightarrow>
   (n = ''foreman'' \<and> \<not> passed (foreman r) \<and> x = reason (foreman r)) \<or>
   (n = ''rhr'' \<and> \<not> passed (rhr r) \<and> x = reason (rhr r)) \<or>
   (n = ''obi'' \<and> \<not> passed (results.obi r) \<and> x = reason (results.obi r)) \<or>
   (n = ''flips'' \<and> \<not> passed (flips r) \<and> x = reason (flips r)) \<or>
   (n = ''stability'' \<and> \<not> passed (results.stability r) \<and> x = reason (results.stability r)) \<or>
   (n = ''spread'' \<and> \<not> passed (results.spread r) \<and> x = reason (results.spread r)) \<or>
   (n = ''pairCost'' \<and> \<not> passed (results.pairCost r) \<and> x = reason (results.pairCost r))"
  unfolding blockers_set entries_member
  by (simp add: conj_disj_distribR ex_disj_distrib truncate_fields)

lemma blockers_names_distinct:
  "distinct (map fst (map (\<lambda>(name, r). (name, reason r))
                   (filter (\<lambda>(name, r). \<not> passed r) (entries r))))"
proof -
  have a: "map fst (map (\<lambda>(name, r). (name, reason r)) es) = map fst es" for es :: "(string \<times> checkResult) list"
    by (induction es) auto
  have "distinct (map fst (entries r))" by (simp add: entries_def)
  then show ?thesis unfolding a by (rule distinct_map_filter)
qed

text \<open>
  Claim C3. Let \<open>d\<close> be the result of \<open>checkAll\<close> and \<open>r\<close> its seven sub-check
  results (foreman, RHR, OBI, flips, stability, spread, pair cost, each the corresponding
  check applied to the inputs). Then \<open>allowed\<close> is true exactly when all seven passed;
  a pair of a name and a reason is among the blockers exactly when it is the name and the
  reason of one of the seven checks and that check failed, and no name occurs twice; when
  allowed, the mode is RECOVERY if the flip check's mode is RECOVERY and ENTRY\_ALLOWED
  otherwise. So all seven passing with flip mode NORMAL gives allowed and ENTRY\_ALLOWED,
  and an OBI of -0.31 against a threshold of -0.30 gives not allowed, with the blocker
  named \<open>obi\<close>.
\<close>

theorem checkAll_decision:
  assumes "d = checkAll cfg i" and "r = decisionResults d"
  shows "rhr r = checkRHR cfg (inputs.elapsedSec i)
                   (case inputs.windowSec i of None \<Rightarrow> 900 | Some w \<Rightarrow> w) \<and>
         results.obi r = checkOBI cfg (inputs.obi i)
                   (case inputs.obiSide i of None \<Rightarrow> ''YES'' | Some x \<Rightarrow> x) \<and>
         flips r = checkFlips cfg (inputs.flipCount i) (inputs.shares i) \<and>
         results.stability r = checkStability cfg (inputs.stability i) \<and>
         results.spread r = checkSpread cfg (inputs.priceYes i) (inputs.priceNo i) \<and>
         results.pairCost r = checkPairCost cfg (inputs.pairCost i) \<and>
         passed (foreman r) =
           ((case inputs.foremanOrder i of None \<Rightarrow> ''START'' | Some x \<Rightarrow> x) = ''START'') \<and>
         allowed d =
           (passed (foreman r) \<and> passed (rhr r) \<and> passed (results.obi r) \<and> passed (flips r) \<and>
            passed (results.stability r) \<and> passed (results.spread r) \<and>
            passed (results.pairCost r)) \<and>
         (\<forall>n x. (n, x) \<in> set (blockers d) \<longleftrightarrow>
            (n = ''foreman'' \<and> \<not> passed (foreman r) \<and> x = reason (foreman r)) \<or>
            (n = ''rhr'' \<and> \<not> passed (rhr r) \<and> x = reason (rhr r)) \<or>
            (n = ''obi'' \<and> \<not> passed (results.obi r) \<and> x = reason (results.obi r)) \<or>
            (n = ''flips'' \<and> \<not> passed (flips r) \<and> x = reason (flips r)) \<or>
            (n = ''stability'' \<and> \<not> passed (results.stability r) \<and>
               x = reason (results.stability r)) \<or>
            (n = ''spread'' \<and> \<not> passed (results.spread r) \<and> x = reason (results.spread r)) \<or>
            (n = ''pairCost'' \<and> \<not> passed (results.pairCost r) \<and>
               x = reason (results.pairCost r))) \<and>
         distinct (map fst (blockers d)) \<and>
         (allowed d \<longrightarrow>
            decisionMode d =
              (if mode (flips r) = ''RECOVERY'' then ''RECOVERY'' else ''ENTRY_ALLOWED'')) \<and>
         (passed (foreman r) \<and> passed (rhr r) \<and> passed (results.obi r) \<and> passed (flips r) \<and>
          passed (results.stability r) \<and> passed (results.spread r) \<and>
          passed (results.pairCost r) \<and> mode (flips r) = ''NORMAL''
            \<longrightarrow> allowed d \<and> decisionMode d = ''ENTRY_ALLOWED'') \<and>
         (inputs.obi i = -0.31 \<and> OBI_BLOCK_THRESHOLD cfg = -0.30
            \<longrightarrow> \<not> allowed d \<and>
                (''obi'', Some (ObiBlocked (-0.31) (-0.30)
                            (case inputs.obiSide i of None \<Rightarrow> ''YES'' | Some x \<Rightarrow> x)))
                  \<in> set (blockers d))"
proof -
  have res: "r = decisionResults (checkAll cfg i)" using assms by simp
  have p1: "rhr r = checkRHR cfg (inputs.elapsedSec i)
                   (case inputs.windowSec i of None \<Rightarrow> 900 | Some w \<Rightarrow> w)"
           "results.obi r = checkOBI cfg (inputs.obi i)
                   (case inputs.obiSide i of None \<Rightarrow> ''YES'' | Some x \<Rightarrow> x)"
           "flips r = checkFlips cfg (inputs.flipCount i) (inputs.shares i)"
           "results.stability r = checkStability cfg (inputs.stability i)"
           "results.spread r = checkSpread cfg (inputs.priceYes i) (inputs.priceNo i)"
           "results.pairCost r = checkPairCost cfg (inputs.pairCost i)"
           "passed (foreman r) =
              ((case inputs.foremanOrder i of None \<Rightarrow> ''START'' | Some x \<Rightarrow> x) = ''START'')"
    unfolding res checkAll_results by simp_all
  have al: "allowed d =
           (passed (foreman r) \<and> passed (rhr r) \<and> passed (results.obi r) \<and> passed (flips r) \<and>
            passed (results.stability r) \<and> passed (results.spread r) \<and>
            passed (results.pairCost r))"
    unfolding res assms(1) by (rule checkAll_allowed)
  have bl: "blockers d = map (\<lambda>(name, r). (name, reason r))
                           (filter (\<lambda>(name, r). \<not> passed r) (entries r))"
    unfolding res assms(1) by (rule checkAll_blockers)
  have mem: "\<forall>n x. (n, x) \<in> set (blockers d) \<longleftrightarrow>
            (n = ''foreman'' \<and> \<not> passed (foreman r) \<and> x = reason (foreman r)) \<or>
            (n = ''rhr'' \<and> \<not> passed (rhr r) \<and> x = reason (rhr r)) \<or>
            (n = ''obi'' \<and> \<not> passed (results.obi r) \<and> x = reason (results.obi r)) \<or>
            (n = ''flips'' \<and> \<not> passed (flips r) \<and> x = reason (flips r)) \<or>
            (n = ''stability'' \<and> \<not> passed (results.stability r) \<and>
               x = reason (results.stability r)) \<or>
            (n = ''spread'' \<and> \<not> passed (results.spread r) \<and> x = reason (results.spread r)) \<or>
            (n = ''pairCost'' \<and> \<not> passed (results.pairCost r) \<and>
               x = reason (results.pairCost r))"
    unfolding bl using blockers_member [of _ _ r] by blast
  have di: "distinct (map fst (blockers d))"
    unfolding bl by (rule blockers_names_distinct)
  have md: "decisionMode d =
     (if allowed d
      then (if mode (flips r) = ''RECOVERY'' then ''RECOVERY'' else ''ENTRY_ALLOWED'')
      else ''BLOCKED'')"
    unfolding res assms(1) by (rule checkAll_mode)
  have m1: "allowed d \<longrightarrow>
            decisionMode d =
              (if mode (flips r) = ''RECOVERY'' then ''RECOVERY'' else ''ENTRY_ALLOWED'')"
    using md by simp
  have m2: "passed (foreman r) \<and> passed (rhr r) \<and> passed (results.obi r) \<and> passed (flips r) \<and>
          passed (results.stability r) \<and> passed (results.spread r) \<and>
          passed (results.pairCost r) \<and> mode (flips r) = ''NORMAL''
            \<longrightarrow> allowed d \<and> decisionMode d = ''ENTRY_ALLOWED''"
    using md al by simp
  have ob: "inputs.obi i = -0.31 \<and> OBI_BLOCK_THRESHOLD cfg = -0.30
            \<longrightarrow> \<not> allowed d \<and>
                (''obi'', Some (ObiBlocked (-0.31) (-0.30)
                            (case inputs.obiSide i of None \<Rightarrow> ''YES'' | Some x \<Rightarrow> x)))
                  \<in> set (blockers d)"
  proof
    assume h: "inputs.obi i = -0.31 \<and> OBI_BLOCK_THRESHOLD cfg = -0.30"
    have np: "\<not> passed (results.obi r)"
      using h by (simp add: p1(2) checkOBI_def)
    have rs: "reason (results.obi r) = Some (ObiBlocked (-0.31) (-0.30)
                            (case inputs.obiSide i of None \<Rightarrow> ''YES'' | Some x \<Rightarrow> x))"
      using h by (simp add: p1(2) checkOBI_def)
    show "\<not> allowed d \<and>
                (''obi'', Some (ObiBlocked (-0.31) (-0.30)
                            (case inputs.obiSide i of None \<Rightarrow> ''YES'' | Some x \<Rightarrow> x)))
                  \<in> set (blockers d)"
      using np rs al mem by simp
  qed
  show ?thesis
    using p1 al mem di m1 m2 ob by blast
qed

theorem checkAll_decision_witness:
  "allowed (checkAll CONFIG
     \<lparr> elapsedSec = 450, windowSec = Some 900, inputs.obi = 0.1, obiSide = Some ''YES'',
       flipCount = 0, shares = 0, inputs.stability = 0.7, priceYes = 0.6, priceNo = 0.4,
       foremanOrder = Some ''START'', inputs.pairCost = None \<rparr>) \<and>
   decisionMode (checkAll CONFIG
     \<lparr> elapsedSec = 450, windowSec = Some 900, inputs.obi = 0.1, obiSide = Some ''YES'',
       flipCount = 0, shares = 0, inputs.stability = 0.7, priceYes = 0.6, priceNo = 0.4,
       foremanOrder = Some ''START'', inputs.pairCost = None \<rparr>) = ''ENTRY_ALLOWED'' \<and>
   inputs.obi
     \<lparr> elapsedSec = 450, windowSec = Some 900, inputs.obi = -0.31, obiSide = Some ''YES'',
       flipCount = 0, shares = 0, inputs.stability = 0.7, priceYes = 0.6, priceNo = 0.4,
       foremanOrder = Some ''START'', inputs.pairCost = None \<rparr> = -0.31 \<and>
   OBI_BLOCK_THRESHOLD CONFIG = -0.30 \<and>
   \<not> allowed (checkAll CONFIG
     \<lparr> elapsedSec = 450, windowSec = Some 900, inputs.obi = -0.31, obiSide = Some ''YES'',
       flipCount = 0, shares = 0, inputs.stability = 0.7, priceYes = 0.6, priceNo = 0.4,
       foremanOrder = Some ''START'', inputs.pairCost = None \<rparr>) \<and>
   (''obi'', Some (ObiBlocked (-0.31) (-0.30) ''YES'')) \<in> set (blockers (checkAll CONFIG
     \<lparr> elapsedSec = 450, windowSec = Some 900, inputs.obi = -0.31, obiSide = Some ''YES'',
       flipCount = 0, shares = 0, inputs.stability = 0.7, priceYes = 0.6, priceNo = 0.4,
       foremanOrder = Some ''START'', inputs.pairCost = None \<rparr>))"
proof -
  let ?ok = "\<lparr> elapsedSec = 450, windowSec = Some 900, inputs.obi = 0.1, obiSide = Some ''YES'',
       flipCount = 0, shares = 0, inputs.stability = 0.7, priceYes = 0.6, priceNo = 0.4,
       foremanOrder = Some ''START'', inputs.pairCost = None \<rparr>"
  let ?bad = "\<lparr> elapsedSec = 450, windowSec = Some 900, inputs.obi = -0.31, obiSide = Some ''YES'',
       flipCount = 0, shares = 0, inputs.stability = 0.7, priceYes = 0.6, priceNo = 0.4,
       foremanOrder = Some ''START'', inputs.pairCost = None \<rparr>"
  have a: "allowed (checkAll CONFIG ?ok) \<and> decisionMode (checkAll CONFIG ?ok) = ''ENTRY_ALLOWED''"
    using checkAll_decision [OF refl refl, of CONFIG ?ok]
    by (simp add: checkRHR_def checkOBI_def checkFlips_def checkStability_def checkSpread_def
          checkPairCost_def CONFIG_def js_div_def Let_def)
  have h: "inputs.obi ?bad = -0.31 \<and> OBI_BLOCK_THRESHOLD CONFIG = -0.30"
    by (simp add: CONFIG_def)
  have "inputs.obi ?bad = -0.31 \<and> OBI_BLOCK_THRESHOLD CONFIG = -0.30
            \<longrightarrow> \<not> allowed (checkAll CONFIG ?bad) \<and>
                (''obi'', Some (ObiBlocked (-0.31) (-0.30)
                            (case inputs.obiSide ?bad of None \<Rightarrow> ''YES'' | Some x \<Rightarrow> x)))
                  \<in> set (blockers (checkAll CONFIG ?bad))"
    using checkAll_decision [OF refl refl, of CONFIG ?bad] by (elim conjE)
  then have b: "\<not> allowed (checkAll CONFIG ?bad) \<and>
           (''obi'', Some (ObiBlocked (-0.31) (-0.30) ''YES'')) \<in> set (blockers (checkAll CONFIG ?bad))"
    using h by simp
  show ?thesis using a b h by simp
qed

section \<open>LeaderTracker: two-tick confirmation of a flip\<close>

text \<open>What update does to the fields the flip logic reads.\<close>

lemma update_first:
  "currentLeader t = None \<Longrightarrow>
   \<not> flipped (fst (update now pYes pNo t)) \<and>
   leader (fst (update now pYes pNo t)) = Some (newLeaderOf pYes pNo) \<and>
   currentLeader (snd (update now pYes pNo t)) = Some (newLeaderOf pYes pNo) \<and>
   pendingFlip (snd (update now pYes pNo t)) = pendingFlip t \<and>
   pendingFlipCount (snd (update now pYes pNo t)) = pendingFlipCount t \<and>
   totalFlips (snd (update now pYes pNo t)) = totalFlips t \<and>
   infoTotalFlips (fst (update now pYes pNo t)) = totalFlips t"
  by (simp add: update_def updateLeader_def Let_def split: prod.splits)

lemma update_same:
  "currentLeader t = Some (newLeaderOf pYes pNo) \<Longrightarrow>
   \<not> flipped (fst (update now pYes pNo t)) \<and>
   leader (fst (update now pYes pNo t)) = currentLeader t \<and>
   currentLeader (snd (update now pYes pNo t)) = currentLeader t \<and>
   pendingFlip (snd (update now pYes pNo t)) = None \<and>
   pendingFlipCount (snd (update now pYes pNo t)) = 0 \<and>
   totalFlips (snd (update now pYes pNo t)) = totalFlips t \<and>
   infoTotalFlips (fst (update now pYes pNo t)) = totalFlips t"
  by (simp add: update_def updateLeader_def Let_def split: prod.splits)

lemma update_opposite_new:
  "currentLeader t = Some l \<Longrightarrow> newLeaderOf pYes pNo \<noteq> l \<Longrightarrow>
   pendingFlip t \<noteq> Some (newLeaderOf pYes pNo) \<Longrightarrow>
   \<not> flipped (fst (update now pYes pNo t)) \<and>
   leader (fst (update now pYes pNo t)) = Some l \<and>
   currentLeader (snd (update now pYes pNo t)) = Some l \<and>
   pendingFlip (snd (update now pYes pNo t)) = Some (newLeaderOf pYes pNo) \<and>
   pendingFlipCount (snd (update now pYes pNo t)) = 1 \<and>
   totalFlips (snd (update now pYes pNo t)) = totalFlips t \<and>
   infoTotalFlips (fst (update now pYes pNo t)) = totalFlips t"
  by (simp add: update_def updateLeader_def Let_def split: prod.splits)

lemma update_opposite_confirm:
  "currentLeader t = Some l \<Longrightarrow> newLeaderOf pYes pNo \<noteq> l \<Longrightarrow>
   pendingFlip t = Some (newLeaderOf pYes pNo) \<Longrightarrow> pendingFlipCount t \<ge> 1 \<Longrightarrow>
   flipped (fst (update now pYes pNo t)) \<and>
   leader (fst (update now pYes pNo t)) = Some (newLeaderOf pYes pNo) \<and>
   currentLeader (snd (update now pYes pNo t)) = Some (newLeaderOf pYes pNo) \<and>
   pendingFlip (snd (update now pYes pNo t)) = None \<and>
   pendingFlipCount (snd (update now pYes pNo t)) = 0 \<and>
   totalFlips (snd (update now pYes pNo t)) = totalFlips t + 1 \<and>
   infoTotalFlips (fst (update now pYes pNo t)) = totalFlips t + 1"
  by (simp add: update_def updateLeader_def Let_def split: prod.splits)

text \<open>A tracker without a leader has no pending flip, after any calls on a new tracker.\<close>

lemma update_keeps_no_pending:
  "(currentLeader t = None \<longrightarrow> pendingFlip t = None) \<Longrightarrow>
   (currentLeader (snd (update now pYes pNo t)) = None \<longrightarrow>
    pendingFlip (snd (update now pYes pNo t)) = None)"
  by (simp add: update_def updateLeader_def Let_def split: prod.splits)

lemma trackerAfter_no_pending:
  "(currentLeader t = None \<longrightarrow> pendingFlip t = None) \<Longrightarrow>
   (currentLeader (trackerAfter t cs) = None \<longrightarrow> pendingFlip (trackerAfter t cs) = None)"
proof (induction t cs rule: trackerAfter.induct)
  case (1 t)
  then show ?case by simp
next
  case (2 t now pYes pNo cs)
  then show ?case using update_keeps_no_pending [of t now pYes pNo] by simp
next
  case (3 t cs)
  have "pendingFlip (resetForNewWindow t) = None" by (simp add: resetForNewWindow_def)
  then show ?case using 3 by simp
qed

text \<open>After an observation that agrees with the leader it leaves, nothing is pending.\<close>

lemma update_agreeing:
  assumes "currentLeader t = None \<longrightarrow> pendingFlip t = None"
      and "leader (fst (update now pYes pNo t)) = Some (newLeaderOf pYes pNo)"
  shows "currentLeader (snd (update now pYes pNo t)) = Some (newLeaderOf pYes pNo) \<and>
         pendingFlip (snd (update now pYes pNo t)) = None"
  using assms
  by (simp add: update_def updateLeader_def Let_def split: prod.splits if_splits)

lemma side_other: "(a::side) \<noteq> l \<Longrightarrow> b \<noteq> l \<Longrightarrow> a = b"
  by (cases a; cases b; cases l) simp_all

text \<open>
  Claim C4. Take any sequence of calls on a new tracker, then an observation that agrees
  with the leader the tracker has after it (it established the leader, matched it, or
  confirmed a flip to it); call that leader \<open>l\<close>. A following observation with the
  opposite leader does not flip: \<open>flipped\<close> is false, the leader and \<open>totalFlips\<close>
  are unchanged. A second consecutive observation with the opposite leader flips:
  \<open>flipped\<close> is true, the leader is the new one, \<open>totalFlips\<close> is one more, and a
  third such observation does not flip again. If instead the second observation agrees
  with \<open>l\<close>, the pending candidate is cleared, and an opposite observation after it does
  not flip either. An observation that agrees with the current leader always clears the
  pending candidate.
\<close>

theorem leader_flip_debounce:
  assumes "ta = trackerAfter (newLeaderTracker w) calls"
      and "leader (fst (update na ya xa ta)) = Some l"
      and "newLeaderOf ya xa = l"
      and "tb = snd (update na ya xa ta)"
      and "tc = snd (update nb yb xb tb)"
      and "td = snd (update nc yc xc tc)"
      and "te = snd (update nd yd xd td)"
  shows "(newLeaderOf yb xb \<noteq> l \<longrightarrow>
            \<not> flipped (fst (update nb yb xb tb)) \<and>
            leader (fst (update nb yb xb tb)) = Some l \<and>
            currentLeader tc = Some l \<and> totalFlips tc = totalFlips tb) \<and>
         (newLeaderOf yb xb \<noteq> l \<and> newLeaderOf yc xc \<noteq> l \<longrightarrow>
            \<not> flipped (fst (update nb yb xb tb)) \<and>
            flipped (fst (update nc yc xc tc)) \<and>
            leader (fst (update nc yc xc tc)) = Some (newLeaderOf yc xc) \<and>
            currentLeader td = Some (newLeaderOf yc xc) \<and>
            totalFlips td = totalFlips tb + 1 \<and>
            infoTotalFlips (fst (update nc yc xc tc)) = totalFlips tb + 1 \<and>
            (newLeaderOf yd xd \<noteq> l \<longrightarrow>
               \<not> flipped (fst (update nd yd xd td)) \<and> totalFlips te = totalFlips tb + 1)) \<and>
         (newLeaderOf yb xb \<noteq> l \<and> newLeaderOf yc xc = l \<longrightarrow>
            pendingFlip tc = Some (newLeaderOf yb xb) \<and>
            \<not> flipped (fst (update nc yc xc tc)) \<and>
            pendingFlip td = None \<and> pendingFlipCount td = 0 \<and>
            currentLeader td = Some l \<and>
            (newLeaderOf yd xd \<noteq> l \<longrightarrow>
               \<not> flipped (fst (update nd yd xd td)) \<and>
               currentLeader te = Some l \<and> totalFlips te = totalFlips tb)) \<and>
         (\<forall>t n y x. currentLeader t = Some (newLeaderOf y x) \<longrightarrow>
            \<not> flipped (fst (update n y x t)) \<and>
            pendingFlip (snd (update n y x t)) = None \<and>
            pendingFlipCount (snd (update n y x t)) = 0 \<and>
            currentLeader (snd (update n y x t)) = currentLeader t)"
proof -
  have "currentLeader (newLeaderTracker w) = None \<longrightarrow> pendingFlip (newLeaderTracker w) = None"
    by (simp add: newLeaderTracker_def)
  then have inv0: "currentLeader ta = None \<longrightarrow> pendingFlip ta = None"
    unfolding assms(1) by (rule trackerAfter_no_pending)
  have s1: "currentLeader tb = Some l" "pendingFlip tb = None"
    using update_agreeing [OF inv0, of na ya xa] assms(2,3,4) by simp_all
  have single: "\<not> flipped (fst (update nb yb xb tb)) \<and>
            leader (fst (update nb yb xb tb)) = Some l \<and>
            currentLeader tc = Some l \<and> totalFlips tc = totalFlips tb \<and>
            pendingFlip tc = Some (newLeaderOf yb xb) \<and> pendingFlipCount tc = 1"
    if a: "newLeaderOf yb xb \<noteq> l"
    using update_opposite_new [OF s1(1) a, of nb] s1(2) assms(5) by simp
  have double: "flipped (fst (update nc yc xc tc)) \<and>
            leader (fst (update nc yc xc tc)) = Some (newLeaderOf yc xc) \<and>
            currentLeader td = Some (newLeaderOf yc xc) \<and>
            totalFlips td = totalFlips tb + 1 \<and>
            infoTotalFlips (fst (update nc yc xc tc)) = totalFlips tb + 1 \<and>
            pendingFlip td = None"
    if a: "newLeaderOf yb xb \<noteq> l" and b: "newLeaderOf yc xc \<noteq> l"
  proof -
    have eq: "newLeaderOf yb xb = newLeaderOf yc xc" using a b by (rule side_other)
    have c: "currentLeader tc = Some l" "pendingFlip tc = Some (newLeaderOf yc xc)"
            "pendingFlipCount tc \<ge> 1" "totalFlips tc = totalFlips tb"
      using single [OF a] eq by simp_all
    show ?thesis
      using update_opposite_confirm [OF c(1) b c(2) c(3), of nc] c(4) assms(6) by simp
  qed
  have third: "\<not> flipped (fst (update nd yd xd td)) \<and> totalFlips te = totalFlips tb + 1"
    if a: "newLeaderOf yb xb \<noteq> l" and b: "newLeaderOf yc xc \<noteq> l" and c: "newLeaderOf yd xd \<noteq> l"
  proof -
    have eq: "newLeaderOf yc xc = newLeaderOf yd xd" using b c by (rule side_other)
    have "currentLeader td = Some (newLeaderOf yd xd)" using double [OF a b] eq by simp
    then show ?thesis
      using update_same [of td yd xd nd] double [OF a b] assms(7) by simp
  qed
  have cleared: "pendingFlip tc = Some (newLeaderOf yb xb) \<and>
            \<not> flipped (fst (update nc yc xc tc)) \<and>
            pendingFlip td = None \<and> pendingFlipCount td = 0 \<and>
            currentLeader td = Some l \<and> totalFlips td = totalFlips tb"
    if a: "newLeaderOf yb xb \<noteq> l" and b: "newLeaderOf yc xc = l"
  proof -
    have "currentLeader tc = Some (newLeaderOf yc xc)" using single [OF a] b by simp
    then show ?thesis
      using update_same [of tc yc xc nc] single [OF a] b assms(6) by simp
  qed
  have again: "\<not> flipped (fst (update nd yd xd td)) \<and>
               currentLeader te = Some l \<and> totalFlips te = totalFlips tb"
    if a: "newLeaderOf yb xb \<noteq> l" and b: "newLeaderOf yc xc = l" and c: "newLeaderOf yd xd \<noteq> l"
  proof -
    have d: "currentLeader td = Some l" "pendingFlip td \<noteq> Some (newLeaderOf yd xd)"
      using cleared [OF a b] by simp_all
    show ?thesis
      using update_opposite_new [OF d(1) c d(2), of nd] cleared [OF a b] assms(7) by simp
  qed
  have same: "\<forall>t n y x. currentLeader t = Some (newLeaderOf y x) \<longrightarrow>
            \<not> flipped (fst (update n y x t)) \<and>
            pendingFlip (snd (update n y x t)) = None \<and>
            pendingFlipCount (snd (update n y x t)) = 0 \<and>
            currentLeader (snd (update n y x t)) = currentLeader t"
    using update_same by blast
  show ?thesis
    using single double third cleared again same by blast
qed

theorem leader_flip_debounce_witness:
  "leader (fst (update 1000 0.6 0.4 (trackerAfter (newLeaderTracker 90000) []))) = Some YES \<and>
   newLeaderOf 0.6 0.4 = YES \<and>
   newLeaderOf 0.4 0.6 \<noteq> YES \<and>
   newLeaderOf 0.45 0.55 \<noteq> YES \<and>
   newLeaderOf 0.3 0.7 \<noteq> YES \<and>
   \<not> flipped (fst (update 2000 0.4 0.6 (snd (update 1000 0.6 0.4 (trackerAfter (newLeaderTracker 90000) []))))) \<and>
   leader (fst (update 2000 0.4 0.6 (snd (update 1000 0.6 0.4 (trackerAfter (newLeaderTracker 90000) []))))) = Some YES \<and>
   flipped (fst (update 3000 0.45 0.55 (snd (update 2000 0.4 0.6 (snd (update 1000 0.6 0.4 (trackerAfter (newLeaderTracker 90000) []))))))) \<and>
   leader (fst (update 3000 0.45 0.55 (snd (update 2000 0.4 0.6 (snd (update 1000 0.6 0.4 (trackerAfter (newLeaderTracker 90000) []))))))) = Some NO \<and>
   infoTotalFlips (fst (update 3000 0.45 0.55 (snd (update 2000 0.4 0.6 (snd (update 1000 0.6 0.4 (trackerAfter (newLeaderTracker 90000) []))))))) = 1 \<and>
   \<not> flipped (fst (update 4000 0.3 0.7 (snd (update 3000 0.45 0.55 (snd (update 2000 0.4 0.6 (snd (update 1000 0.6 0.4 (trackerAfter (newLeaderTracker 90000) []))))))))) \<and>
   totalFlips (snd (update 4000 0.3 0.7 (snd (update 3000 0.45 0.55 (snd (update 2000 0.4 0.6 (snd (update 1000 0.6 0.4 (trackerAfter (newLeaderTracker 90000) []))))))))) = 1"
proof -
  have h0: "leader (fst (update 1000 0.6 0.4 (trackerAfter (newLeaderTracker 90000) []))) = Some YES"
    by (simp add: update_def updateLeader_def newLeaderOf_def newLeaderTracker_def
          newRollingAverage_def newRollingCounter_def add_def cleanup_def
          counterGetCount_def counterCleanup_def Let_def)
  have h1: "newLeaderOf 0.6 0.4 = YES" by (simp add: newLeaderOf_def)
  have h2: "newLeaderOf 0.4 0.6 \<noteq> YES" "newLeaderOf 0.45 0.55 \<noteq> YES"
           "newLeaderOf 0.3 0.7 \<noteq> YES" "newLeaderOf 0.45 0.55 = NO"
    by (simp_all add: newLeaderOf_def)
  have z: "totalFlips (snd (update 1000 0.6 0.4 (trackerAfter (newLeaderTracker 90000) []))) = 0"
    by (simp add: update_def updateLeader_def newLeaderOf_def newLeaderTracker_def
          newRollingAverage_def newRollingCounter_def add_def cleanup_def
          counterGetCount_def counterCleanup_def Let_def)
  show ?thesis
    using leader_flip_debounce [OF refl h0 h1 refl refl refl refl,
            where nb = 2000 and yb = "0.4" and xb = "0.6" and nc = 3000 and yc = "0.45"
              and xc = "0.55" and nd = 4000 and yd = "0.3" and xd = "0.7"] h0 h1 h2 z
    by simp
qed

section \<open>The new-window reset of the worker\<close>

lemma update_totalFlips_mono: "totalFlips t \<le> totalFlips (snd (update now pYes pNo t))"
  by (simp add: update_def updateLeader_def Let_def split: prod.splits)

lemma update_after_reset:
  "pendingFlip t = None \<Longrightarrow> events (flipCounter t) = [] \<Longrightarrow>
   \<not> flipped (fst (update now pYes pNo t)) \<and>
   leaderInfo.flipCount (fst (update now pYes pNo t)) = 0 \<and>
   totalFlips (snd (update now pYes pNo t)) = totalFlips t \<and>
   events (flipCounter (snd (update now pYes pNo t))) = []"
  by (simp add: update_def updateLeader_def counterGetCount_def counterCleanup_def Let_def
           split: prod.splits)

lemma detectNewWindow_new:
  "windowId w \<noteq> lastWindowId s \<Longrightarrow>
   detectNewWindow w ao s =
     s\<lparr> state := ARMED, entryDone := False, ladderDone := False,
        leaderTracker := resetForNewWindow (leaderTracker s),
        lockDetector := reset (lockDetector s),
        lastWindowId := windowId w,
        lastTokens := \<lparr> up = (if truthy (tokenUp ao) then tokenUp ao else None),
                         down = (if truthy (tokenDown ao) then tokenDown ao else None) \<rparr>,
        position := zeroPosition \<rparr>"
  by (simp add: detectNewWindow_def)

lemma detectNewWindow_same: "windowId w = lastWindowId s \<Longrightarrow> detectNewWindow w ao s = s"
  by (simp add: detectNewWindow_def)

lemma updateTrackers_frame:
  "state (snd (updateTrackers env pYes pNo s)) = state s \<and>
   position (snd (updateTrackers env pYes pNo s)) = position s \<and>
   entryDone (snd (updateTrackers env pYes pNo s)) = entryDone s \<and>
   ladderDone (snd (updateTrackers env pYes pNo s)) = ladderDone s \<and>
   lockDetector (snd (updateTrackers env pYes pNo s)) = lockDetector s \<and>
   lastWindowId (snd (updateTrackers env pYes pNo s)) = lastWindowId s \<and>
   leaderTracker (snd (updateTrackers env pYes pNo s)) =
     snd (update (tickNow env) pYes pNo (leaderTracker s)) \<and>
   fst (updateTrackers env pYes pNo s) = fst (update (tickNow env) pYes pNo (leaderTracker s))"
  by (simp add: updateTrackers_def Let_def split: prod.splits)

lemma new_window_before_switch:
  assumes "windowId w \<noteq> lastWindowId s"
  shows "state (snd (beforeSwitch env ao w s)) = ARMED \<and>
         position (snd (beforeSwitch env ao w s)) = zeroPosition \<and>
         \<not> entryDone (snd (beforeSwitch env ao w s)) \<and>
         \<not> ladderDone (snd (beforeSwitch env ao w s)) \<and>
         totalFlips (leaderTracker (snd (beforeSwitch env ao w s))) = 0 \<and>
         events (flipCounter (leaderTracker (snd (beforeSwitch env ao w s)))) = [] \<and>
         leaderInfo.flipCount (fst (beforeSwitch env ao w s)) = 0 \<and>
         \<not> flipped (fst (beforeSwitch env ao w s)) \<and>
         \<not> locked (lockDetector (snd (beforeSwitch env ao w s))) \<and>
         lockDetector (snd (beforeSwitch env ao w s)) =
           \<lparr> locked = False, lockTimestamp = None, lockDetails = None \<rparr> \<and>
         lastWindowId (snd (beforeSwitch env ao w s)) = windowId w"
proof -
  obtain pYes pNo where pr: "currentPrices env ao = (pYes, pNo)"
    by (cases "currentPrices env ao")
  let ?s1 = "detectNewWindow w ao s"
  have bs: "beforeSwitch env ao w s = updateTrackers env pYes pNo ?s1"
    by (simp add: beforeSwitch_def pr)
  have t: "pendingFlip (leaderTracker ?s1) = None"
          "events (flipCounter (leaderTracker ?s1)) = []"
          "totalFlips (leaderTracker ?s1) = 0"
    using assms by (simp_all add: detectNewWindow_new resetForNewWindow_def counterReset_def)
  have r: "state ?s1 = ARMED" "position ?s1 = zeroPosition" "\<not> entryDone ?s1"
          "\<not> ladderDone ?s1" "\<not> locked (lockDetector ?s1)" "lastWindowId ?s1 = windowId w"
          "lockDetector ?s1 = \<lparr> locked = False, lockTimestamp = None, lockDetails = None \<rparr>"
    using assms by (simp_all add: detectNewWindow_new reset_def)
  show ?thesis
    using update_after_reset [OF t(1) t(2), of "tickNow env" pYes pNo] t(3) r
    by (simp add: bs updateTrackers_frame)
qed

lemma handleArmed_frame:
  "position (handleArmed env w info s) = position s \<and>
   entryDone (handleArmed env w info s) = entryDone s \<and>
   ladderDone (handleArmed env w info s) = ladderDone s \<and>
   lockDetector (handleArmed env w info s) = lockDetector s \<and>
   leaderTracker (handleArmed env w info s) = leaderTracker s \<and>
   lastWindowId (handleArmed env w info s) = lastWindowId s"
  by (simp add: handleArmed_def Let_def split: prod.splits)

lemma handleEntry_state: "state (handleEntry env ao cp s) = LADDERING"
  by (simp add: handleEntry_def Let_def split: orderResult.splits)

lemma handleLocking_state: "state s = LOCKING \<Longrightarrow> state (handleLocking env s) \<noteq> ARMED"
  by (simp add: handleLocking_def Let_def split: prod.splits)

lemma handleRecovery_state: "state (handleRecovery env ao pYes pNo cp s) = LOCKING"
  by (simp add: handleRecovery_def Let_def split: orderResult.splits jsnum.splits)

text \<open>What the handlers never undo: the two flags, the lock, the flip counters and the
  window id.\<close>

lemma handleEntry_frame:
  "entryDone (handleEntry env ao cp s) \<and>
   ladderDone (handleEntry env ao cp s) = ladderDone s \<and>
   lockDetector (handleEntry env ao cp s) = lockDetector s \<and>
   leaderTracker (handleEntry env ao cp s) = leaderTracker s \<and>
   lastWindowId (handleEntry env ao cp s) = lastWindowId s"
  by (simp add: handleEntry_def Let_def split: orderResult.splits)

lemma handleLaddering_frame:
  "ladderDone (handleLaddering ao s) \<and>
   entryDone (handleLaddering ao s) = entryDone s \<and>
   lockDetector (handleLaddering ao s) = lockDetector s \<and>
   leaderTracker (handleLaddering ao s) = leaderTracker s \<and>
   lastWindowId (handleLaddering ao s) = lastWindowId s"
  by (simp add: handleLaddering_def)

lemma handleLocking_frame:
  "entryDone (handleLocking env s) = entryDone s \<and>
   ladderDone (handleLocking env s) = ladderDone s \<and>
   (locked (lockDetector s) \<longrightarrow> locked (lockDetector (handleLocking env s))) \<and>
   leaderTracker (handleLocking env s) = leaderTracker s \<and>
   lastWindowId (handleLocking env s) = lastWindowId s"
proof -
  obtain a d where c: "checkLock (tickNow env) (position s) (lockDetector s) = (a, d)"
    by (cases "checkLock (tickNow env) (position s) (lockDetector s)")
  have "locked (lockDetector s) \<longrightarrow> locked d"
    using checkLock_keeps_lock [of "lockDetector s" "tickNow env" "position s"] c by simp
  then show ?thesis by (simp add: handleLocking_def c Let_def)
qed

lemma handleRecovery_frame:
  "entryDone (handleRecovery env ao pYes pNo cp s) = entryDone s \<and>
   ladderDone (handleRecovery env ao pYes pNo cp s) = ladderDone s \<and>
   lockDetector (handleRecovery env ao pYes pNo cp s) = lockDetector s \<and>
   leaderTracker (handleRecovery env ao pYes pNo cp s) = leaderTracker s \<and>
   lastWindowId (handleRecovery env ao pYes pNo cp s) = lastWindowId s"
  by (simp add: handleRecovery_def Let_def split: orderResult.splits jsnum.splits)

lemma dispatch_frame:
  "(entryDone s \<longrightarrow> entryDone (dispatch env ao w cp pYes pNo info s)) \<and>
   (ladderDone s \<longrightarrow> ladderDone (dispatch env ao w cp pYes pNo info s)) \<and>
   (locked (lockDetector s) \<longrightarrow> locked (lockDetector (dispatch env ao w cp pYes pNo info s))) \<and>
   leaderTracker (dispatch env ao w cp pYes pNo info s) = leaderTracker s \<and>
   lastWindowId (dispatch env ao w cp pYes pNo info s) = lastWindowId s"
  using handleArmed_frame [of env w info s] handleEntry_frame [of env ao cp s]
        handleLaddering_frame [of ao s] handleLocking_frame [of env s]
        handleRecovery_frame [of env ao pYes pNo cp s]
  by (cases "state s") (simp_all add: dispatch_def handleEndgame_def)

lemma dispatch_never_arms:
  "state s \<noteq> ARMED \<Longrightarrow> state (dispatch env ao w cp pYes pNo info s) \<noteq> ARMED"
  by (cases "state s")
     (simp_all add: dispatch_def handleEntry_state handleLaddering_def handleLocking_state
        handleRecovery_state handleEndgame_def)

lemma afterSwitch_frame:
  "state (afterSwitch env s) = state s \<and>
   position (afterSwitch env s) = position s \<and>
   entryDone (afterSwitch env s) = entryDone s \<and>
   ladderDone (afterSwitch env s) = ladderDone s \<and>
   lockDetector (afterSwitch env s) = lockDetector s \<and>
   leaderTracker (afterSwitch env s) = leaderTracker s \<and>
   lastWindowId (afterSwitch env s) = lastWindowId s"
  by (simp add: afterSwitch_def)

text \<open>A tick in the same window: nothing of what the new-window block resets is
  undone.\<close>

lemma same_window_tick:
  assumes "windowId w = lastWindowId s"
  shows "(state s \<noteq> ARMED \<longrightarrow> state (processAssetState env ao w rc s) \<noteq> ARMED) \<and>
         (entryDone s \<longrightarrow> entryDone (processAssetState env ao w rc s)) \<and>
         (ladderDone s \<longrightarrow> ladderDone (processAssetState env ao w rc s)) \<and>
         (locked (lockDetector s) \<longrightarrow> locked (lockDetector (processAssetState env ao w rc s))) \<and>
         totalFlips (leaderTracker s) \<le> totalFlips (leaderTracker (processAssetState env ao w rc s)) \<and>
         (state s = ARMED \<longrightarrow> position (processAssetState env ao w rc s) = position s) \<and>
         lastWindowId (processAssetState env ao w rc s) = lastWindowId s"
proof -
  obtain pYes pNo where pr: "currentPrices env ao = (pYes, pNo)"
    by (cases "currentPrices env ao")
  obtain info s2 where us: "updateTrackers env pYes pNo s = (info, s2)"
    by (cases "updateTrackers env pYes pNo s")
  let ?d = "dispatch env ao w (getRiskCaps rc) pYes pNo info s2"
  have ps: "processAssetState env ao w rc s = afterSwitch env ?d"
    using assms by (simp add: processAssetState_def beforeSwitch_def pr us detectNewWindow_same)
  have fr: "state s2 = state s" "position s2 = position s" "entryDone s2 = entryDone s"
           "ladderDone s2 = ladderDone s" "lockDetector s2 = lockDetector s"
           "lastWindowId s2 = lastWindowId s"
           "totalFlips (leaderTracker s) \<le> totalFlips (leaderTracker s2)"
    using updateTrackers_frame [of env pYes pNo s] us
          update_totalFlips_mono [of "leaderTracker s" "tickNow env" pYes pNo]
    by simp_all
  note df = dispatch_frame [of s2 env ao w "getRiskCaps rc" pYes pNo info]
  have a: "state s \<noteq> ARMED \<longrightarrow> state ?d \<noteq> ARMED"
    using dispatch_never_arms [of s2 env ao w "getRiskCaps rc" pYes pNo info] fr(1) by simp
  have b: "state s = ARMED \<longrightarrow> position ?d = position s"
    using handleArmed_frame [of env w info s2] fr(1,2) by (simp add: dispatch_def)
  show ?thesis
    unfolding ps using a b df fr by (simp add: afterSwitch_frame)
qed

lemma detectNewWindow_tracker:
  "windowId w \<noteq> lastWindowId s \<Longrightarrow>
   totalFlips (leaderTracker (detectNewWindow w ao s)) = 0 \<and>
   events (flipCounter (leaderTracker (detectNewWindow w ao s))) = [] \<and>
   pendingFlip (leaderTracker (detectNewWindow w ao s)) = None \<and>
   pendingFlipCount (leaderTracker (detectNewWindow w ao s)) = 0 \<and>
   currentLeader (leaderTracker (detectNewWindow w ao s)) = currentLeader (leaderTracker s)"
  by (simp add: detectNewWindow_new resetForNewWindow_def counterReset_def)

text \<open>What the new-window block leaves alone: the OBI calculator, the leader history and
  the current leader (kept for continuity, as the source says).\<close>

lemma detectNewWindow_keeps:
  "obiCalculator (detectNewWindow w ao s) = obiCalculator s \<and>
   leaderHistory (leaderTracker (detectNewWindow w ao s)) = leaderHistory (leaderTracker s) \<and>
   currentLeader (leaderTracker (detectNewWindow w ao s)) = currentLeader (leaderTracker s)"
  by (simp add: detectNewWindow_def resetForNewWindow_def)

text \<open>
  The claim C5 as stated fails on the code: the new-window block does not reset all of
  the per-window state. For an asset that ended the previous window LOCKED, with an OBI
  sample and a leader sample recorded ten seconds before the new window and YES as
  leader, the block leaves the OBI samples, the leader history and the current leader as
  they are, and the rolling OBI read three seconds into the new window is the old
  sample's \<open>-0.5\<close>.
\<close>

theorem new_window_keeps_samples:
  "windowId \<lparr> windowId = Some 1700000900, elapsed_sec = 3, remaining_sec = 897 \<rparr> \<noteq> lastWindowId 
     \<lparr> state = LOCKED,
         leaderTracker = \<lparr> trackerWindowMs = 90000,
           flipCounter = \<lparr> counterWindowMs = 90000, events = [1700000850000, 1700000870000] \<rparr>,
           leaderHistory = \<lparr> windowMs = 90000,
             samples = [\<lparr> timestamp = 1700000890000, sampleValue = 1 \<rparr>] \<rparr>,
           currentLeader = Some YES, pendingFlip = Some NO, pendingFlipCount = 1,
           totalFlips = 2 \<rparr>,
         obiCalculator = \<lparr> obiWindowMs = 90000, topN = 10,
           obiYes = \<lparr> windowMs = 90000,
             samples = [\<lparr> timestamp = 1700000890000, sampleValue = - 0.5 \<rparr>] \<rparr>,
           obiNo = \<lparr> windowMs = 90000, samples = [] \<rparr>,
           obiCombined = \<lparr> windowMs = 90000, samples = [] \<rparr> \<rparr>,
         lockDetector = \<lparr> locked = True, lockTimestamp = Some 1700000800000, lockDetails = None \<rparr>,
         lastWindowId = Some 1700000000,
         lastTokens = \<lparr> up = Some ''tok-up'', down = Some ''tok-down'' \<rparr>,
         entryDone = True, ladderDone = True,
         position = \<lparr> yesShares = 20, yesCost = 9, noShares = 20, noCost = 9 \<rparr> \<rparr> \<and>
   samples (obiYes (obiCalculator (detectNewWindow \<lparr> windowId = Some 1700000900, elapsed_sec = 3, remaining_sec = 897 \<rparr> \<lparr> orderTokens = Some \<lparr> up = Some ''tok-up'', down = Some ''tok-down'' \<rparr> \<rparr> 
     \<lparr> state = LOCKED,
         leaderTracker = \<lparr> trackerWindowMs = 90000,
           flipCounter = \<lparr> counterWindowMs = 90000, events = [1700000850000, 1700000870000] \<rparr>,
           leaderHistory = \<lparr> windowMs = 90000,
             samples = [\<lparr> timestamp = 1700000890000, sampleValue = 1 \<rparr>] \<rparr>,
           currentLeader = Some YES, pendingFlip = Some NO, pendingFlipCount = 1,
           totalFlips = 2 \<rparr>,
         obiCalculator = \<lparr> obiWindowMs = 90000, topN = 10,
           obiYes = \<lparr> windowMs = 90000,
             samples = [\<lparr> timestamp = 1700000890000, sampleValue = - 0.5 \<rparr>] \<rparr>,
           obiNo = \<lparr> windowMs = 90000, samples = [] \<rparr>,
           obiCombined = \<lparr> windowMs = 90000, samples = [] \<rparr> \<rparr>,
         lockDetector = \<lparr> locked = True, lockTimestamp = Some 1700000800000, lockDetails = None \<rparr>,
         lastWindowId = Some 1700000000,
         lastTokens = \<lparr> up = Some ''tok-up'', down = Some ''tok-down'' \<rparr>,
         entryDone = True, ladderDone = True,
         position = \<lparr> yesShares = 20, yesCost = 9, noShares = 20, noCost = 9 \<rparr> \<rparr>))) =
     [\<lparr> timestamp = 1700000890000, sampleValue = - 0.5 \<rparr>] \<and>
   samples (leaderHistory (leaderTracker (detectNewWindow \<lparr> windowId = Some 1700000900, elapsed_sec = 3, remaining_sec = 897 \<rparr> \<lparr> orderTokens = Some \<lparr> up = Some ''tok-up'', down = Some ''tok-down'' \<rparr> \<rparr> 
     \<lparr> state = LOCKED,
         leaderTracker = \<lparr> trackerWindowMs = 90000,
           flipCounter = \<lparr> counterWindowMs = 90000, events = [1700000850000, 1700000870000] \<rparr>,
           leaderHistory = \<lparr> windowMs = 90000,
             samples = [\<lparr> timestamp = 1700000890000, sampleValue = 1 \<rparr>] \<rparr>,
           currentLeader = Some YES, pendingFlip = Some NO, pendingFlipCount = 1,
           totalFlips = 2 \<rparr>,
         obiCalculator = \<lparr> obiWindowMs = 90000, topN = 10,
           obiYes = \<lparr> windowMs = 90000,
             samples = [\<lparr> timestamp = 1700000890000, sampleValue = - 0.5 \<rparr>] \<rparr>,
           obiNo = \<lparr> windowMs = 90000, samples = [] \<rparr>,
           obiCombined = \<lparr> windowMs = 90000, samples = [] \<rparr> \<rparr>,
         lockDetector = \<lparr> locked = True, lockTimestamp = Some 1700000800000, lockDetails = None \<rparr>,
         lastWindowId = Some 1700000000,
         lastTokens = \<lparr> up = Some ''tok-up'', down = Some ''tok-down'' \<rparr>,
         entryDone = True, ladderDone = True,
         position = \<lparr> yesShares = 20, yesCost = 9, noShares = 20, noCost = 9 \<rparr> \<rparr>))) =
     [\<lparr> timestamp = 1700000890000, sampleValue = 1 \<rparr>] \<and>
   currentLeader (leaderTracker (detectNewWindow \<lparr> windowId = Some 1700000900, elapsed_sec = 3, remaining_sec = 897 \<rparr> \<lparr> orderTokens = Some \<lparr> up = Some ''tok-up'', down = Some ''tok-down'' \<rparr> \<rparr> 
     \<lparr> state = LOCKED,
         leaderTracker = \<lparr> trackerWindowMs = 90000,
           flipCounter = \<lparr> counterWindowMs = 90000, events = [1700000850000, 1700000870000] \<rparr>,
           leaderHistory = \<lparr> windowMs = 90000,
             samples = [\<lparr> timestamp = 1700000890000, sampleValue = 1 \<rparr>] \<rparr>,
           currentLeader = Some YES, pendingFlip = Some NO, pendingFlipCount = 1,
           totalFlips = 2 \<rparr>,
         obiCalculator = \<lparr> obiWindowMs = 90000, topN = 10,
           obiYes = \<lparr> windowMs = 90000,
             samples = [\<lparr> timestamp = 1700000890000, sampleValue = - 0.5 \<rparr>] \<rparr>,
           obiNo = \<lparr> windowMs = 90000, samples = [] \<rparr>,
           obiCombined = \<lparr> windowMs = 90000, samples = [] \<rparr> \<rparr>,
         lockDetector = \<lparr> locked = True, lockTimestamp = Some 1700000800000, lockDetails = None \<rparr>,
         lastWindowId = Some 1700000000,
         lastTokens = \<lparr> up = Some ''tok-up'', down = Some ''tok-down'' \<rparr>,
         entryDone = True, ladderDone = True,
         position = \<lparr> yesShares = 20, yesCost = 9, noShares = 20, noCost = 9 \<rparr> \<rparr>)) = Some YES \<and>
   fst (getRollingOBI 1700000903000 (Some ''YES'')
         (obiCalculator (detectNewWindow \<lparr> windowId = Some 1700000900, elapsed_sec = 3, remaining_sec = 897 \<rparr> \<lparr> orderTokens = Some \<lparr> up = Some ''tok-up'', down = Some ''tok-down'' \<rparr> \<rparr> 
     \<lparr> state = LOCKED,
         leaderTracker = \<lparr> trackerWindowMs = 90000,
           flipCounter = \<lparr> counterWindowMs = 90000, events = [1700000850000, 1700000870000] \<rparr>,
           leaderHistory = \<lparr> windowMs = 90000,
             samples = [\<lparr> timestamp = 1700000890000, sampleValue = 1 \<rparr>] \<rparr>,
           currentLeader = Some YES, pendingFlip = Some NO, pendingFlipCount = 1,
           totalFlips = 2 \<rparr>,
         obiCalculator = \<lparr> obiWindowMs = 90000, topN = 10,
           obiYes = \<lparr> windowMs = 90000,
             samples = [\<lparr> timestamp = 1700000890000, sampleValue = - 0.5 \<rparr>] \<rparr>,
           obiNo = \<lparr> windowMs = 90000, samples = [] \<rparr>,
           obiCombined = \<lparr> windowMs = 90000, samples = [] \<rparr> \<rparr>,
         lockDetector = \<lparr> locked = True, lockTimestamp = Some 1700000800000, lockDetails = None \<rparr>,
         lastWindowId = Some 1700000000,
         lastTokens = \<lparr> up = Some ''tok-up'', down = Some ''tok-down'' \<rparr>,
         entryDone = True, ladderDone = True,
         position = \<lparr> yesShares = 20, yesCost = 9, noShares = 20, noCost = 9 \<rparr> \<rparr>))) = - 0.5"
  by (simp add: detectNewWindow_def resetForNewWindow_def getRollingOBI_def getAverage_def
        cleanup_def orZeroOpt_def orZero_def Let_def)

text \<open>
  Claim C5, as the code does it. Let \<open>s\<close> be the state of the asset when
  \<open>processAsset\<close> starts (a fresh IDLE state for an asset seen for the first time). If
  the tick's window id differs from \<open>lastWindowId\<close>, then the state with which the
  \<open>switch\<close> over the trading states is entered is ARMED, its position is all zeros,
  \<open>entryDone\<close> and \<open>ladderDone\<close> are false, the flip counters are reset
  (\<open>totalFlips\<close> 0, no recorded flip, no pending candidate right after the block;
  still no flip counted after the tracker update of the tick), the lock detector is
  unlocked with no timestamp and no details, and \<open>lastWindowId\<close> is the new id; the
  current leader is kept, and the handler that then runs is the ARMED one. If the window
  id is the same, the tick undoes none of this: a state other than ARMED does not become
  ARMED, \<open>entryDone\<close>, \<open>ladderDone\<close> and \<open>locked\<close> stay true once true,
  \<open>totalFlips\<close> does not decrease, the position of an ARMED asset is unchanged, and
  \<open>lastWindowId\<close> stays.
\<close>

theorem new_window_reset_fields:
  assumes "s = initAssetState m asset"
  shows "(windowId w \<noteq> lastWindowId s \<longrightarrow>
            state (snd (beforeSwitch env ao w s)) = ARMED \<and>
            position (snd (beforeSwitch env ao w s)) =
              \<lparr> yesShares = 0, yesCost = 0, noShares = 0, noCost = 0 \<rparr> \<and>
            \<not> entryDone (snd (beforeSwitch env ao w s)) \<and>
            \<not> ladderDone (snd (beforeSwitch env ao w s)) \<and>
            totalFlips (leaderTracker (detectNewWindow w ao s)) = 0 \<and>
            events (flipCounter (leaderTracker (detectNewWindow w ao s))) = [] \<and>
            pendingFlip (leaderTracker (detectNewWindow w ao s)) = None \<and>
            pendingFlipCount (leaderTracker (detectNewWindow w ao s)) = 0 \<and>
            currentLeader (leaderTracker (detectNewWindow w ao s)) =
              currentLeader (leaderTracker s) \<and>
            totalFlips (leaderTracker (snd (beforeSwitch env ao w s))) = 0 \<and>
            events (flipCounter (leaderTracker (snd (beforeSwitch env ao w s)))) = [] \<and>
            leaderInfo.flipCount (fst (beforeSwitch env ao w s)) = 0 \<and>
            lockDetector (snd (beforeSwitch env ao w s)) =
              \<lparr> locked = False, lockTimestamp = None, lockDetails = None \<rparr> \<and>
            lastWindowId (snd (beforeSwitch env ao w s)) = windowId w \<and>
            processAsset env asset ao w rc m asset =
              Some (afterSwitch env (handleArmed env w (fst (beforeSwitch env ao w s))
                      (snd (beforeSwitch env ao w s))))) \<and>
         (windowId w = lastWindowId s \<longrightarrow>
            (\<exists>s'. processAsset env asset ao w rc m asset = Some s' \<and>
               (state s \<noteq> ARMED \<longrightarrow> state s' \<noteq> ARMED) \<and>
               (entryDone s \<longrightarrow> entryDone s') \<and>
               (ladderDone s \<longrightarrow> ladderDone s') \<and>
               (locked (lockDetector s) \<longrightarrow> locked (lockDetector s')) \<and>
               totalFlips (leaderTracker s) \<le> totalFlips (leaderTracker s') \<and>
               (state s = ARMED \<longrightarrow> position s' = position s) \<and>
               lastWindowId s' = lastWindowId s))"
proof (intro conjI impI)
  assume new: "windowId w \<noteq> lastWindowId s"
  note b = new_window_before_switch [OF new, of env ao]
  note t = detectNewWindow_tracker [OF new, of ao]
  show "state (snd (beforeSwitch env ao w s)) = ARMED" using b by simp
  show "position (snd (beforeSwitch env ao w s)) =
          \<lparr> yesShares = 0, yesCost = 0, noShares = 0, noCost = 0 \<rparr>"
    using b by (simp add: zeroPosition_def)
  show "\<not> entryDone (snd (beforeSwitch env ao w s))" using b by simp
  show "\<not> ladderDone (snd (beforeSwitch env ao w s))" using b by simp
  show "totalFlips (leaderTracker (detectNewWindow w ao s)) = 0" using t by simp
  show "events (flipCounter (leaderTracker (detectNewWindow w ao s))) = []" using t by simp
  show "pendingFlip (leaderTracker (detectNewWindow w ao s)) = None" using t by simp
  show "pendingFlipCount (leaderTracker (detectNewWindow w ao s)) = 0" using t by simp
  show "currentLeader (leaderTracker (detectNewWindow w ao s)) = currentLeader (leaderTracker s)"
    using t by simp
  show "totalFlips (leaderTracker (snd (beforeSwitch env ao w s))) = 0" using b by simp
  show "events (flipCounter (leaderTracker (snd (beforeSwitch env ao w s)))) = []"
    using b by simp
  show "leaderInfo.flipCount (fst (beforeSwitch env ao w s)) = 0" using b by simp
  show "lockDetector (snd (beforeSwitch env ao w s)) =
          \<lparr> locked = False, lockTimestamp = None, lockDetails = None \<rparr>"
    using b by simp
  show "lastWindowId (snd (beforeSwitch env ao w s)) = windowId w" using b by simp
  have "processAssetState env ao w rc s =
          afterSwitch env (handleArmed env w (fst (beforeSwitch env ao w s))
            (snd (beforeSwitch env ao w s)))"
  proof -
    obtain pYes pNo where pr: "currentPrices env ao = (pYes, pNo)"
      by (cases "currentPrices env ao")
    obtain info s2 where bs: "beforeSwitch env ao w s = (info, s2)"
      by (cases "beforeSwitch env ao w s")
    have "state s2 = ARMED" using b bs by simp
    then show ?thesis
      by (simp add: processAssetState_def pr bs dispatch_def)
  qed
  then show "processAsset env asset ao w rc m asset =
              Some (afterSwitch env (handleArmed env w (fst (beforeSwitch env ao w s))
                      (snd (beforeSwitch env ao w s))))"
    using assms by (simp add: processAsset_def)
next
  assume same: "windowId w = lastWindowId s"
  have p: "processAsset env asset ao w rc m asset = Some (processAssetState env ao w rc s)"
    using assms by (simp add: processAsset_def)
  show "\<exists>s'. processAsset env asset ao w rc m asset = Some s' \<and>
               (state s \<noteq> ARMED \<longrightarrow> state s' \<noteq> ARMED) \<and>
               (entryDone s \<longrightarrow> entryDone s') \<and>
               (ladderDone s \<longrightarrow> ladderDone s') \<and>
               (locked (lockDetector s) \<longrightarrow> locked (lockDetector s')) \<and>
               totalFlips (leaderTracker s) \<le> totalFlips (leaderTracker s') \<and>
               (state s = ARMED \<longrightarrow> position s' = position s) \<and>
               lastWindowId s' = lastWindowId s"
    unfolding p using same_window_tick [OF same, of env ao rc] by blast
qed

theorem new_window_reset_fields_witness:
  "windowId (\<lparr> windowId = Some 1700000900, elapsed_sec = 3, remaining_sec = 897 \<rparr>) \<noteq> lastWindowId 
     (initAssetState [''BTC'' \<mapsto> \<lparr> state = LOCKED,
         leaderTracker = \<lparr> trackerWindowMs = 90000,
           flipCounter = \<lparr> counterWindowMs = 90000, events = [1700000850000, 1700000870000] \<rparr>,
           leaderHistory = \<lparr> windowMs = 90000,
             samples = [\<lparr> timestamp = 1700000890000, sampleValue = 1 \<rparr>] \<rparr>,
           currentLeader = Some YES, pendingFlip = Some NO, pendingFlipCount = 1,
           totalFlips = 2 \<rparr>,
         obiCalculator = \<lparr> obiWindowMs = 90000, topN = 10,
           obiYes = \<lparr> windowMs = 90000,
             samples = [\<lparr> timestamp = 1700000890000, sampleValue = - 0.5 \<rparr>] \<rparr>,
           obiNo = \<lparr> windowMs = 90000, samples = [] \<rparr>,
           obiCombined = \<lparr> windowMs = 90000, samples = [] \<rparr> \<rparr>,
         lockDetector = \<lparr> locked = True, lockTimestamp = Some 1700000800000, lockDetails = None \<rparr>,
         lastWindowId = Some 1700000000,
         lastTokens = \<lparr> up = Some ''tok-up'', down = Some ''tok-down'' \<rparr>,
         entryDone = True, ladderDone = True,
         position = \<lparr> yesShares = 20, yesCost = 9, noShares = 20, noCost = 9 \<rparr> \<rparr>] ''BTC'') \<and>
   state 
     (initAssetState [''BTC'' \<mapsto> \<lparr> state = LOCKED,
         leaderTracker = \<lparr> trackerWindowMs = 90000,
           flipCounter = \<lparr> counterWindowMs = 90000, events = [1700000850000, 1700000870000] \<rparr>,
           leaderHistory = \<lparr> windowMs = 90000,
             samples = [\<lparr> timestamp = 1700000890000, sampleValue = 1 \<rparr>] \<rparr>,
           currentLeader = Some YES, pendingFlip = Some NO, pendingFlipCount = 1,
           totalFlips = 2 \<rparr>,
         obiCalculator = \<lparr> obiWindowMs = 90000, topN = 10,
           obiYes = \<lparr> windowMs = 90000,
             samples = [\<lparr> timestamp = 1700000890000, sampleValue = - 0.5 \<rparr>] \<rparr>,
           obiNo = \<lparr> windowMs = 90000, samples = [] \<rparr>,
           obiCombined = \<lparr> windowMs = 90000, samples = [] \<rparr> \<rparr>,
         lockDetector = \<lparr> locked = True, lockTimestamp = Some 1700000800000, lockDetails = None \<rparr>,
         lastWindowId = Some 1700000000,
         lastTokens = \<lparr> up = Some ''tok-up'', down = Some ''tok-down'' \<rparr>,
         entryDone = True, ladderDone = True,
         position = \<lparr> yesShares = 20, yesCost = 9, noShares = 20, noCost = 9 \<rparr> \<rparr>] ''BTC'') = LOCKED \<and>
   state (snd (beforeSwitch 
     (\<lparr> tickNow = 1700000903000, priceFetch = Some (Some 0.6, Some 0.4),
         feed = \<lparr> booksFetch = None, pricesFetch = Some (Some 0.6, Some 0.4) \<rparr>,
         entryResult = NotFilled, recoveryResult = NotFilled \<rparr>) (\<lparr> orderTokens = Some \<lparr> up = Some ''tok-up'', down = Some ''tok-down'' \<rparr> \<rparr>) (\<lparr> windowId = Some 1700000900, elapsed_sec = 3, remaining_sec = 897 \<rparr>) 
     (initAssetState [''BTC'' \<mapsto> \<lparr> state = LOCKED,
         leaderTracker = \<lparr> trackerWindowMs = 90000,
           flipCounter = \<lparr> counterWindowMs = 90000, events = [1700000850000, 1700000870000] \<rparr>,
           leaderHistory = \<lparr> windowMs = 90000,
             samples = [\<lparr> timestamp = 1700000890000, sampleValue = 1 \<rparr>] \<rparr>,
           currentLeader = Some YES, pendingFlip = Some NO, pendingFlipCount = 1,
           totalFlips = 2 \<rparr>,
         obiCalculator = \<lparr> obiWindowMs = 90000, topN = 10,
           obiYes = \<lparr> windowMs = 90000,
             samples = [\<lparr> timestamp = 1700000890000, sampleValue = - 0.5 \<rparr>] \<rparr>,
           obiNo = \<lparr> windowMs = 90000, samples = [] \<rparr>,
           obiCombined = \<lparr> windowMs = 90000, samples = [] \<rparr> \<rparr>,
         lockDetector = \<lparr> locked = True, lockTimestamp = Some 1700000800000, lockDetails = None \<rparr>,
         lastWindowId = Some 1700000000,
         lastTokens = \<lparr> up = Some ''tok-up'', down = Some ''tok-down'' \<rparr>,
         entryDone = True, ladderDone = True,
         position = \<lparr> yesShares = 20, yesCost = 9, noShares = 20, noCost = 9 \<rparr> \<rparr>] ''BTC''))) = ARMED \<and>
   position (snd (beforeSwitch 
     (\<lparr> tickNow = 1700000903000, priceFetch = Some (Some 0.6, Some 0.4),
         feed = \<lparr> booksFetch = None, pricesFetch = Some (Some 0.6, Some 0.4) \<rparr>,
         entryResult = NotFilled, recoveryResult = NotFilled \<rparr>) (\<lparr> orderTokens = Some \<lparr> up = Some ''tok-up'', down = Some ''tok-down'' \<rparr> \<rparr>) (\<lparr> windowId = Some 1700000900, elapsed_sec = 3, remaining_sec = 897 \<rparr>) 
     (initAssetState [''BTC'' \<mapsto> \<lparr> state = LOCKED,
         leaderTracker = \<lparr> trackerWindowMs = 90000,
           flipCounter = \<lparr> counterWindowMs = 90000, events = [1700000850000, 1700000870000] \<rparr>,
           leaderHistory = \<lparr> windowMs = 90000,
             samples = [\<lparr> timestamp = 1700000890000, sampleValue = 1 \<rparr>] \<rparr>,
           currentLeader = Some YES, pendingFlip = Some NO, pendingFlipCount = 1,
           totalFlips = 2 \<rparr>,
         obiCalculator = \<lparr> obiWindowMs = 90000, topN = 10,
           obiYes = \<lparr> windowMs = 90000,
             samples = [\<lparr> timestamp = 1700000890000, sampleValue = - 0.5 \<rparr>] \<rparr>,
           obiNo = \<lparr> windowMs = 90000, samples = [] \<rparr>,
           obiCombined = \<lparr> windowMs = 90000, samples = [] \<rparr> \<rparr>,
         lockDetector = \<lparr> locked = True, lockTimestamp = Some 1700000800000, lockDetails = None \<rparr>,
         lastWindowId = Some 1700000000,
         lastTokens = \<lparr> up = Some ''tok-up'', down = Some ''tok-down'' \<rparr>,
         entryDone = True, ladderDone = True,
         position = \<lparr> yesShares = 20, yesCost = 9, noShares = 20, noCost = 9 \<rparr> \<rparr>] ''BTC''))) =
     \<lparr> yesShares = 0, yesCost = 0, noShares = 0, noCost = 0 \<rparr> \<and>
   \<not> entryDone (snd (beforeSwitch 
     (\<lparr> tickNow = 1700000903000, priceFetch = Some (Some 0.6, Some 0.4),
         feed = \<lparr> booksFetch = None, pricesFetch = Some (Some 0.6, Some 0.4) \<rparr>,
         entryResult = NotFilled, recoveryResult = NotFilled \<rparr>) (\<lparr> orderTokens = Some \<lparr> up = Some ''tok-up'', down = Some ''tok-down'' \<rparr> \<rparr>) (\<lparr> windowId = Some 1700000900, elapsed_sec = 3, remaining_sec = 897 \<rparr>) 
     (initAssetState [''BTC'' \<mapsto> \<lparr> state = LOCKED,
         leaderTracker = \<lparr> trackerWindowMs = 90000,
           flipCounter = \<lparr> counterWindowMs = 90000, events = [1700000850000, 1700000870000] \<rparr>,
           leaderHistory = \<lparr> windowMs = 90000,
             samples = [\<lparr> timestamp = 1700000890000, sampleValue = 1 \<rparr>] \<rparr>,
           currentLeader = Some YES, pendingFlip = Some NO, pendingFlipCount = 1,
           totalFlips = 2 \<rparr>,
         obiCalculator = \<lparr> obiWindowMs = 90000, topN = 10,
           obiYes = \<lparr> windowMs = 90000,
             samples = [\<lparr> timestamp = 1700000890000, sampleValue = - 0.5 \<rparr>] \<rparr>,
           obiNo = \<lparr> windowMs = 90000, samples = [] \<rparr>,
           obiCombined = \<lparr> windowMs = 90000, samples = [] \<rparr> \<rparr>,
         lockDetector = \<lparr> locked = True, lockTimestamp = Some 1700000800000, lockDetails = None \<rparr>,
         lastWindowId = Some 1700000000,
         lastTokens = \<lparr> up = Some ''tok-up'', down = Some ''tok-down'' \<rparr>,
         entryDone = True, ladderDone = True,
         position = \<lparr> yesShares = 20, yesCost = 9, noShares = 20, noCost = 9 \<rparr> \<rparr>] ''BTC''))) \<and>
   \<not> ladderDone (snd (beforeSwitch 
     (\<lparr> tickNow = 1700000903000, priceFetch = Some (Some 0.6, Some 0.4),
         feed = \<lparr> booksFetch = None, pricesFetch = Some (Some 0.6, Some 0.4) \<rparr>,
         entryResult = NotFilled, recoveryResult = NotFilled \<rparr>) (\<lparr> orderTokens = Some \<lparr> up = Some ''tok-up'', down = Some ''tok-down'' \<rparr> \<rparr>) (\<lparr> windowId = Some 1700000900, elapsed_sec = 3, remaining_sec = 897 \<rparr>) 
     (initAssetState [''BTC'' \<mapsto> \<lparr> state = LOCKED,
         leaderTracker = \<lparr> trackerWindowMs = 90000,
           flipCounter = \<lparr> counterWindowMs = 90000, events = [1700000850000, 1700000870000] \<rparr>,
           leaderHistory = \<lparr> windowMs = 90000,
             samples = [\<lparr> timestamp = 1700000890000, sampleValue = 1 \<rparr>] \<rparr>,
           currentLeader = Some YES, pendingFlip = Some NO, pendingFlipCount = 1,
           totalFlips = 2 \<rparr>,
         obiCalculator = \<lparr> obiWindowMs = 90000, topN = 10,
           obiYes = \<lparr> windowMs = 90000,
             samples = [\<lparr> timestamp = 1700000890000, sampleValue = - 0.5 \<rparr>] \<rparr>,
           obiNo = \<lparr> windowMs = 90000, samples = [] \<rparr>,
           obiCombined = \<lparr> windowMs = 90000, samples = [] \<rparr> \<rparr>,
         lockDetector = \<lparr> locked = True, lockTimestamp = Some 1700000800000, lockDetails = None \<rparr>,
         lastWindowId = Some 1700000000,
         lastTokens = \<lparr> up = Some ''tok-up'', down = Some ''tok-down'' \<rparr>,
         entryDone = True, ladderDone = True,
         position = \<lparr> yesShares = 20, yesCost = 9, noShares = 20, noCost = 9 \<rparr> \<rparr>] ''BTC''))) \<and>
   totalFlips (leaderTracker (snd (beforeSwitch 
     (\<lparr> tickNow = 1700000903000, priceFetch = Some (Some 0.6, Some 0.4),
         feed = \<lparr> booksFetch = None, pricesFetch = Some (Some 0.6, Some 0.4) \<rparr>,
         entryResult = NotFilled, recoveryResult = NotFilled \<rparr>) (\<lparr> orderTokens = Some \<lparr> up = Some ''tok-up'', down = Some ''tok-down'' \<rparr> \<rparr>) (\<lparr> windowId = Some 1700000900, elapsed_sec = 3, remaining_sec = 897 \<rparr>) 
     (initAssetState [''BTC'' \<mapsto> \<lparr> state = LOCKED,
         leaderTracker = \<lparr> trackerWindowMs = 90000,
           flipCounter = \<lparr> counterWindowMs = 90000, events = [1700000850000, 1700000870000] \<rparr>,
           leaderHistory = \<lparr> windowMs = 90000,
             samples = [\<lparr> timestamp = 1700000890000, sampleValue = 1 \<rparr>] \<rparr>,
           currentLeader = Some YES, pendingFlip = Some NO, pendingFlipCount = 1,
           totalFlips = 2 \<rparr>,
         obiCalculator = \<lparr> obiWindowMs = 90000, topN = 10,
           obiYes = \<lparr> windowMs = 90000,
             samples = [\<lparr> timestamp = 1700000890000, sampleValue = - 0.5 \<rparr>] \<rparr>,
           obiNo = \<lparr> windowMs = 90000, samples = [] \<rparr>,
           obiCombined = \<lparr> windowMs = 90000, samples = [] \<rparr> \<rparr>,
         lockDetector = \<lparr> locked = True, lockTimestamp = Some 1700000800000, lockDetails = None \<rparr>,
         lastWindowId = Some 1700000000,
         lastTokens = \<lparr> up = Some ''tok-up'', down = Some ''tok-down'' \<rparr>,
         entryDone = True, ladderDone = True,
         position = \<lparr> yesShares = 20, yesCost = 9, noShares = 20, noCost = 9 \<rparr> \<rparr>] ''BTC'')))) = 0 \<and>
   \<not> locked (lockDetector (snd (beforeSwitch 
     (\<lparr> tickNow = 1700000903000, priceFetch = Some (Some 0.6, Some 0.4),
         feed = \<lparr> booksFetch = None, pricesFetch = Some (Some 0.6, Some 0.4) \<rparr>,
         entryResult = NotFilled, recoveryResult = NotFilled \<rparr>) (\<lparr> orderTokens = Some \<lparr> up = Some ''tok-up'', down = Some ''tok-down'' \<rparr> \<rparr>) (\<lparr> windowId = Some 1700000900, elapsed_sec = 3, remaining_sec = 897 \<rparr>) 
     (initAssetState [''BTC'' \<mapsto> \<lparr> state = LOCKED,
         leaderTracker = \<lparr> trackerWindowMs = 90000,
           flipCounter = \<lparr> counterWindowMs = 90000, events = [1700000850000, 1700000870000] \<rparr>,
           leaderHistory = \<lparr> windowMs = 90000,
             samples = [\<lparr> timestamp = 1700000890000, sampleValue = 1 \<rparr>] \<rparr>,
           currentLeader = Some YES, pendingFlip = Some NO, pendingFlipCount = 1,
           totalFlips = 2 \<rparr>,
         obiCalculator = \<lparr> obiWindowMs = 90000, topN = 10,
           obiYes = \<lparr> windowMs = 90000,
             samples = [\<lparr> timestamp = 1700000890000, sampleValue = - 0.5 \<rparr>] \<rparr>,
           obiNo = \<lparr> windowMs = 90000, samples = [] \<rparr>,
           obiCombined = \<lparr> windowMs = 90000, samples = [] \<rparr> \<rparr>,
         lockDetector = \<lparr> locked = True, lockTimestamp = Some 1700000800000, lockDetails = None \<rparr>,
         lastWindowId = Some 1700000000,
         lastTokens = \<lparr> up = Some ''tok-up'', down = Some ''tok-down'' \<rparr>,
         entryDone = True, ladderDone = True,
         position = \<lparr> yesShares = 20, yesCost = 9, noShares = 20, noCost = 9 \<rparr> \<rparr>] ''BTC'')))) \<and>
   windowId (\<lparr> windowId = Some 1700000000, elapsed_sec = 893, remaining_sec = 7 \<rparr>) = lastWindowId 
     (initAssetState [''BTC'' \<mapsto> \<lparr> state = LOCKED,
         leaderTracker = \<lparr> trackerWindowMs = 90000,
           flipCounter = \<lparr> counterWindowMs = 90000, events = [1700000850000, 1700000870000] \<rparr>,
           leaderHistory = \<lparr> windowMs = 90000,
             samples = [\<lparr> timestamp = 1700000890000, sampleValue = 1 \<rparr>] \<rparr>,
           currentLeader = Some YES, pendingFlip = Some NO, pendingFlipCount = 1,
           totalFlips = 2 \<rparr>,
         obiCalculator = \<lparr> obiWindowMs = 90000, topN = 10,
           obiYes = \<lparr> windowMs = 90000,
             samples = [\<lparr> timestamp = 1700000890000, sampleValue = - 0.5 \<rparr>] \<rparr>,
           obiNo = \<lparr> windowMs = 90000, samples = [] \<rparr>,
           obiCombined = \<lparr> windowMs = 90000, samples = [] \<rparr> \<rparr>,
         lockDetector = \<lparr> locked = True, lockTimestamp = Some 1700000800000, lockDetails = None \<rparr>,
         lastWindowId = Some 1700000000,
         lastTokens = \<lparr> up = Some ''tok-up'', down = Some ''tok-down'' \<rparr>,
         entryDone = True, ladderDone = True,
         position = \<lparr> yesShares = 20, yesCost = 9, noShares = 20, noCost = 9 \<rparr> \<rparr>] ''BTC'') \<and>
   state 
     (initAssetState [''BTC'' \<mapsto> \<lparr> state = LOCKED,
         leaderTracker = \<lparr> trackerWindowMs = 90000,
           flipCounter = \<lparr> counterWindowMs = 90000, events = [1700000850000, 1700000870000] \<rparr>,
           leaderHistory = \<lparr> windowMs = 90000,
             samples = [\<lparr> timestamp = 1700000890000, sampleValue = 1 \<rparr>] \<rparr>,
           currentLeader = Some YES, pendingFlip = Some NO, pendingFlipCount = 1,
           totalFlips = 2 \<rparr>,
         obiCalculator = \<lparr> obiWindowMs = 90000, topN = 10,
           obiYes = \<lparr> windowMs = 90000,
             samples = [\<lparr> timestamp = 1700000890000, sampleValue = - 0.5 \<rparr>] \<rparr>,
           obiNo = \<lparr> windowMs = 90000, samples = [] \<rparr>,
           obiCombined = \<lparr> windowMs = 90000, samples = [] \<rparr> \<rparr>,
         lockDetector = \<lparr> locked = True, lockTimestamp = Some 1700000800000, lockDetails = None \<rparr>,
         lastWindowId = Some 1700000000,
         lastTokens = \<lparr> up = Some ''tok-up'', down = Some ''tok-down'' \<rparr>,
         entryDone = True, ladderDone = True,
         position = \<lparr> yesShares = 20, yesCost = 9, noShares = 20, noCost = 9 \<rparr> \<rparr>] ''BTC'') \<noteq> ARMED \<and> entryDone 
     (initAssetState [''BTC'' \<mapsto> \<lparr> state = LOCKED,
         leaderTracker = \<lparr> trackerWindowMs = 90000,
           flipCounter = \<lparr> counterWindowMs = 90000, events = [1700000850000, 1700000870000] \<rparr>,
           leaderHistory = \<lparr> windowMs = 90000,
             samples = [\<lparr> timestamp = 1700000890000, sampleValue = 1 \<rparr>] \<rparr>,
           currentLeader = Some YES, pendingFlip = Some NO, pendingFlipCount = 1,
           totalFlips = 2 \<rparr>,
         obiCalculator = \<lparr> obiWindowMs = 90000, topN = 10,
           obiYes = \<lparr> windowMs = 90000,
             samples = [\<lparr> timestamp = 1700000890000, sampleValue = - 0.5 \<rparr>] \<rparr>,
           obiNo = \<lparr> windowMs = 90000, samples = [] \<rparr>,
           obiCombined = \<lparr> windowMs = 90000, samples = [] \<rparr> \<rparr>,
         lockDetector = \<lparr> locked = True, lockTimestamp = Some 1700000800000, lockDetails = None \<rparr>,
         lastWindowId = Some 1700000000,
         lastTokens = \<lparr> up = Some ''tok-up'', down = Some ''tok-down'' \<rparr>,
         entryDone = True, ladderDone = True,
         position = \<lparr> yesShares = 20, yesCost = 9, noShares = 20, noCost = 9 \<rparr> \<rparr>] ''BTC'') \<and> ladderDone 
     (initAssetState [''BTC'' \<mapsto> \<lparr> state = LOCKED,
         leaderTracker = \<lparr> trackerWindowMs = 90000,
           flipCounter = \<lparr> counterWindowMs = 90000, events = [1700000850000, 1700000870000] \<rparr>,
           leaderHistory = \<lparr> windowMs = 90000,
             samples = [\<lparr> timestamp = 1700000890000, sampleValue = 1 \<rparr>] \<rparr>,
           currentLeader = Some YES, pendingFlip = Some NO, pendingFlipCount = 1,
           totalFlips = 2 \<rparr>,
         obiCalculator = \<lparr> obiWindowMs = 90000, topN = 10,
           obiYes = \<lparr> windowMs = 90000,
             samples = [\<lparr> timestamp = 1700000890000, sampleValue = - 0.5 \<rparr>] \<rparr>,
           obiNo = \<lparr> windowMs = 90000, samples = [] \<rparr>,
           obiCombined = \<lparr> windowMs = 90000, samples = [] \<rparr> \<rparr>,
         lockDetector = \<lparr> locked = True, lockTimestamp = Some 1700000800000, lockDetails = None \<rparr>,
         lastWindowId = Some 1700000000,
         lastTokens = \<lparr> up = Some ''tok-up'', down = Some ''tok-down'' \<rparr>,
         entryDone = True, ladderDone = True,
         position = \<lparr> yesShares = 20, yesCost = 9, noShares = 20, noCost = 9 \<rparr> \<rparr>] ''BTC'') \<and> locked (lockDetector 
     (initAssetState [''BTC'' \<mapsto> \<lparr> state = LOCKED,
         leaderTracker = \<lparr> trackerWindowMs = 90000,
           flipCounter = \<lparr> counterWindowMs = 90000, events = [1700000850000, 1700000870000] \<rparr>,
           leaderHistory = \<lparr> windowMs = 90000,
             samples = [\<lparr> timestamp = 1700000890000, sampleValue = 1 \<rparr>] \<rparr>,
           currentLeader = Some YES, pendingFlip = Some NO, pendingFlipCount = 1,
           totalFlips = 2 \<rparr>,
         obiCalculator = \<lparr> obiWindowMs = 90000, topN = 10,
           obiYes = \<lparr> windowMs = 90000,
             samples = [\<lparr> timestamp = 1700000890000, sampleValue = - 0.5 \<rparr>] \<rparr>,
           obiNo = \<lparr> windowMs = 90000, samples = [] \<rparr>,
           obiCombined = \<lparr> windowMs = 90000, samples = [] \<rparr> \<rparr>,
         lockDetector = \<lparr> locked = True, lockTimestamp = Some 1700000800000, lockDetails = None \<rparr>,
         lastWindowId = Some 1700000000,
         lastTokens = \<lparr> up = Some ''tok-up'', down = Some ''tok-down'' \<rparr>,
         entryDone = True, ladderDone = True,
         position = \<lparr> yesShares = 20, yesCost = 9, noShares = 20, noCost = 9 \<rparr> \<rparr>] ''BTC'')) \<and>
   totalFlips (leaderTracker 
     (initAssetState [''BTC'' \<mapsto> \<lparr> state = LOCKED,
         leaderTracker = \<lparr> trackerWindowMs = 90000,
           flipCounter = \<lparr> counterWindowMs = 90000, events = [1700000850000, 1700000870000] \<rparr>,
           leaderHistory = \<lparr> windowMs = 90000,
             samples = [\<lparr> timestamp = 1700000890000, sampleValue = 1 \<rparr>] \<rparr>,
           currentLeader = Some YES, pendingFlip = Some NO, pendingFlipCount = 1,
           totalFlips = 2 \<rparr>,
         obiCalculator = \<lparr> obiWindowMs = 90000, topN = 10,
           obiYes = \<lparr> windowMs = 90000,
             samples = [\<lparr> timestamp = 1700000890000, sampleValue = - 0.5 \<rparr>] \<rparr>,
           obiNo = \<lparr> windowMs = 90000, samples = [] \<rparr>,
           obiCombined = \<lparr> windowMs = 90000, samples = [] \<rparr> \<rparr>,
         lockDetector = \<lparr> locked = True, lockTimestamp = Some 1700000800000, lockDetails = None \<rparr>,
         lastWindowId = Some 1700000000,
         lastTokens = \<lparr> up = Some ''tok-up'', down = Some ''tok-down'' \<rparr>,
         entryDone = True, ladderDone = True,
         position = \<lparr> yesShares = 20, yesCost = 9, noShares = 20, noCost = 9 \<rparr> \<rparr>] ''BTC'')) = 2 \<and>
   (\<exists>s'. processAsset 
     (\<lparr> tickNow = 1700000893000, priceFetch = Some (Some 0.6, Some 0.4),
         feed = \<lparr> booksFetch = None, pricesFetch = Some (Some 0.6, Some 0.4) \<rparr>,
         entryResult = NotFilled, recoveryResult = NotFilled \<rparr>) ''BTC'' (\<lparr> orderTokens = Some \<lparr> up = Some ''tok-up'', down = Some ''tok-down'' \<rparr> \<rparr>) (\<lparr> windowId = Some 1700000000, elapsed_sec = 893, remaining_sec = 7 \<rparr>) None 
     ([''BTC'' \<mapsto> \<lparr> state = LOCKED,
         leaderTracker = \<lparr> trackerWindowMs = 90000,
           flipCounter = \<lparr> counterWindowMs = 90000, events = [1700000850000, 1700000870000] \<rparr>,
           leaderHistory = \<lparr> windowMs = 90000,
             samples = [\<lparr> timestamp = 1700000890000, sampleValue = 1 \<rparr>] \<rparr>,
           currentLeader = Some YES, pendingFlip = Some NO, pendingFlipCount = 1,
           totalFlips = 2 \<rparr>,
         obiCalculator = \<lparr> obiWindowMs = 90000, topN = 10,
           obiYes = \<lparr> windowMs = 90000,
             samples = [\<lparr> timestamp = 1700000890000, sampleValue = - 0.5 \<rparr>] \<rparr>,
           obiNo = \<lparr> windowMs = 90000, samples = [] \<rparr>,
           obiCombined = \<lparr> windowMs = 90000, samples = [] \<rparr> \<rparr>,
         lockDetector = \<lparr> locked = True, lockTimestamp = Some 1700000800000, lockDetails = None \<rparr>,
         lastWindowId = Some 1700000000,
         lastTokens = \<lparr> up = Some ''tok-up'', down = Some ''tok-down'' \<rparr>,
         entryDone = True, ladderDone = True,
         position = \<lparr> yesShares = 20, yesCost = 9, noShares = 20, noCost = 9 \<rparr> \<rparr>]) ''BTC'' = Some s' \<and>
      state s' \<noteq> ARMED \<and> entryDone s' \<and> ladderDone s' \<and> locked (lockDetector s') \<and>
      2 \<le> totalFlips (leaderTracker s') \<and> lastWindowId s' = Some 1700000000)"
proof -
  have h1: "windowId (\<lparr> windowId = Some 1700000900, elapsed_sec = 3, remaining_sec = 897 \<rparr>) \<noteq> lastWindowId 
     (initAssetState [''BTC'' \<mapsto> \<lparr> state = LOCKED,
         leaderTracker = \<lparr> trackerWindowMs = 90000,
           flipCounter = \<lparr> counterWindowMs = 90000, events = [1700000850000, 1700000870000] \<rparr>,
           leaderHistory = \<lparr> windowMs = 90000,
             samples = [\<lparr> timestamp = 1700000890000, sampleValue = 1 \<rparr>] \<rparr>,
           currentLeader = Some YES, pendingFlip = Some NO, pendingFlipCount = 1,
           totalFlips = 2 \<rparr>,
         obiCalculator = \<lparr> obiWindowMs = 90000, topN = 10,
           obiYes = \<lparr> windowMs = 90000,
             samples = [\<lparr> timestamp = 1700000890000, sampleValue = - 0.5 \<rparr>] \<rparr>,
           obiNo = \<lparr> windowMs = 90000, samples = [] \<rparr>,
           obiCombined = \<lparr> windowMs = 90000, samples = [] \<rparr> \<rparr>,
         lockDetector = \<lparr> locked = True, lockTimestamp = Some 1700000800000, lockDetails = None \<rparr>,
         lastWindowId = Some 1700000000,
         lastTokens = \<lparr> up = Some ''tok-up'', down = Some ''tok-down'' \<rparr>,
         entryDone = True, ladderDone = True,
         position = \<lparr> yesShares = 20, yesCost = 9, noShares = 20, noCost = 9 \<rparr> \<rparr>] ''BTC'')"
    by (simp add: initAssetState_def)
  have h2: "windowId (\<lparr> windowId = Some 1700000000, elapsed_sec = 893, remaining_sec = 7 \<rparr>) = lastWindowId 
     (initAssetState [''BTC'' \<mapsto> \<lparr> state = LOCKED,
         leaderTracker = \<lparr> trackerWindowMs = 90000,
           flipCounter = \<lparr> counterWindowMs = 90000, events = [1700000850000, 1700000870000] \<rparr>,
           leaderHistory = \<lparr> windowMs = 90000,
             samples = [\<lparr> timestamp = 1700000890000, sampleValue = 1 \<rparr>] \<rparr>,
           currentLeader = Some YES, pendingFlip = Some NO, pendingFlipCount = 1,
           totalFlips = 2 \<rparr>,
         obiCalculator = \<lparr> obiWindowMs = 90000, topN = 10,
           obiYes = \<lparr> windowMs = 90000,
             samples = [\<lparr> timestamp = 1700000890000, sampleValue = - 0.5 \<rparr>] \<rparr>,
           obiNo = \<lparr> windowMs = 90000, samples = [] \<rparr>,
           obiCombined = \<lparr> windowMs = 90000, samples = [] \<rparr> \<rparr>,
         lockDetector = \<lparr> locked = True, lockTimestamp = Some 1700000800000, lockDetails = None \<rparr>,
         lastWindowId = Some 1700000000,
         lastTokens = \<lparr> up = Some ''tok-up'', down = Some ''tok-down'' \<rparr>,
         entryDone = True, ladderDone = True,
         position = \<lparr> yesShares = 20, yesCost = 9, noShares = 20, noCost = 9 \<rparr> \<rparr>] ''BTC'')"
    by (simp add: initAssetState_def)
  have h3: "state 
     (initAssetState [''BTC'' \<mapsto> \<lparr> state = LOCKED,
         leaderTracker = \<lparr> trackerWindowMs = 90000,
           flipCounter = \<lparr> counterWindowMs = 90000, events = [1700000850000, 1700000870000] \<rparr>,
           leaderHistory = \<lparr> windowMs = 90000,
             samples = [\<lparr> timestamp = 1700000890000, sampleValue = 1 \<rparr>] \<rparr>,
           currentLeader = Some YES, pendingFlip = Some NO, pendingFlipCount = 1,
           totalFlips = 2 \<rparr>,
         obiCalculator = \<lparr> obiWindowMs = 90000, topN = 10,
           obiYes = \<lparr> windowMs = 90000,
             samples = [\<lparr> timestamp = 1700000890000, sampleValue = - 0.5 \<rparr>] \<rparr>,
           obiNo = \<lparr> windowMs = 90000, samples = [] \<rparr>,
           obiCombined = \<lparr> windowMs = 90000, samples = [] \<rparr> \<rparr>,
         lockDetector = \<lparr> locked = True, lockTimestamp = Some 1700000800000, lockDetails = None \<rparr>,
         lastWindowId = Some 1700000000,
         lastTokens = \<lparr> up = Some ''tok-up'', down = Some ''tok-down'' \<rparr>,
         entryDone = True, ladderDone = True,
         position = \<lparr> yesShares = 20, yesCost = 9, noShares = 20, noCost = 9 \<rparr> \<rparr>] ''BTC'') = LOCKED" "entryDone 
     (initAssetState [''BTC'' \<mapsto> \<lparr> state = LOCKED,
         leaderTracker = \<lparr> trackerWindowMs = 90000,
           flipCounter = \<lparr> counterWindowMs = 90000, events = [1700000850000, 1700000870000] \<rparr>,
           leaderHistory = \<lparr> windowMs = 90000,
             samples = [\<lparr> timestamp = 1700000890000, sampleValue = 1 \<rparr>] \<rparr>,
           currentLeader = Some YES, pendingFlip = Some NO, pendingFlipCount = 1,
           totalFlips = 2 \<rparr>,
         obiCalculator = \<lparr> obiWindowMs = 90000, topN = 10,
           obiYes = \<lparr> windowMs = 90000,
             samples = [\<lparr> timestamp = 1700000890000, sampleValue = - 0.5 \<rparr>] \<rparr>,
           obiNo = \<lparr> windowMs = 90000, samples = [] \<rparr>,
           obiCombined = \<lparr> windowMs = 90000, samples = [] \<rparr> \<rparr>,
         lockDetector = \<lparr> locked = True, lockTimestamp = Some 1700000800000, lockDetails = None \<rparr>,
         lastWindowId = Some 1700000000,
         lastTokens = \<lparr> up = Some ''tok-up'', down = Some ''tok-down'' \<rparr>,
         entryDone = True, ladderDone = True,
         position = \<lparr> yesShares = 20, yesCost = 9, noShares = 20, noCost = 9 \<rparr> \<rparr>] ''BTC'')" "ladderDone 
     (initAssetState [''BTC'' \<mapsto> \<lparr> state = LOCKED,
         leaderTracker = \<lparr> trackerWindowMs = 90000,
           flipCounter = \<lparr> counterWindowMs = 90000, events = [1700000850000, 1700000870000] \<rparr>,
           leaderHistory = \<lparr> windowMs = 90000,
             samples = [\<lparr> timestamp = 1700000890000, sampleValue = 1 \<rparr>] \<rparr>,
           currentLeader = Some YES, pendingFlip = Some NO, pendingFlipCount = 1,
           totalFlips = 2 \<rparr>,
         obiCalculator = \<lparr> obiWindowMs = 90000, topN = 10,
           obiYes = \<lparr> windowMs = 90000,
             samples = [\<lparr> timestamp = 1700000890000, sampleValue = - 0.5 \<rparr>] \<rparr>,
           obiNo = \<lparr> windowMs = 90000, samples = [] \<rparr>,
           obiCombined = \<lparr> windowMs = 90000, samples = [] \<rparr> \<rparr>,
         lockDetector = \<lparr> locked = True, lockTimestamp = Some 1700000800000, lockDetails = None \<rparr>,
         lastWindowId = Some 1700000000,
         lastTokens = \<lparr> up = Some ''tok-up'', down = Some ''tok-down'' \<rparr>,
         entryDone = True, ladderDone = True,
         position = \<lparr> yesShares = 20, yesCost = 9, noShares = 20, noCost = 9 \<rparr> \<rparr>] ''BTC'')" "locked (lockDetector 
     (initAssetState [''BTC'' \<mapsto> \<lparr> state = LOCKED,
         leaderTracker = \<lparr> trackerWindowMs = 90000,
           flipCounter = \<lparr> counterWindowMs = 90000, events = [1700000850000, 1700000870000] \<rparr>,
           leaderHistory = \<lparr> windowMs = 90000,
             samples = [\<lparr> timestamp = 1700000890000, sampleValue = 1 \<rparr>] \<rparr>,
           currentLeader = Some YES, pendingFlip = Some NO, pendingFlipCount = 1,
           totalFlips = 2 \<rparr>,
         obiCalculator = \<lparr> obiWindowMs = 90000, topN = 10,
           obiYes = \<lparr> windowMs = 90000,
             samples = [\<lparr> timestamp = 1700000890000, sampleValue = - 0.5 \<rparr>] \<rparr>,
           obiNo = \<lparr> windowMs = 90000, samples = [] \<rparr>,
           obiCombined = \<lparr> windowMs = 90000, samples = [] \<rparr> \<rparr>,
         lockDetector = \<lparr> locked = True, lockTimestamp = Some 1700000800000, lockDetails = None \<rparr>,
         lastWindowId = Some 1700000000,
         lastTokens = \<lparr> up = Some ''tok-up'', down = Some ''tok-down'' \<rparr>,
         entryDone = True, ladderDone = True,
         position = \<lparr> yesShares = 20, yesCost = 9, noShares = 20, noCost = 9 \<rparr> \<rparr>] ''BTC''))"
           "totalFlips (leaderTracker 
     (initAssetState [''BTC'' \<mapsto> \<lparr> state = LOCKED,
         leaderTracker = \<lparr> trackerWindowMs = 90000,
           flipCounter = \<lparr> counterWindowMs = 90000, events = [1700000850000, 1700000870000] \<rparr>,
           leaderHistory = \<lparr> windowMs = 90000,
             samples = [\<lparr> timestamp = 1700000890000, sampleValue = 1 \<rparr>] \<rparr>,
           currentLeader = Some YES, pendingFlip = Some NO, pendingFlipCount = 1,
           totalFlips = 2 \<rparr>,
         obiCalculator = \<lparr> obiWindowMs = 90000, topN = 10,
           obiYes = \<lparr> windowMs = 90000,
             samples = [\<lparr> timestamp = 1700000890000, sampleValue = - 0.5 \<rparr>] \<rparr>,
           obiNo = \<lparr> windowMs = 90000, samples = [] \<rparr>,
           obiCombined = \<lparr> windowMs = 90000, samples = [] \<rparr> \<rparr>,
         lockDetector = \<lparr> locked = True, lockTimestamp = Some 1700000800000, lockDetails = None \<rparr>,
         lastWindowId = Some 1700000000,
         lastTokens = \<lparr> up = Some ''tok-up'', down = Some ''tok-down'' \<rparr>,
         entryDone = True, ladderDone = True,
         position = \<lparr> yesShares = 20, yesCost = 9, noShares = 20, noCost = 9 \<rparr> \<rparr>] ''BTC'')) = 2"
    by (simp_all add: initAssetState_def)
  have a: "state (snd (beforeSwitch 
     (\<lparr> tickNow = 1700000903000, priceFetch = Some (Some 0.6, Some 0.4),
         feed = \<lparr> booksFetch = None, pricesFetch = Some (Some 0.6, Some 0.4) \<rparr>,
         entryResult = NotFilled, recoveryResult = NotFilled \<rparr>) (\<lparr> orderTokens = Some \<lparr> up = Some ''tok-up'', down = Some ''tok-down'' \<rparr> \<rparr>) (\<lparr> windowId = Some 1700000900, elapsed_sec = 3, remaining_sec = 897 \<rparr>) 
     (initAssetState [''BTC'' \<mapsto> \<lparr> state = LOCKED,
         leaderTracker = \<lparr> trackerWindowMs = 90000,
           flipCounter = \<lparr> counterWindowMs = 90000, events = [1700000850000, 1700000870000] \<rparr>,
           leaderHistory = \<lparr> windowMs = 90000,
             samples = [\<lparr> timestamp = 1700000890000, sampleValue = 1 \<rparr>] \<rparr>,
           currentLeader = Some YES, pendingFlip = Some NO, pendingFlipCount = 1,
           totalFlips = 2 \<rparr>,
         obiCalculator = \<lparr> obiWindowMs = 90000, topN = 10,
           obiYes = \<lparr> windowMs = 90000,
             samples = [\<lparr> timestamp = 1700000890000, sampleValue = - 0.5 \<rparr>] \<rparr>,
           obiNo = \<lparr> windowMs = 90000, samples = [] \<rparr>,
           obiCombined = \<lparr> windowMs = 90000, samples = [] \<rparr> \<rparr>,
         lockDetector = \<lparr> locked = True, lockTimestamp = Some 1700000800000, lockDetails = None \<rparr>,
         lastWindowId = Some 1700000000,
         lastTokens = \<lparr> up = Some ''tok-up'', down = Some ''tok-down'' \<rparr>,
         entryDone = True, ladderDone = True,
         position = \<lparr> yesShares = 20, yesCost = 9, noShares = 20, noCost = 9 \<rparr> \<rparr>] ''BTC''))) = ARMED \<and>
           position (snd (beforeSwitch 
     (\<lparr> tickNow = 1700000903000, priceFetch = Some (Some 0.6, Some 0.4),
         feed = \<lparr> booksFetch = None, pricesFetch = Some (Some 0.6, Some 0.4) \<rparr>,
         entryResult = NotFilled, recoveryResult = NotFilled \<rparr>) (\<lparr> orderTokens = Some \<lparr> up = Some ''tok-up'', down = Some ''tok-down'' \<rparr> \<rparr>) (\<lparr> windowId = Some 1700000900, elapsed_sec = 3, remaining_sec = 897 \<rparr>) 
     (initAssetState [''BTC'' \<mapsto> \<lparr> state = LOCKED,
         leaderTracker = \<lparr> trackerWindowMs = 90000,
           flipCounter = \<lparr> counterWindowMs = 90000, events = [1700000850000, 1700000870000] \<rparr>,
           leaderHistory = \<lparr> windowMs = 90000,
             samples = [\<lparr> timestamp = 1700000890000, sampleValue = 1 \<rparr>] \<rparr>,
           currentLeader = Some YES, pendingFlip = Some NO, pendingFlipCount = 1,
           totalFlips = 2 \<rparr>,
         obiCalculator = \<lparr> obiWindowMs = 90000, topN = 10,
           obiYes = \<lparr> windowMs = 90000,
             samples = [\<lparr> timestamp = 1700000890000, sampleValue = - 0.5 \<rparr>] \<rparr>,
           obiNo = \<lparr> windowMs = 90000, samples = [] \<rparr>,
           obiCombined = \<lparr> windowMs = 90000, samples = [] \<rparr> \<rparr>,
         lockDetector = \<lparr> locked = True, lockTimestamp = Some 1700000800000, lockDetails = None \<rparr>,
         lastWindowId = Some 1700000000,
         lastTokens = \<lparr> up = Some ''tok-up'', down = Some ''tok-down'' \<rparr>,
         entryDone = True, ladderDone = True,
         position = \<lparr> yesShares = 20, yesCost = 9, noShares = 20, noCost = 9 \<rparr> \<rparr>] ''BTC''))) =
             \<lparr> yesShares = 0, yesCost = 0, noShares = 0, noCost = 0 \<rparr> \<and>
           \<not> entryDone (snd (beforeSwitch 
     (\<lparr> tickNow = 1700000903000, priceFetch = Some (Some 0.6, Some 0.4),
         feed = \<lparr> booksFetch = None, pricesFetch = Some (Some 0.6, Some 0.4) \<rparr>,
         entryResult = NotFilled, recoveryResult = NotFilled \<rparr>) (\<lparr> orderTokens = Some \<lparr> up = Some ''tok-up'', down = Some ''tok-down'' \<rparr> \<rparr>) (\<lparr> windowId = Some 1700000900, elapsed_sec = 3, remaining_sec = 897 \<rparr>) 
     (initAssetState [''BTC'' \<mapsto> \<lparr> state = LOCKED,
         leaderTracker = \<lparr> trackerWindowMs = 90000,
           flipCounter = \<lparr> counterWindowMs = 90000, events = [1700000850000, 1700000870000] \<rparr>,
           leaderHistory = \<lparr> windowMs = 90000,
             samples = [\<lparr> timestamp = 1700000890000, sampleValue = 1 \<rparr>] \<rparr>,
           currentLeader = Some YES, pendingFlip = Some NO, pendingFlipCount = 1,
           totalFlips = 2 \<rparr>,
         obiCalculator = \<lparr> obiWindowMs = 90000, topN = 10,
           obiYes = \<lparr> windowMs = 90000,
             samples = [\<lparr> timestamp = 1700000890000, sampleValue = - 0.5 \<rparr>] \<rparr>,
           obiNo = \<lparr> windowMs = 90000, samples = [] \<rparr>,
           obiCombined = \<lparr> windowMs = 90000, samples = [] \<rparr> \<rparr>,
         lockDetector = \<lparr> locked = True, lockTimestamp = Some 1700000800000, lockDetails = None \<rparr>,
         lastWindowId = Some 1700000000,
         lastTokens = \<lparr> up = Some ''tok-up'', down = Some ''tok-down'' \<rparr>,
         entryDone = True, ladderDone = True,
         position = \<lparr> yesShares = 20, yesCost = 9, noShares = 20, noCost = 9 \<rparr> \<rparr>] ''BTC''))) \<and>
           \<not> ladderDone (snd (beforeSwitch 
     (\<lparr> tickNow = 1700000903000, priceFetch = Some (Some 0.6, Some 0.4),
         feed = \<lparr> booksFetch = None, pricesFetch = Some (Some 0.6, Some 0.4) \<rparr>,
         entryResult = NotFilled, recoveryResult = NotFilled \<rparr>) (\<lparr> orderTokens = Some \<lparr> up = Some ''tok-up'', down = Some ''tok-down'' \<rparr> \<rparr>) (\<lparr> windowId = Some 1700000900, elapsed_sec = 3, remaining_sec = 897 \<rparr>) 
     (initAssetState [''BTC'' \<mapsto> \<lparr> state = LOCKED,
         leaderTracker = \<lparr> trackerWindowMs = 90000,
           flipCounter = \<lparr> counterWindowMs = 90000, events = [1700000850000, 1700000870000] \<rparr>,
           leaderHistory = \<lparr> windowMs = 90000,
             samples = [\<lparr> timestamp = 1700000890000, sampleValue = 1 \<rparr>] \<rparr>,
           currentLeader = Some YES, pendingFlip = Some NO, pendingFlipCount = 1,
           totalFlips = 2 \<rparr>,
         obiCalculator = \<lparr> obiWindowMs = 90000, topN = 10,
           obiYes = \<lparr> windowMs = 90000,
             samples = [\<lparr> timestamp = 1700000890000, sampleValue = - 0.5 \<rparr>] \<rparr>,
           obiNo = \<lparr> windowMs = 90000, samples = [] \<rparr>,
           obiCombined = \<lparr> windowMs = 90000, samples = [] \<rparr> \<rparr>,
         lockDetector = \<lparr> locked = True, lockTimestamp = Some 1700000800000, lockDetails = None \<rparr>,
         lastWindowId = Some 1700000000,
         lastTokens = \<lparr> up = Some ''tok-up'', down = Some ''tok-down'' \<rparr>,
         entryDone = True, ladderDone = True,
         position = \<lparr> yesShares = 20, yesCost = 9, noShares = 20, noCost = 9 \<rparr> \<rparr>] ''BTC''))) \<and>
           totalFlips (leaderTracker (snd (beforeSwitch 
     (\<lparr> tickNow = 1700000903000, priceFetch = Some (Some 0.6, Some 0.4),
         feed = \<lparr> booksFetch = None, pricesFetch = Some (Some 0.6, Some 0.4) \<rparr>,
         entryResult = NotFilled, recoveryResult = NotFilled \<rparr>) (\<lparr> orderTokens = Some \<lparr> up = Some ''tok-up'', down = Some ''tok-down'' \<rparr> \<rparr>) (\<lparr> windowId = Some 1700000900, elapsed_sec = 3, remaining_sec = 897 \<rparr>) 
     (initAssetState [''BTC'' \<mapsto> \<lparr> state = LOCKED,
         leaderTracker = \<lparr> trackerWindowMs = 90000,
           flipCounter = \<lparr> counterWindowMs = 90000, events = [1700000850000, 1700000870000] \<rparr>,
           leaderHistory = \<lparr> windowMs = 90000,
             samples = [\<lparr> timestamp = 1700000890000, sampleValue = 1 \<rparr>] \<rparr>,
           currentLeader = Some YES, pendingFlip = Some NO, pendingFlipCount = 1,
           totalFlips = 2 \<rparr>,
         obiCalculator = \<lparr> obiWindowMs = 90000, topN = 10,
           obiYes = \<lparr> windowMs = 90000,
             samples = [\<lparr> timestamp = 1700000890000, sampleValue = - 0.5 \<rparr>] \<rparr>,
           obiNo = \<lparr> windowMs = 90000, samples = [] \<rparr>,
           obiCombined = \<lparr> windowMs = 90000, samples = [] \<rparr> \<rparr>,
         lockDetector = \<lparr> locked = True, lockTimestamp = Some 1700000800000, lockDetails = None \<rparr>,
         lastWindowId = Some 1700000000,
         lastTokens = \<lparr> up = Some ''tok-up'', down = Some ''tok-down'' \<rparr>,
         entryDone = True, ladderDone = True,
         position = \<lparr> yesShares = 20, yesCost = 9, noShares = 20, noCost = 9 \<rparr> \<rparr>] ''BTC'')))) = 0 \<and>
           \<not> locked (lockDetector (snd (beforeSwitch 
     (\<lparr> tickNow = 1700000903000, priceFetch = Some (Some 0.6, Some 0.4),
         feed = \<lparr> booksFetch = None, pricesFetch = Some (Some 0.6, Some 0.4) \<rparr>,
         entryResult = NotFilled, recoveryResult = NotFilled \<rparr>) (\<lparr> orderTokens = Some \<lparr> up = Some ''tok-up'', down = Some ''tok-down'' \<rparr> \<rparr>) (\<lparr> windowId = Some 1700000900, elapsed_sec = 3, remaining_sec = 897 \<rparr>) 
     (initAssetState [''BTC'' \<mapsto> \<lparr> state = LOCKED,
         leaderTracker = \<lparr> trackerWindowMs = 90000,
           flipCounter = \<lparr> counterWindowMs = 90000, events = [1700000850000, 1700000870000] \<rparr>,
           leaderHistory = \<lparr> windowMs = 90000,
             samples = [\<lparr> timestamp = 1700000890000, sampleValue = 1 \<rparr>] \<rparr>,
           currentLeader = Some YES, pendingFlip = Some NO, pendingFlipCount = 1,
           totalFlips = 2 \<rparr>,
         obiCalculator = \<lparr> obiWindowMs = 90000, topN = 10,
           obiYes = \<lparr> windowMs = 90000,
             samples = [\<lparr> timestamp = 1700000890000, sampleValue = - 0.5 \<rparr>] \<rparr>,
           obiNo = \<lparr> windowMs = 90000, samples = [] \<rparr>,
           obiCombined = \<lparr> windowMs = 90000, samples = [] \<rparr> \<rparr>,
         lockDetector = \<lparr> locked = True, lockTimestamp = Some 1700000800000, lockDetails = None \<rparr>,
         lastWindowId = Some 1700000000,
         lastTokens = \<lparr> up = Some ''tok-up'', down = Some ''tok-down'' \<rparr>,
         entryDone = True, ladderDone = True,
         position = \<lparr> yesShares = 20, yesCost = 9, noShares = 20, noCost = 9 \<rparr> \<rparr>] ''BTC''))))"
    using new_window_reset_fields [OF refl, of "\<lparr> windowId = Some 1700000900, elapsed_sec = 3, remaining_sec = 897 \<rparr>" 
     "[''BTC'' \<mapsto> \<lparr> state = LOCKED,
         leaderTracker = \<lparr> trackerWindowMs = 90000,
           flipCounter = \<lparr> counterWindowMs = 90000, events = [1700000850000, 1700000870000] \<rparr>,
           leaderHistory = \<lparr> windowMs = 90000,
             samples = [\<lparr> timestamp = 1700000890000, sampleValue = 1 \<rparr>] \<rparr>,
           currentLeader = Some YES, pendingFlip = Some NO, pendingFlipCount = 1,
           totalFlips = 2 \<rparr>,
         obiCalculator = \<lparr> obiWindowMs = 90000, topN = 10,
           obiYes = \<lparr> windowMs = 90000,
             samples = [\<lparr> timestamp = 1700000890000, sampleValue = - 0.5 \<rparr>] \<rparr>,
           obiNo = \<lparr> windowMs = 90000, samples = [] \<rparr>,
           obiCombined = \<lparr> windowMs = 90000, samples = [] \<rparr> \<rparr>,
         lockDetector = \<lparr> locked = True, lockTimestamp = Some 1700000800000, lockDetails = None \<rparr>,
         lastWindowId = Some 1700000000,
         lastTokens = \<lparr> up = Some ''tok-up'', down = Some ''tok-down'' \<rparr>,
         entryDone = True, ladderDone = True,
         position = \<lparr> yesShares = 20, yesCost = 9, noShares = 20, noCost = 9 \<rparr> \<rparr>]" "''BTC''" 
     "\<lparr> tickNow = 1700000903000, priceFetch = Some (Some 0.6, Some 0.4),
         feed = \<lparr> booksFetch = None, pricesFetch = Some (Some 0.6, Some 0.4) \<rparr>,
         entryResult = NotFilled, recoveryResult = NotFilled \<rparr>" "\<lparr> orderTokens = Some \<lparr> up = Some ''tok-up'', down = Some ''tok-down'' \<rparr> \<rparr>" None] h1
    by simp
  have b: "\<exists>s'. processAsset 
     (\<lparr> tickNow = 1700000893000, priceFetch = Some (Some 0.6, Some 0.4),
         feed = \<lparr> booksFetch = None, pricesFetch = Some (Some 0.6, Some 0.4) \<rparr>,
         entryResult = NotFilled, recoveryResult = NotFilled \<rparr>) ''BTC'' (\<lparr> orderTokens = Some \<lparr> up = Some ''tok-up'', down = Some ''tok-down'' \<rparr> \<rparr>) (\<lparr> windowId = Some 1700000000, elapsed_sec = 893, remaining_sec = 7 \<rparr>) None 
     ([''BTC'' \<mapsto> \<lparr> state = LOCKED,
         leaderTracker = \<lparr> trackerWindowMs = 90000,
           flipCounter = \<lparr> counterWindowMs = 90000, events = [1700000850000, 1700000870000] \<rparr>,
           leaderHistory = \<lparr> windowMs = 90000,
             samples = [\<lparr> timestamp = 1700000890000, sampleValue = 1 \<rparr>] \<rparr>,
           currentLeader = Some YES, pendingFlip = Some NO, pendingFlipCount = 1,
           totalFlips = 2 \<rparr>,
         obiCalculator = \<lparr> obiWindowMs = 90000, topN = 10,
           obiYes = \<lparr> windowMs = 90000,
             samples = [\<lparr> timestamp = 1700000890000, sampleValue = - 0.5 \<rparr>] \<rparr>,
           obiNo = \<lparr> windowMs = 90000, samples = [] \<rparr>,
           obiCombined = \<lparr> windowMs = 90000, samples = [] \<rparr> \<rparr>,
         lockDetector = \<lparr> locked = True, lockTimestamp = Some 1700000800000, lockDetails = None \<rparr>,
         lastWindowId = Some 1700000000,
         lastTokens = \<lparr> up = Some ''tok-up'', down = Some ''tok-down'' \<rparr>,
         entryDone = True, ladderDone = True,
         position = \<lparr> yesShares = 20, yesCost = 9, noShares = 20, noCost = 9 \<rparr> \<rparr>]) ''BTC'' = Some s' \<and>
      state s' \<noteq> ARMED \<and> entryDone s' \<and> ladderDone s' \<and> locked (lockDetector s') \<and>
      2 \<le> totalFlips (leaderTracker s') \<and> lastWindowId s' = Some 1700000000"
    using new_window_reset_fields [OF refl, of "\<lparr> windowId = Some 1700000000, elapsed_sec = 893, remaining_sec = 7 \<rparr>" 
     "[''BTC'' \<mapsto> \<lparr> state = LOCKED,
         leaderTracker = \<lparr> trackerWindowMs = 90000,
           flipCounter = \<lparr> counterWindowMs = 90000, events = [1700000850000, 1700000870000] \<rparr>,
           leaderHistory = \<lparr> windowMs = 90000,
             samples = [\<lparr> timestamp = 1700000890000, sampleValue = 1 \<rparr>] \<rparr>,
           currentLeader = Some YES, pendingFlip = Some NO, pendingFlipCount = 1,
           totalFlips = 2 \<rparr>,
         obiCalculator = \<lparr> obiWindowMs = 90000, topN = 10,
           obiYes = \<lparr> windowMs = 90000,
             samples = [\<lparr> timestamp = 1700000890000, sampleValue = - 0.5 \<rparr>] \<rparr>,
           obiNo = \<lparr> windowMs = 90000, samples = [] \<rparr>,
           obiCombined = \<lparr> windowMs = 90000, samples = [] \<rparr> \<rparr>,
         lockDetector = \<lparr> locked = True, lockTimestamp = Some 1700000800000, lockDetails = None \<rparr>,
         lastWindowId = Some 1700000000,
         lastTokens = \<lparr> up = Some ''tok-up'', down = Some ''tok-down'' \<rparr>,
         entryDone = True, ladderDone = True,
         position = \<lparr> yesShares = 20, yesCost = 9, noShares = 20, noCost = 9 \<rparr> \<rparr>]" "''BTC''" 
     "\<lparr> tickNow = 1700000893000, priceFetch = Some (Some 0.6, Some 0.4),
         feed = \<lparr> booksFetch = None, pricesFetch = Some (Some 0.6, Some 0.4) \<rparr>,
         entryResult = NotFilled, recoveryResult = NotFilled \<rparr>" "\<lparr> orderTokens = Some \<lparr> up = Some ''tok-up'', down = Some ''tok-down'' \<rparr> \<rparr>" None] h2 h3
    by simp
  show ?thesis using h1 h2 h3 a b by simp
qed

section \<open>RegimeTracker: statistics and classification\<close>

lemma calculateStats_short:
  "length (histOf t asset) < 3 \<Longrightarrow>
   calculateStats t asset = \<lparr> avg = Num 0.5, std = Num 0.5, trend = Num 0 \<rparr>"
  by (simp add: calculateStats_def)

lemma calculateStats_long:
  assumes "\<not> length (histOf t asset) < 3"
  shows "avg (calculateStats t asset) = dmean (map score (histOf t asset))"
    and "std (calculateStats t asset) = dstd (map score (histOf t asset))"
    and "trend (calculateStats t asset) = dtrend (map score (histOf t asset))"
  using assms
  by (simp_all add: calculateStats_def Let_def dmean_def dstd_def dtrend_def dsum_def
        dsquare_def min_absorb2 del: jsqrt.simps)

lemma updateRegime_fst:
  "fst (updateRegime now asset t) =
     (if jlt (std (calculateStats t asset)) (Num (rnd 0.15)) then
        (if jgt (trend (calculateStats t asset)) (Num (rnd 0.05)) then WAKING
         else if jlt (trend (calculateStats t asset)) (Num (- rnd 0.05)) then FADING
         else STEADY)
      else CHOPPY)"
  by (simp add: updateRegime_def Let_def STEADY_THRESHOLD_def)

lemma threshold_below_default: "rnd 0.15 \<le> 0.5"
  by (simp add: fl_eval)

text \<open>
  Claim C8, as the code computes it. With fewer than 3 samples in the asset's history the
  statistics are the defaults (mean 0.5, std 0.5, trend 0) and the regime is CHOPPY.
  With at least 3, the statistics are the mean, the population standard deviation and
  the trend of the scores (mean of the second half minus mean of the first half, split
  at the floored midpoint), each evaluated in double arithmetic, and the regime is
  decided on these rounded values against the doubles nearest to 0.15 and 0.05: WAKING
  when the std is below the threshold and the trend above 0.05, FADING when the std is
  below the threshold and the trend below -0.05, STEADY when the std is below the
  threshold and the trend is neither, CHOPPY when the std is not below the threshold.
  The regime stored for the asset is the one returned.
\<close>

theorem regime_classification_double:
  assumes "scores = map score (histOf t asset)"
  shows "(length scores < 3 \<longrightarrow>
            calculateStats t asset = \<lparr> avg = Num 0.5, std = Num 0.5, trend = Num 0 \<rparr> \<and>
            fst (updateRegime now asset t) = CHOPPY) \<and>
         (length scores \<ge> 3 \<longrightarrow>
            avg (calculateStats t asset) = dmean scores \<and>
            std (calculateStats t asset) = dstd scores \<and>
            trend (calculateStats t asset) = dtrend scores \<and>
            (jlt (dstd scores) (Num (rnd 0.15)) \<and> jgt (dtrend scores) (Num (rnd 0.05)) \<longrightarrow>
               fst (updateRegime now asset t) = WAKING) \<and>
            (jlt (dstd scores) (Num (rnd 0.15)) \<and> jlt (dtrend scores) (Num (- rnd 0.05)) \<longrightarrow>
               fst (updateRegime now asset t) = FADING) \<and>
            (jlt (dstd scores) (Num (rnd 0.15)) \<and> \<not> jgt (dtrend scores) (Num (rnd 0.05)) \<and>
             \<not> jlt (dtrend scores) (Num (- rnd 0.05)) \<longrightarrow>
               fst (updateRegime now asset t) = STEADY) \<and>
            (\<not> jlt (dstd scores) (Num (rnd 0.15)) \<longrightarrow>
               fst (updateRegime now asset t) = CHOPPY)) \<and>
         getRegime (snd (updateRegime now asset t)) asset = fst (updateRegime now asset t)"
proof (intro conjI impI)
  assume "length scores < 3"
  then have l: "length (histOf t asset) < 3" using assms by simp
  show "calculateStats t asset = \<lparr> avg = Num 0.5, std = Num 0.5, trend = Num 0 \<rparr>"
    using l by (rule calculateStats_short)
  then show "fst (updateRegime now asset t) = CHOPPY"
    using threshold_below_default by (simp add: updateRegime_fst)
next
  show "getRegime (snd (updateRegime now asset t)) asset = fst (updateRegime now asset t)"
    by (simp add: updateRegime_def getRegime_def Let_def)
next
  assume "3 \<le> length scores"
  then have l: "\<not> length (histOf t asset) < 3" using assms by simp
  note st = calculateStats_long [OF l, folded assms]
  show "avg (calculateStats t asset) = dmean scores" by (rule st)
  show "std (calculateStats t asset) = dstd scores" by (rule st)
  show "trend (calculateStats t asset) = dtrend scores" by (rule st)
  { assume "jlt (dstd scores) (Num (rnd 0.15)) \<and> jgt (dtrend scores) (Num (rnd 0.05))"
    then show "fst (updateRegime now asset t) = WAKING"
      by (simp add: updateRegime_fst st) }
  { assume "jlt (dstd scores) (Num (rnd 0.15)) \<and> jlt (dtrend scores) (Num (- rnd 0.05))"
    moreover have "\<not> (jgt (dtrend scores) (Num (rnd 0.05)) \<and> jlt (dtrend scores) (Num (- rnd 0.05)))"
      using rnd_nonneg [of "0.05"] by (cases "dtrend scores") (auto simp add: jgt_def)
    ultimately show "fst (updateRegime now asset t) = FADING"
      by (auto simp add: updateRegime_fst st) }
  { assume "jlt (dstd scores) (Num (rnd 0.15)) \<and> \<not> jgt (dtrend scores) (Num (rnd 0.05)) \<and>
            \<not> jlt (dtrend scores) (Num (- rnd 0.05))"
    then show "fst (updateRegime now asset t) = STEADY"
      by (simp add: updateRegime_fst st) }
  { assume "\<not> jlt (dstd scores) (Num (rnd 0.15))"
    then show "fst (updateRegime now asset t) = CHOPPY"
      by (simp add: updateRegime_fst st) }
qed

text \<open>
  The claim as stated fails on the code. The scores 0.53, 0.5, 0.66 (the doubles nearest
  to them) have, in exact arithmetic, a population standard deviation below 0.15 and a
  trend within [-0.05, 0.05], so the regime would be STEADY; the code computes the trend
  0.050000000000000044 and answers WAKING.
\<close>

theorem regime_rounding:
  "fst (updateRegime 5000 ''BTC'' \<lparr> history = [''BTC'' \<mapsto> [\<lparr> score = rnd 0.53, entryTimestamp = 1000 \<rparr>, \<lparr> score = 0.5, entryTimestamp = 2000 \<rparr>, \<lparr> score = rnd 0.66, entryTimestamp = 3000 \<rparr>]], regimes = Map.empty \<rparr>) = WAKING \<and>
   spec_population_std [rnd 0.53, 0.5, rnd 0.66] < 0.15 \<and>
   - 0.05 \<le> spec_trend [rnd 0.53, 0.5, rnd 0.66] \<and>
   spec_trend [rnd 0.53, 0.5, rnd 0.66] \<le> 0.05"
proof -
  have sc: "map score (histOf \<lparr> history = [''BTC'' \<mapsto> [\<lparr> score = rnd 0.53, entryTimestamp = 1000 \<rparr>, \<lparr> score = 0.5, entryTimestamp = 2000 \<rparr>, \<lparr> score = rnd 0.66, entryTimestamp = 3000 \<rparr>]], regimes = Map.empty \<rparr> ''BTC'') = [rnd 0.53, 0.5, rnd 0.66]"
    by (simp add: histOf_def)
  have len: "\<not> length (histOf \<lparr> history = [''BTC'' \<mapsto> [\<lparr> score = rnd 0.53, entryTimestamp = 1000 \<rparr>, \<lparr> score = 0.5, entryTimestamp = 2000 \<rparr>, \<lparr> score = rnd 0.66, entryTimestamp = 3000 \<rparr>]], regimes = Map.empty \<rparr> ''BTC'') < 3"
    by (simp add: histOf_def)
  note st = calculateStats_long [OF len, unfolded sc]
  have var: "jdiv (foldl (\<lambda>sum s. jadd sum (dsquare (jsub (Num s) (dmean [rnd 0.53, 0.5, rnd 0.66])))) (Num 0) [rnd 0.53, 0.5, rnd 0.66]) (Num (real (length [rnd 0.53, 0.5, rnd 0.66]))) = Num (5559643699993019 / 1152921504606846976)"
    by (simp add: dmean_def dsum_def dsquare_def jsub_def fl_eval)
  have sd: "jlt (dstd [rnd 0.53, 0.5, rnd 0.66]) (Num (rnd 0.15))"
    unfolding dstd_def var by (rule jsqrt_lt [where c = "1/8"]) (simp_all add: fl_eval)
  have tr: "jgt (dtrend [rnd 0.53, 0.5, rnd 0.66]) (Num (rnd 0.05))"
    by (simp add: dtrend_def dmean_def dsum_def jsub_def jgt_def fl_eval)
  have r: "fst (updateRegime 5000 ''BTC'' \<lparr> history = [''BTC'' \<mapsto> [\<lparr> score = rnd 0.53, entryTimestamp = 1000 \<rparr>, \<lparr> score = 0.5, entryTimestamp = 2000 \<rparr>, \<lparr> score = rnd 0.66, entryTimestamp = 3000 \<rparr>]], regimes = Map.empty \<rparr>) = WAKING"
    using sd tr st by (simp add: updateRegime_fst)
  have s1: "spec_population_std [rnd 0.53, 0.5, rnd 0.66] < 0.15"
    unfolding spec_population_std_def spec_mean_def
    by (rule real_less_lsqrt) (simp_all add: power2_eq_square fl_eval)
  have s2: "- 0.05 \<le> spec_trend [rnd 0.53, 0.5, rnd 0.66] \<and> spec_trend [rnd 0.53, 0.5, rnd 0.66] \<le> 0.05"
    by (simp add: spec_trend_def spec_mean_def fl_eval)
  show ?thesis using r s1 s2 by simp
qed

theorem regime_classification_double_witness:
  "length [rnd 0.9, rnd 0.1] < 3 \<and>
   fst (updateRegime 5000 ''BTC'' \<lparr> history = [''BTC'' \<mapsto> [\<lparr> score = rnd 0.9, entryTimestamp = 1000 \<rparr>, \<lparr> score = rnd 0.1, entryTimestamp = 2000 \<rparr>]], regimes = Map.empty \<rparr>) = CHOPPY \<and>
   jlt (dstd [rnd 0.4, 0.5, rnd 0.6]) (Num (rnd 0.15)) \<and>
   jgt (dtrend [rnd 0.4, 0.5, rnd 0.6]) (Num (rnd 0.05)) \<and>
   fst (updateRegime 5000 ''BTC'' \<lparr> history = [''BTC'' \<mapsto> [\<lparr> score = rnd 0.4, entryTimestamp = 1000 \<rparr>, \<lparr> score = 0.5, entryTimestamp = 2000 \<rparr>, \<lparr> score = rnd 0.6, entryTimestamp = 3000 \<rparr>]], regimes = Map.empty \<rparr>) = WAKING \<and>
   jlt (dstd [rnd 0.6, 0.5, rnd 0.4]) (Num (rnd 0.15)) \<and>
   jlt (dtrend [rnd 0.6, 0.5, rnd 0.4]) (Num (- rnd 0.05)) \<and>
   fst (updateRegime 5000 ''BTC'' \<lparr> history = [''BTC'' \<mapsto> [\<lparr> score = rnd 0.6, entryTimestamp = 1000 \<rparr>, \<lparr> score = 0.5, entryTimestamp = 2000 \<rparr>, \<lparr> score = rnd 0.4, entryTimestamp = 3000 \<rparr>]], regimes = Map.empty \<rparr>) = FADING \<and>
   jlt (dstd [0.5, 0.5, 0.5, 0.5]) (Num (rnd 0.15)) \<and>
   \<not> jgt (dtrend [0.5, 0.5, 0.5, 0.5]) (Num (rnd 0.05)) \<and>
   \<not> jlt (dtrend [0.5, 0.5, 0.5, 0.5]) (Num (- rnd 0.05)) \<and>
   fst (updateRegime 5000 ''BTC'' \<lparr> history = [''BTC'' \<mapsto> [\<lparr> score = 0.5, entryTimestamp = 1000 \<rparr>, \<lparr> score = 0.5, entryTimestamp = 2000 \<rparr>, \<lparr> score = 0.5, entryTimestamp = 3000 \<rparr>, \<lparr> score = 0.5, entryTimestamp = 4000 \<rparr>]], regimes = Map.empty \<rparr>) = STEADY \<and>
   \<not> jlt (dstd [rnd 0.1, rnd 0.9, rnd 0.1]) (Num (rnd 0.15)) \<and>
   fst (updateRegime 5000 ''BTC'' \<lparr> history = [''BTC'' \<mapsto> [\<lparr> score = rnd 0.1, entryTimestamp = 1000 \<rparr>, \<lparr> score = rnd 0.9, entryTimestamp = 2000 \<rparr>, \<lparr> score = rnd 0.1, entryTimestamp = 3000 \<rparr>]], regimes = Map.empty \<rparr>) = CHOPPY"
proof -
  have scSH: "map score (histOf \<lparr> history = [''BTC'' \<mapsto> [\<lparr> score = rnd 0.9, entryTimestamp = 1000 \<rparr>, \<lparr> score = rnd 0.1, entryTimestamp = 2000 \<rparr>]], regimes = Map.empty \<rparr> ''BTC'') = [rnd 0.9, rnd 0.1]"
    by (simp add: histOf_def)
  have rSH: "fst (updateRegime 5000 ''BTC'' \<lparr> history = [''BTC'' \<mapsto> [\<lparr> score = rnd 0.9, entryTimestamp = 1000 \<rparr>, \<lparr> score = rnd 0.1, entryTimestamp = 2000 \<rparr>]], regimes = Map.empty \<rparr>) = CHOPPY"
    using regime_classification_double [OF scSH [symmetric], of 5000] by simp
  have scWK: "map score (histOf \<lparr> history = [''BTC'' \<mapsto> [\<lparr> score = rnd 0.4, entryTimestamp = 1000 \<rparr>, \<lparr> score = 0.5, entryTimestamp = 2000 \<rparr>, \<lparr> score = rnd 0.6, entryTimestamp = 3000 \<rparr>]], regimes = Map.empty \<rparr> ''BTC'') = [rnd 0.4, 0.5, rnd 0.6]"
    by (simp add: histOf_def)
  have varWK: "jdiv (foldl (\<lambda>sum s. jadd sum (dsquare (jsub (Num s) (dmean [rnd 0.4, 0.5, rnd 0.6])))) (Num 0) [rnd 0.4, 0.5, rnd 0.6]) (Num (real (length [rnd 0.4, 0.5, rnd 0.6]))) = Num (7686143364045643 / 1152921504606846976)"
    by (simp add: dmean_def dsum_def dsquare_def jsub_def fl_eval)
  have sdWK: "jlt (dstd [rnd 0.4, 0.5, rnd 0.6]) (Num (rnd 0.15))"
    unfolding dstd_def varWK by (rule jsqrt_lt [where c = "1/8"]) (simp_all add: fl_eval)
  have trWK: "jgt (dtrend [rnd 0.4, 0.5, rnd 0.6]) (Num (rnd 0.05))"
    by (simp add: dtrend_def dmean_def dsum_def jsub_def jgt_def fl_eval)
  have rWK: "fst (updateRegime 5000 ''BTC'' \<lparr> history = [''BTC'' \<mapsto> [\<lparr> score = rnd 0.4, entryTimestamp = 1000 \<rparr>, \<lparr> score = 0.5, entryTimestamp = 2000 \<rparr>, \<lparr> score = rnd 0.6, entryTimestamp = 3000 \<rparr>]], regimes = Map.empty \<rparr>) = WAKING"
    using regime_classification_double [OF scWK [symmetric], of 5000] sdWK trWK by simp
  have scFD: "map score (histOf \<lparr> history = [''BTC'' \<mapsto> [\<lparr> score = rnd 0.6, entryTimestamp = 1000 \<rparr>, \<lparr> score = 0.5, entryTimestamp = 2000 \<rparr>, \<lparr> score = rnd 0.4, entryTimestamp = 3000 \<rparr>]], regimes = Map.empty \<rparr> ''BTC'') = [rnd 0.6, 0.5, rnd 0.4]"
    by (simp add: histOf_def)
  have varFD: "jdiv (foldl (\<lambda>sum s. jadd sum (dsquare (jsub (Num s) (dmean [rnd 0.6, 0.5, rnd 0.4])))) (Num 0) [rnd 0.6, 0.5, rnd 0.4]) (Num (real (length [rnd 0.6, 0.5, rnd 0.4]))) = Num (7686143364045643 / 1152921504606846976)"
    by (simp add: dmean_def dsum_def dsquare_def jsub_def fl_eval)
  have sdFD: "jlt (dstd [rnd 0.6, 0.5, rnd 0.4]) (Num (rnd 0.15))"
    unfolding dstd_def varFD by (rule jsqrt_lt [where c = "1/8"]) (simp_all add: fl_eval)
  have trFD: "jlt (dtrend [rnd 0.6, 0.5, rnd 0.4]) (Num (- rnd 0.05))"
    by (simp add: dtrend_def dmean_def dsum_def jsub_def jgt_def fl_eval)
  have rFD: "fst (updateRegime 5000 ''BTC'' \<lparr> history = [''BTC'' \<mapsto> [\<lparr> score = rnd 0.6, entryTimestamp = 1000 \<rparr>, \<lparr> score = 0.5, entryTimestamp = 2000 \<rparr>, \<lparr> score = rnd 0.4, entryTimestamp = 3000 \<rparr>]], regimes = Map.empty \<rparr>) = FADING"
    using regime_classification_double [OF scFD [symmetric], of 5000] sdFD trFD by simp
  have scSD: "map score (histOf \<lparr> history = [''BTC'' \<mapsto> [\<lparr> score = 0.5, entryTimestamp = 1000 \<rparr>, \<lparr> score = 0.5, entryTimestamp = 2000 \<rparr>, \<lparr> score = 0.5, entryTimestamp = 3000 \<rparr>, \<lparr> score = 0.5, entryTimestamp = 4000 \<rparr>]], regimes = Map.empty \<rparr> ''BTC'') = [0.5, 0.5, 0.5, 0.5]"
    by (simp add: histOf_def)
  have varSD: "jdiv (foldl (\<lambda>sum s. jadd sum (dsquare (jsub (Num s) (dmean [0.5, 0.5, 0.5, 0.5])))) (Num 0) [0.5, 0.5, 0.5, 0.5]) (Num (real (length [0.5, 0.5, 0.5, 0.5]))) = Num 0"
    by (simp add: dmean_def dsum_def dsquare_def jsub_def fl_eval)
  have sdSD: "jlt (dstd [0.5, 0.5, 0.5, 0.5]) (Num (rnd 0.15))"
    unfolding dstd_def varSD by (rule jsqrt_lt [where c = "1/8"]) (simp_all add: fl_eval)
  have trSD: "\<not> jgt (dtrend [0.5, 0.5, 0.5, 0.5]) (Num (rnd 0.05)) \<and> \<not> jlt (dtrend [0.5, 0.5, 0.5, 0.5]) (Num (- rnd 0.05))"
    by (simp add: dtrend_def dmean_def dsum_def jsub_def jgt_def fl_eval)
  have rSD: "fst (updateRegime 5000 ''BTC'' \<lparr> history = [''BTC'' \<mapsto> [\<lparr> score = 0.5, entryTimestamp = 1000 \<rparr>, \<lparr> score = 0.5, entryTimestamp = 2000 \<rparr>, \<lparr> score = 0.5, entryTimestamp = 3000 \<rparr>, \<lparr> score = 0.5, entryTimestamp = 4000 \<rparr>]], regimes = Map.empty \<rparr>) = STEADY"
    using regime_classification_double [OF scSD [symmetric], of 5000] sdSD trSD by simp
  have scCH: "map score (histOf \<lparr> history = [''BTC'' \<mapsto> [\<lparr> score = rnd 0.1, entryTimestamp = 1000 \<rparr>, \<lparr> score = rnd 0.9, entryTimestamp = 2000 \<rparr>, \<lparr> score = rnd 0.1, entryTimestamp = 3000 \<rparr>]], regimes = Map.empty \<rparr> ''BTC'') = [rnd 0.1, rnd 0.9, rnd 0.1]"
    by (simp add: histOf_def)
  have varCH: "jdiv (foldl (\<lambda>sum s. jadd sum (dsquare (jsub (Num s) (dmean [rnd 0.1, rnd 0.9, rnd 0.1])))) (Num 0) [rnd 0.1, rnd 0.9, rnd 0.1]) (Num (real (length [rnd 0.1, rnd 0.9, rnd 0.1]))) = Num (5124095576030431 / 36028797018963968)"
    by (simp add: dmean_def dsum_def dsquare_def jsub_def fl_eval)
  have sdCH: "\<not> jlt (dstd [rnd 0.1, rnd 0.9, rnd 0.1]) (Num (rnd 0.15))"
    unfolding dstd_def varCH by (rule jsqrt_ge [where c = "1/4"]) (simp_all add: fl_eval)
  have rCH: "fst (updateRegime 5000 ''BTC'' \<lparr> history = [''BTC'' \<mapsto> [\<lparr> score = rnd 0.1, entryTimestamp = 1000 \<rparr>, \<lparr> score = rnd 0.9, entryTimestamp = 2000 \<rparr>, \<lparr> score = rnd 0.1, entryTimestamp = 3000 \<rparr>]], regimes = Map.empty \<rparr>) = CHOPPY"
    using regime_classification_double [OF scCH [symmetric], of 5000] sdCH by simp
  show ?thesis using rSH rWK sdWK trWK rFD sdFD trFD rSD sdSD trSD rCH sdCH by simp
qed

section \<open>ScoreCalculator: trendiness\<close>

lemma foldl_abs_dsum:
  "foldl (\<lambda>sum r. jadd sum (Num \<bar>r\<bar>)) z rs = foldl (\<lambda>a b. jadd a (Num b)) z (map abs rs)"
  by (induction rs arbitrary: z) simp_all

lemma calculateTrendiness_formula:
  "calculateTrendiness (Some rs) =
     (if rs = [] \<or> dsum (map abs rs) = Num 0 then Num 0
      else jdiv (jabs (dsum rs)) (dsum (map abs rs)))"
  by (simp add: calculateTrendiness_def Let_def dsum_def foldl_abs_dsum)

text \<open>The running sum of the absolute values dominates the running sum: it has
  overflowed, or both are finite and the one bounds the other.\<close>

lemma jadd_dominated:
  assumes "A = PosInfinity \<or> (\<exists>x y. a = Num x \<and> A = Num y \<and> \<bar>x\<bar> \<le> y)"
  shows "jadd A (Num \<bar>r\<bar>) = PosInfinity \<or>
         (\<exists>x y. jadd a (Num r) = Num x \<and> jadd A (Num \<bar>r\<bar>) = Num y \<and> \<bar>x\<bar> \<le> y)"
proof (cases "A = PosInfinity")
  case True
  then show ?thesis by simp
next
  case False
  then obtain x y where xy: "a = Num x" "A = Num y" "\<bar>x\<bar> \<le> y" using assms by blast
  have le: "\<bar>x + r\<bar> \<le> y + \<bar>r\<bar>" using xy(3) by linarith
  have "\<bar>rnd (x + r)\<bar> = rnd \<bar>x + r\<bar>" by (simp add: rnd_abs)
  also have "\<dots> \<le> rnd (y + \<bar>r\<bar>)" using le by (rule rnd_mono)
  finally have d: "\<bar>rnd (x + r)\<bar> \<le> rnd (y + \<bar>r\<bar>)" .
  show ?thesis
  proof (cases "rnd (y + \<bar>r\<bar>) \<ge> 2 ^ 1024")
    case True
    then show ?thesis using xy by (simp add: fl_def)
  next
    case False
    then have b: "\<bar>rnd (x + r)\<bar> < 2 ^ 1024" "\<bar>rnd (y + \<bar>r\<bar>)\<bar> < 2 ^ 1024" using d by linarith+
    show ?thesis using xy d by (simp add: fl_finite [OF b(1)] fl_finite [OF b(2)])
  qed
qed

lemma dsum_dominated_gen:
  "A = PosInfinity \<or> (\<exists>x y. a = Num x \<and> A = Num y \<and> \<bar>x\<bar> \<le> y) \<Longrightarrow>
   foldl (\<lambda>a b. jadd a (Num b)) A (map abs rs) = PosInfinity \<or>
   (\<exists>x y. foldl (\<lambda>a b. jadd a (Num b)) a rs = Num x \<and>
          foldl (\<lambda>a b. jadd a (Num b)) A (map abs rs) = Num y \<and> \<bar>x\<bar> \<le> y)"
proof (induction rs arbitrary: a A)
  case Nil
  then show ?case by simp
next
  case (Cons r rs)
  show ?case using Cons.IH [OF jadd_dominated [OF Cons.prems, of r]] by simp
qed

lemma dsum_dominated:
  "dsum (map abs rs) = PosInfinity \<or>
   (\<exists>x y. dsum rs = Num x \<and> dsum (map abs rs) = Num y \<and> \<bar>x\<bar> \<le> y)"
  unfolding dsum_def by (rule dsum_dominated_gen) simp

lemma jdiv_by_infinity: "jdiv x PosInfinity = NaN \<or> jdiv x PosInfinity = Num 0"
  by (cases x) simp_all

lemma calculateTrendiness_range:
  "calculateTrendiness r = NaN \<or> (\<exists>t. calculateTrendiness r = Num t \<and> 0 \<le> t \<and> t \<le> 1)"
proof (cases r)
  case None
  then show ?thesis by (simp add: calculateTrendiness_def)
next
  case (Some rs)
  show ?thesis
  proof (cases "rs = [] \<or> dsum (map abs rs) = Num 0")
    case True
    then show ?thesis unfolding Some calculateTrendiness_formula by auto
  next
    case False
    then have f: "calculateTrendiness r = jdiv (jabs (dsum rs)) (dsum (map abs rs))"
      unfolding Some calculateTrendiness_formula by simp
    from dsum_dominated [of rs] show ?thesis
    proof
      assume "dsum (map abs rs) = PosInfinity"
      then show ?thesis using f jdiv_by_infinity [of "jabs (dsum rs)"] by auto
    next
      assume "\<exists>x y. dsum rs = Num x \<and> dsum (map abs rs) = Num y \<and> \<bar>x\<bar> \<le> y"
      then obtain x y where xy: "dsum rs = Num x" "dsum (map abs rs) = Num y" "\<bar>x\<bar> \<le> y"
        by blast
      have y: "0 < y" using xy False by (cases "y = 0") auto
      have q: "0 \<le> \<bar>x\<bar> / y" "\<bar>x\<bar> / y \<le> 1" using xy(3) y by simp_all
      have lo: "0 \<le> rnd (\<bar>x\<bar> / y)" using q(1) by (rule rnd_nonneg)
      have hi: "rnd (\<bar>x\<bar> / y) \<le> 1" using rnd_mono [OF q(2)] by simp
      have "\<bar>rnd (\<bar>x\<bar> / y)\<bar> < 2 ^ 1024" using lo hi by simp
      then have "fl (\<bar>x\<bar> / y) = Num (rnd (\<bar>x\<bar> / y))" by (rule fl_finite)
      then show ?thesis using f xy y lo hi by simp
    qed
  qed
qed

lemma calculateTrendiness_NaN:
  "calculateTrendiness (Some rs) = NaN \<Longrightarrow> dsum (map abs rs) = PosInfinity"
proof -
  assume n: "calculateTrendiness (Some rs) = NaN"
  then have ne: "\<not> (rs = [] \<or> dsum (map abs rs) = Num 0)"
    unfolding calculateTrendiness_formula by (auto split: if_splits)
  then have f: "jdiv (jabs (dsum rs)) (dsum (map abs rs)) = NaN"
    using n unfolding calculateTrendiness_formula by simp
  from dsum_dominated [of rs] show ?thesis
  proof
    assume "dsum (map abs rs) = PosInfinity"
    then show ?thesis .
  next
    assume "\<exists>x y. dsum rs = Num x \<and> dsum (map abs rs) = Num y \<and> \<bar>x\<bar> \<le> y"
    then obtain x y where xy: "dsum rs = Num x" "dsum (map abs rs) = Num y" "\<bar>x\<bar> \<le> y"
      by blast
    have "y \<noteq> 0" using xy ne by auto
    then have "jdiv (jabs (dsum rs)) (dsum (map abs rs)) = fl (\<bar>x\<bar> / y)" using xy by simp
    moreover have "fl (\<bar>x\<bar> / y) \<noteq> NaN" by (simp add: fl_def Let_def)
    ultimately show ?thesis using f by simp
  qed
qed

lemma dsum_all_zero: "\<forall>x\<in>set rs. x = 0 \<Longrightarrow> dsum (map abs rs) = Num 0"
  unfolding dsum_def by (induction rs) simp_all

text \<open>Adding a positive double to a sum that is not negative gives a positive sum.\<close>

lemma jadd_positive:
  assumes "a = PosInfinity \<or> (\<exists>y. a = Num y \<and> 0 \<le> y)" and "isDouble r" and "0 < r"
  shows "jadd a (Num r) = PosInfinity \<or> (\<exists>y. jadd a (Num r) = Num y \<and> 0 < y)"
proof (cases "a = PosInfinity")
  case True
  then show ?thesis by simp
next
  case False
  then obtain y where y: "a = Num y" "0 \<le> y" using assms(1) by blast
  have "rnd r \<le> rnd (y + r)" using y(2) by (intro rnd_mono) simp
  then have p: "0 < rnd (y + r)" using assms(2,3) by (simp add: isDouble_rnd)
  show ?thesis using y p by (auto simp add: fl_def Let_def)
qed

lemma jadd_nonneg:
  assumes "a = PosInfinity \<or> (\<exists>y. a = Num y \<and> 0 \<le> y)" and "0 \<le> r"
  shows "jadd a (Num r) = PosInfinity \<or> (\<exists>y. jadd a (Num r) = Num y \<and> 0 \<le> y)"
proof (cases "a = PosInfinity")
  case True
  then show ?thesis by simp
next
  case False
  then obtain y where y: "a = Num y" "0 \<le> y" using assms(1) by blast
  have p: "0 \<le> rnd (y + r)" using y(2) assms(2) by (intro rnd_nonneg) simp
  show ?thesis using y p by (auto simp add: fl_def Let_def)
qed

lemma foldl_nonneg:
  "a = PosInfinity \<or> (\<exists>y. a = Num y \<and> 0 \<le> y) \<Longrightarrow> \<forall>x\<in>set rs. 0 \<le> x \<Longrightarrow>
   foldl (\<lambda>a b. jadd a (Num b)) a rs = PosInfinity \<or>
   (\<exists>y. foldl (\<lambda>a b. jadd a (Num b)) a rs = Num y \<and> 0 \<le> y)"
proof (induction rs arbitrary: a)
  case Nil
  then show ?case by simp
next
  case (Cons r rs)
  have "jadd a (Num r) = PosInfinity \<or> (\<exists>y. jadd a (Num r) = Num y \<and> 0 \<le> y)"
    using Cons.prems by (intro jadd_nonneg) simp_all
  then show ?case using Cons.IH [of "jadd a (Num r)"] Cons.prems(2) by simp
qed

lemma dsum_positive:
  assumes "rs \<noteq> []" and "\<forall>x\<in>set rs. isDouble x \<and> 0 < x"
  shows "dsum rs = PosInfinity \<or> (\<exists>y. dsum rs = Num y \<and> 0 < y)"
proof -
  obtain xs x where rs: "rs = xs @ [x]" using assms(1) by (cases rs rule: rev_cases) auto
  have "\<forall>z\<in>set xs. 0 \<le> z" using assms(2) rs by auto
  then have "foldl (\<lambda>a b. jadd a (Num b)) (Num 0) xs = PosInfinity \<or>
             (\<exists>y. foldl (\<lambda>a b. jadd a (Num b)) (Num 0) xs = Num y \<and> 0 \<le> y)"
    by (intro foldl_nonneg) simp_all
  moreover have "isDouble x" "0 < x" using assms(2) rs by auto
  ultimately show ?thesis unfolding dsum_def rs by (simp add: jadd_positive)
qed

lemma dsum_uminus_gen:
  "foldl (\<lambda>a b. jadd a (Num b)) (jneg a) (map uminus rs) =
   jneg (foldl (\<lambda>a b. jadd a (Num b)) a rs)"
proof (induction rs arbitrary: a)
  case Nil
  then show ?case by simp
next
  case (Cons r rs)
  have "jadd (jneg a) (Num (- r)) = jneg (jadd a (Num r))"
  proof (cases a)
    case (Num x)
    have "fl (- x - r) = jneg (fl (x + r))" using fl_neg [of "x + r"] by simp
    then show ?thesis using Num by simp
  qed simp_all
  then show ?case using Cons.IH [of "jadd a (Num r)"] by simp
qed

lemma dsum_uminus: "dsum (map uminus rs) = jneg (dsum rs)"
  unfolding dsum_def using dsum_uminus_gen [of "Num 0" rs] by simp

lemma trendiness_one_sign:
  assumes "rs \<noteq> []" and "\<forall>x\<in>set rs. isDouble x"
    and "(\<forall>x\<in>set rs. 0 < x) \<or> (\<forall>x\<in>set rs. x < 0)"
  shows "(dsum (map abs rs) \<noteq> PosInfinity \<longrightarrow> calculateTrendiness (Some rs) = Num 1) \<and>
         (dsum (map abs rs) = PosInfinity \<longrightarrow> calculateTrendiness (Some rs) = NaN)"
proof -
  have ab: "\<forall>x\<in>set (map abs rs). isDouble x \<and> 0 < x"
    using assms(2,3) by (auto simp add: isDouble_minus abs_if)
  have ne: "map abs rs \<noteq> []" using assms(1) by simp
  have "jabs (dsum rs) = dsum (map abs rs)"
  proof -
    from assms(3) show ?thesis
    proof
      assume "\<forall>x\<in>set rs. 0 < x"
      then have m: "map abs rs = rs" by (auto intro!: map_idI)
      show ?thesis using dsum_positive [OF ne ab] unfolding m by auto
    next
      assume "\<forall>x\<in>set rs. x < 0"
      then have m: "map abs rs = map uminus rs" by auto
      have "dsum (map abs rs) = jneg (dsum rs)" unfolding m by (rule dsum_uminus)
      then show ?thesis using dsum_positive [OF ne ab] by (cases "dsum rs") auto
    qed
  qed
  then have f: "calculateTrendiness (Some rs) =
                  (if dsum (map abs rs) = Num 0 then Num 0
                   else jdiv (dsum (map abs rs)) (dsum (map abs rs)))"
    using assms(1) by (simp add: calculateTrendiness_formula)
  from dsum_positive [OF ne ab] show ?thesis
  proof
    assume "dsum (map abs rs) = PosInfinity"
    then show ?thesis using f by simp
  next
    assume "\<exists>y. dsum (map abs rs) = Num y \<and> 0 < y"
    then obtain y where y: "dsum (map abs rs) = Num y" "0 < y" by blast
    then show ?thesis using f by simp
  qed
qed

text \<open>
  Claim C9, as the code computes it. The trendiness of a series of finite returns is
  0 for a missing or empty series and when the sum of the absolute values is 0, and
  otherwise the quotient of the absolute value of the sum by the sum of the absolute
  values, where both sums are added from the left in double arithmetic and the quotient
  is rounded. The result is NaN or lies in [0, 1], and it is NaN only when the sum of
  the absolute values has overflowed to Infinity. It is 0 for an all-zero series. For a
  non-empty series of doubles that are all strictly positive or all strictly negative
  it is exactly 1 when the sum of the absolute values stays finite, and NaN when it
  overflows.
\<close>

theorem trendiness_double:
  "calculateTrendiness None = Num 0 \<and>
   calculateTrendiness (Some []) = Num 0 \<and>
   calculateTrendiness (Some rs) =
     (if rs = [] \<or> dsum (map abs rs) = Num 0 then Num 0
      else jdiv (jabs (dsum rs)) (dsum (map abs rs))) \<and>
   (calculateTrendiness r = NaN \<or> (\<exists>t. calculateTrendiness r = Num t \<and> 0 \<le> t \<and> t \<le> 1)) \<and>
   (calculateTrendiness (Some rs) = NaN \<longrightarrow> dsum (map abs rs) = PosInfinity) \<and>
   ((\<forall>x\<in>set rs. x = 0) \<longrightarrow> calculateTrendiness (Some rs) = Num 0) \<and>
   (rs \<noteq> [] \<and> (\<forall>x\<in>set rs. isDouble x) \<and> ((\<forall>x\<in>set rs. 0 < x) \<or> (\<forall>x\<in>set rs. x < 0)) \<longrightarrow>
      (dsum (map abs rs) \<noteq> PosInfinity \<longrightarrow> calculateTrendiness (Some rs) = Num 1) \<and>
      (dsum (map abs rs) = PosInfinity \<longrightarrow> calculateTrendiness (Some rs) = NaN))"
proof (intro conjI impI)
  show "calculateTrendiness None = Num 0" by (simp add: calculateTrendiness_def)
  show "calculateTrendiness (Some []) = Num 0" by (simp add: calculateTrendiness_def)
  show "calculateTrendiness (Some rs) =
     (if rs = [] \<or> dsum (map abs rs) = Num 0 then Num 0
      else jdiv (jabs (dsum rs)) (dsum (map abs rs)))"
    by (rule calculateTrendiness_formula)
  show "calculateTrendiness r = NaN \<or> (\<exists>t. calculateTrendiness r = Num t \<and> 0 \<le> t \<and> t \<le> 1)"
    by (rule calculateTrendiness_range)
next
  assume "calculateTrendiness (Some rs) = NaN"
  then show "dsum (map abs rs) = PosInfinity" by (rule calculateTrendiness_NaN)
next
  assume "\<forall>x\<in>set rs. x = 0"
  then have "dsum (map abs rs) = Num 0" by (rule dsum_all_zero)
  then show "calculateTrendiness (Some rs) = Num 0" by (simp add: calculateTrendiness_formula)
next
  assume h: "rs \<noteq> [] \<and> (\<forall>x\<in>set rs. isDouble x) \<and>
             ((\<forall>x\<in>set rs. 0 < x) \<or> (\<forall>x\<in>set rs. x < 0))"
  assume "dsum (map abs rs) \<noteq> PosInfinity"
  then show "calculateTrendiness (Some rs) = Num 1"
    using trendiness_one_sign [of rs] h by blast
next
  assume h: "rs \<noteq> [] \<and> (\<forall>x\<in>set rs. isDouble x) \<and>
             ((\<forall>x\<in>set rs. 0 < x) \<or> (\<forall>x\<in>set rs. x < 0))"
  assume "dsum (map abs rs) = PosInfinity"
  then show "calculateTrendiness (Some rs) = NaN"
    using trendiness_one_sign [of rs] h by blast
qed

text \<open>
  The claim as stated fails on the code. For the returns 0.03 and -0.01 (the doubles
  nearest to them) the quotient of the exact sums is not what the code returns,
  0.4999999999999999; and for two returns of \<open>2 ^ 1023\<close>, a series of one sign, the
  sums overflow and the code returns NaN, which is neither 1 nor in [0, 1].
\<close>

theorem trendiness_rounding:
  "calculateTrendiness (Some [rnd 0.03, - rnd 0.01]) = Num (4503599627370495 / 9007199254740992) \<and>
   calculateTrendiness (Some [rnd 0.03, - rnd 0.01]) \<noteq>
     Num (\<bar>sum_list [rnd 0.03, - rnd 0.01]\<bar> / sum_list (map abs [rnd 0.03, - rnd 0.01])) \<and>
   calculateTrendiness (Some [2 ^ 1023, 2 ^ 1023]) = NaN"
proof -
  have a: "calculateTrendiness (Some [rnd 0.03, - rnd 0.01]) =
             Num (4503599627370495 / 9007199254740992)"
    by (simp add: calculateTrendiness_def fl_eval)
  have b: "\<bar>sum_list [rnd 0.03, - rnd 0.01]\<bar> / sum_list (map abs [rnd 0.03, - rnd 0.01]) \<noteq>
             4503599627370495 / 9007199254740992"
    by (simp add: fl_eval)
  have p: "fl (2 ^ 1023) = Num (2 ^ 1023)" using fl_pow2 [of 1023] by simp
  have q: "fl (2 ^ 1023 + 2 ^ 1023) = PosInfinity" by (rule fl_overflow) simp
  have c: "calculateTrendiness (Some [2 ^ 1023, 2 ^ 1023]) = NaN"
    using p q by (simp add: calculateTrendiness_def)
  show ?thesis using a b c by simp
qed

theorem trendiness_double_witness:
  "isDouble (rnd 0.01) \<and> isDouble (rnd 0.02) \<and> isDouble (rnd 0.03) \<and>
   0 < rnd 0.01 \<and> 0 < rnd 0.02 \<and> 0 < rnd 0.03 \<and>
   dsum (map abs [rnd 0.01, rnd 0.02, rnd 0.03]) \<noteq> PosInfinity \<and>
   calculateTrendiness (Some [rnd 0.01, rnd 0.02, rnd 0.03]) = Num 1 \<and>
   isDouble (- rnd 0.01) \<and> isDouble (- rnd 0.02) \<and> - rnd 0.01 < 0 \<and> - rnd 0.02 < 0 \<and>
   dsum (map abs [- rnd 0.01, - rnd 0.02]) \<noteq> PosInfinity \<and>
   calculateTrendiness (Some [- rnd 0.01, - rnd 0.02]) = Num 1 \<and>
   isDouble (2 ^ 1023) \<and> (0::real) < 2 ^ 1023 \<and>
   dsum (map abs [2 ^ 1023, 2 ^ 1023]) = PosInfinity \<and>
   calculateTrendiness (Some [2 ^ 1023, 2 ^ 1023]) = NaN \<and>
   calculateTrendiness (Some [0, 0]) = Num 0"
proof -
  have d: "isDouble (rnd 0.01)" "isDouble (rnd 0.02)" "isDouble (rnd 0.03)"
          "isDouble (- rnd 0.01)" "isDouble (- rnd 0.02)"
    by (simp_all add: isDouble_def fl_eval)
  have s: "0 < rnd 0.01" "0 < rnd 0.02" "0 < rnd 0.03"
    by (simp_all add: fl_eval)
  have f1: "dsum (map abs [rnd 0.01, rnd 0.02, rnd 0.03]) \<noteq> PosInfinity"
    by (simp add: dsum_def fl_eval)
  have f2: "dsum (map abs [- rnd 0.01, - rnd 0.02]) \<noteq> PosInfinity"
    by (simp add: dsum_def fl_eval)
  have p: "fl (2 ^ 1023) = Num (2 ^ 1023)" using fl_pow2 [of 1023] by simp
  have q: "fl (2 ^ 1023 + 2 ^ 1023) = PosInfinity" by (rule fl_overflow) simp
  have d3: "isDouble (2 ^ 1023)" using p by (simp add: isDouble_def)
  have f3: "dsum (map abs [2 ^ 1023, 2 ^ 1023]) = PosInfinity"
    using p q by (simp add: dsum_def)
  have r1: "calculateTrendiness (Some [rnd 0.01, rnd 0.02, rnd 0.03]) = Num 1"
    using trendiness_double [of "[rnd 0.01, rnd 0.02, rnd 0.03]" None, THEN conjunct2, THEN conjunct2, THEN conjunct2, THEN conjunct2, THEN conjunct2, THEN conjunct2] d s f1
    by simp
  have r2: "calculateTrendiness (Some [- rnd 0.01, - rnd 0.02]) = Num 1"
    using trendiness_double [of "[- rnd 0.01, - rnd 0.02]" None, THEN conjunct2, THEN conjunct2, THEN conjunct2, THEN conjunct2, THEN conjunct2, THEN conjunct2] d s f2
    by simp
  have r3: "calculateTrendiness (Some [2 ^ 1023, 2 ^ 1023]) = NaN"
    using trendiness_double [of "[2 ^ 1023, 2 ^ 1023]" None, THEN conjunct2, THEN conjunct2, THEN conjunct2, THEN conjunct2, THEN conjunct2, THEN conjunct2] d3 f3
    by simp
  have r4: "calculateTrendiness (Some [0, 0]) = Num 0"
    using trendiness_double [of "[0, 0]" None, THEN conjunct2, THEN conjunct2, THEN conjunct2, THEN conjunct2, THEN conjunct2, THEN conjunct1]
    by simp
  show ?thesis using d s f1 f2 d3 f3 r1 r2 r3 r4 by simp
qed

section \<open>OBICalculator: the gate without data\<close>

lemma getAverage_no_samples:
  "\<forall>s\<in>set (samples ra). timestamp s < now - windowMs ra \<Longrightarrow> fst (getAverage now ra) = None"
proof -
  assume h: "\<forall>s\<in>set (samples ra). timestamp s < now - windowMs ra"
  have "filter (\<lambda>s. timestamp s \<ge> now - windowMs ra) (samples ra) = []"
    using h by (auto simp add: filter_empty_conv)
  then show ?thesis by (simp add: getAverage_def cleanup_def Let_def)
qed

lemma getRollingOBI_yes:
  "fst (getRollingOBI now (Some ''YES'') c) = orZeroOpt (fst (getAverage now (obiYes c))) \<and>
   fst (getRollingOBI now None c) = orZeroOpt (fst (getAverage now (obiYes c)))"
  by (simp add: getRollingOBI_def Let_def split: prod.splits)

lemma getRollingOBI_no:
  "fst (getRollingOBI now (Some ''NO'') c) = orZeroOpt (fst (getAverage now (obiNo c)))"
  by (simp add: getRollingOBI_def Let_def split: prod.splits)

lemma isBlocking_fst:
  "fst (isBlocking now sideArg thresholdArg c) =
     (fst (getRollingOBI now (Some (case sideArg of None \<Rightarrow> ''YES'' | Some x \<Rightarrow> x)) c)
        \<le> (case thresholdArg of None \<Rightarrow> -0.30 | Some t \<Rightarrow> t))"
  by (simp add: isBlocking_def Let_def split: prod.splits)

text \<open>
  Claim C10. When the rolling average of a side holds no sample inside its window (every
  stored sample is older than the cutoff, or there is none, as in a new calculator),
  \<open>getAverage\<close> returns null, \<open>getRollingOBI\<close> for that side returns 0, and
  \<open>isBlocking\<close> returns false against the default threshold -0.30: the gate passes.
\<close>

theorem obi_gate_without_samples:
  "((\<forall>s\<in>set (samples (obiYes c)). timestamp s < now - windowMs (obiYes c)) \<longrightarrow>
      fst (getAverage now (obiYes c)) = None \<and>
      fst (getRollingOBI now (Some ''YES'') c) = 0 \<and>
      fst (getRollingOBI now None c) = 0 \<and>
      \<not> fst (isBlocking now (Some ''YES'') None c) \<and>
      \<not> fst (isBlocking now None None c) \<and>
      \<not> fst (isBlocking now (Some ''YES'') (Some (-0.30)) c)) \<and>
   ((\<forall>s\<in>set (samples (obiNo c)). timestamp s < now - windowMs (obiNo c)) \<longrightarrow>
      fst (getAverage now (obiNo c)) = None \<and>
      fst (getRollingOBI now (Some ''NO'') c) = 0 \<and>
      \<not> fst (isBlocking now (Some ''NO'') None c) \<and>
      \<not> fst (isBlocking now (Some ''NO'') (Some (-0.30)) c)) \<and>
   fst (getRollingOBI now (Some ''YES'') (newOBICalculator w n)) = 0 \<and>
   fst (getRollingOBI now (Some ''NO'') (newOBICalculator w n)) = 0 \<and>
   \<not> fst (isBlocking now (Some ''YES'') None (newOBICalculator w n)) \<and>
   \<not> fst (isBlocking now (Some ''NO'') None (newOBICalculator w n))"
proof (intro conjI impI)
  assume h: "\<forall>s\<in>set (samples (obiYes c)). timestamp s < now - windowMs (obiYes c)"
  have a: "fst (getAverage now (obiYes c)) = None" using h by (rule getAverage_no_samples)
  show "fst (getAverage now (obiYes c)) = None" by (rule a)
  show "fst (getRollingOBI now (Some ''YES'') c) = 0"
    by (simp add: getRollingOBI_yes a orZeroOpt_def)
  show "fst (getRollingOBI now None c) = 0"
    by (simp add: getRollingOBI_yes a orZeroOpt_def)
  show "\<not> fst (isBlocking now (Some ''YES'') None c)"
    by (simp add: isBlocking_fst getRollingOBI_yes a orZeroOpt_def)
  show "\<not> fst (isBlocking now None None c)"
    by (simp add: isBlocking_fst getRollingOBI_yes a orZeroOpt_def)
  show "\<not> fst (isBlocking now (Some ''YES'') (Some (-0.30)) c)"
    by (simp add: isBlocking_fst getRollingOBI_yes a orZeroOpt_def)
next
  assume h: "\<forall>s\<in>set (samples (obiNo c)). timestamp s < now - windowMs (obiNo c)"
  have a: "fst (getAverage now (obiNo c)) = None" using h by (rule getAverage_no_samples)
  show "fst (getAverage now (obiNo c)) = None" by (rule a)
  show "fst (getRollingOBI now (Some ''NO'') c) = 0"
    by (simp add: getRollingOBI_no a orZeroOpt_def)
  show "\<not> fst (isBlocking now (Some ''NO'') None c)"
    by (simp add: isBlocking_fst getRollingOBI_no a orZeroOpt_def)
  show "\<not> fst (isBlocking now (Some ''NO'') (Some (-0.30)) c)"
    by (simp add: isBlocking_fst getRollingOBI_no a orZeroOpt_def)
next
  have y: "fst (getAverage now (obiYes (newOBICalculator w n))) = None"
    by (rule getAverage_no_samples) (simp add: newOBICalculator_def newRollingAverage_def)
  have x: "fst (getAverage now (obiNo (newOBICalculator w n))) = None"
    by (rule getAverage_no_samples) (simp add: newOBICalculator_def newRollingAverage_def)
  show "fst (getRollingOBI now (Some ''YES'') (newOBICalculator w n)) = 0"
    by (simp add: getRollingOBI_yes y orZeroOpt_def)
  show "fst (getRollingOBI now (Some ''NO'') (newOBICalculator w n)) = 0"
    by (simp add: getRollingOBI_no x orZeroOpt_def)
  show "\<not> fst (isBlocking now (Some ''YES'') None (newOBICalculator w n))"
    by (simp add: isBlocking_fst getRollingOBI_yes y orZeroOpt_def)
  show "\<not> fst (isBlocking now (Some ''NO'') None (newOBICalculator w n))"
    by (simp add: isBlocking_fst getRollingOBI_no x orZeroOpt_def)
qed

theorem obi_gate_without_samples_witness:
  "fst (getRollingOBI 200000 (Some ''YES'')
     \<lparr> obiWindowMs = 90000, topN = 10,
        obiYes = \<lparr> windowMs = 90000, samples = [\<lparr> timestamp = 1000, sampleValue = -0.9 \<rparr>] \<rparr>,
        obiNo = newRollingAverage 90000, obiCombined = newRollingAverage 90000 \<rparr>) = 0 \<and>
   \<not> fst (isBlocking 200000 (Some ''YES'') None
     \<lparr> obiWindowMs = 90000, topN = 10,
        obiYes = \<lparr> windowMs = 90000, samples = [\<lparr> timestamp = 1000, sampleValue = -0.9 \<rparr>] \<rparr>,
        obiNo = newRollingAverage 90000, obiCombined = newRollingAverage 90000 \<rparr>) \<and>
   fst (getRollingOBI 200000 (Some ''NO'')
     \<lparr> obiWindowMs = 90000, topN = 10,
        obiYes = \<lparr> windowMs = 90000, samples = [\<lparr> timestamp = 1000, sampleValue = -0.9 \<rparr>] \<rparr>,
        obiNo = newRollingAverage 90000, obiCombined = newRollingAverage 90000 \<rparr>) = 0 \<and>
   \<not> fst (isBlocking 200000 (Some ''NO'') None
     \<lparr> obiWindowMs = 90000, topN = 10,
        obiYes = \<lparr> windowMs = 90000, samples = [\<lparr> timestamp = 1000, sampleValue = -0.9 \<rparr>] \<rparr>,
        obiNo = newRollingAverage 90000, obiCombined = newRollingAverage 90000 \<rparr>)"
proof -
  let ?c = "\<lparr> obiWindowMs = 90000, topN = 10,
        obiYes = \<lparr> windowMs = 90000, samples = [\<lparr> timestamp = 1000, sampleValue = -0.9 \<rparr>] \<rparr>,
        obiNo = newRollingAverage 90000, obiCombined = newRollingAverage 90000 \<rparr>"
  have y: "\<forall>s\<in>set (samples (obiYes ?c)). timestamp s < 200000 - windowMs (obiYes ?c)"
    by simp
  have x: "\<forall>s\<in>set (samples (obiNo ?c)). timestamp s < 200000 - windowMs (obiNo ?c)"
    by (simp add: newRollingAverage_def)
  show ?thesis
    using obi_gate_without_samples [of ?c 200000 90000 10] y x by blast
qed

end
